theory Spec2Isabelle
  imports Main "HOL-Library.Word" "HOL-Library.Signed_Division"
begin

unbundle bit_operations_syntax

section \<open>Error codes\<close>

text \<open>
  The enumerators of \<open>UbiDevice::ErrorCode\<close> that \<open>ubi_device.cpp\<close> returns. The enumeration
  itself is declared in \<open>IUbiDevice.h\<close>; its numbering is a parameter of the model
  (\<open>error_num\<close> below).
\<close>

datatype ErrorCode =
    ATTACH__CANNOT_ATTACH_MTD_DEVICE
  | ATTACH__MTD_NUM_TO_UBI_ERROR
  | CANNOT_FIND_UBI_VOLUME_ERROR
  | CANNOT_OPEN_MTD_DEVICE_FILE_ERROR
  | CHECK_KERNEL_SUPPORT__CANNOT_GET_UBI_INFORMATION_ERROR
  | CHECK_KERNEL_SUPPORT__ATTACH_DETACH_FEATURE_IS_NOT_SUPPORTED
  | CREATE__MTD_NAME_TO_NUM_NOT_FOUND_ERROR
  | CREATE__MTD_TABLE_CREATE_FAILED_ERROR
  | DETACH__CANNOT_DETACH_MTD_DEVICE_ERROR
  | FORMAT__BAD_BLOCK_NOT_SUPPORTED_BY_THIS_FLASH_ERROR
  | FORMAT__BAD_ERASEBLOCKS_AFTER_SCAN_ERROR
  | FORMAT__CANNOT_WRITE_EC_HEADER
  | FORMAT__CANNOT_WRITE_LAYOUT_VOLUME
  | FORMAT__CONSECUTIVE_BAD_BLOCKS_EXCEED_LIMIT_ERROR
  | FORMAT__CONSECUTIVE_BAD_CHECK_ERROR
  | FORMAT__FAILED_TO_ERASE_ERASEBLOCK_ERROR
  | FORMAT__MARK_BAD_FAILED_ERROR
  | FORMAT__MIN_IO_SIZE_NOT_POWER_OF_2_ERROR
  | FORMAT__MTD_DEVICE_IS_ALREADY_ATTACHED_TO_UBI_DEVICE_ERROR
  | FORMAT__MTD_DEVICE_IS_A_READ_ONLY_DEVICE_ERROR
  | FORMAT__MTD_GET_DEV_INFO_FAILURE_ERROR
  | FORMAT__MTD_GET_INFO_FAILURE_ERROR
  | FORMAT__MTD_MARK_BAD_FAILED_ERROR
  | FORMAT__NO_ERASEBLOCKS_FOR_VOLUME_TABLE_ERROR
  | FORMAT__TOO_FEW_NON_BAD_ERASE_BLOCKS_AFTER_SCAN_ERROR
  | FORMAT__UBIGEN_CREATE_EMPTY_VTBL_ERROR
  | FORMAT__UBI_SCAN_FAILURE_ERROR
  | MAKE_VOLUME__GENERAL_ERROR
  | MAKE_VOLUME__UBI_GET_DEV_INFO_ERROR
  | MAKE_VOLUME__UBI_DEVICE_NOT_ENOUGH_FREE_LOGICAL_ERASEBLOCKS_ERROR
  | MOUNT_VOLUME__MOUNT_FAILED_ERROR
  | NOT_AN_UBI_DEVICE_NODE_ERROR
  | OPEN_LIB_MTD__CANNOT_OPEN_LIBMTD_ERROR
  | OPEN_LIB_MTD__MTD_IS_NOT_PRESENT_IN_THE_SYSTEM
  | OPEN_LIB_UBI__CANNOT_OPEN_LIBUBI_ERROR
  | OPEN_LIB_UBI__UBI_IS_NOT_PRESENT_IN_THE_SYSTEM
  | PROBE_NODE_ERROR
  | REMOVE_VOLUME__GENERAL_ERROR
  | REMOVE_VOLUME__CANNOT_FIND_INFORMATION_ABOUT_UBI_DEVICE_ERROR
  | UBI_PROBE_NODE_FAILED_ERROR
  | UBI_WRITE_FAILED_ERROR
  | UNMOUNT_VOLUME__UMOUNT_FAILED_ERROR
  | UPDATE_VOL__CANNOT_CANNOT_START_VOLUME_ERROR
  | UPDATE_VOL__CANNOT_READ_FROM_UBIFS_IMAGE_FILE_ERROR
  | UPDATE_VOL__LSEEK_ON_IMAGE_FD_FAILED_ERROR
  | UPDATE_VOL__NO_SPACE_ERROR
  | UPDATE_VOL__STAT_FAILED_ERROR
  | UPDATE_VOL__UBIFS_IMAGE_FILE_NOT_EXIST_ERROR
  | UPDATE_VOL__UBI_WRITE_FAILED_ERROR

section \<open>Data of the native libraries\<close>

text \<open>
  The structures of libmtd, libubi, libscan and libubigen, restricted to the fields that
  \<open>ubi_device.cpp\<close> reads or writes. C \<open>int\<close> and \<open>long long\<close> values are integers,
  \<open>uint32_t\<close> values are 32-bit words. Fields that several structures share are written
  with the structure's name in front.
\<close>

record mtd_dev_info =
  mtd_num :: int
  eb_cnt :: int
  eb_size :: int
  min_io_size :: int
  subpage_size :: int
  writable :: bool
  bb_allowed :: bool

record ubi_scan_info =
  ec :: "32 word list"
  mean_ec :: int
  ok_cnt :: int
  empty_cnt :: int
  alien_cnt :: int
  bad_cnt :: int
  good_cnt :: int
  vid_hdr_offs :: int
  data_offs :: int

record ubigen_info =
  vid_hdr_offs :: int
  data_offs :: int

record ubi_dev_info =
  dev_num :: int
  avail_bytes :: int

record ubi_vol_info =
  vol_id :: int
  rsvd_bytes :: int
  leb_size :: int

record ubi_attach_request =
  dev_num :: int
  mtd_num :: int
  vid_hdr_offset :: int
  max_beb_per1024 :: int

record ubi_mkvol_request =
  vol_id :: int
  alignment :: int
  bytes :: int
  vol_type :: int
  name :: string

text \<open>\<open>struct FormatAttr\<close> of \<open>UbiDevice\<close>, with its default member initialisers.\<close>

record FormatAttr =
  override_ec :: nat
  subpage_size :: int
  vid_hdr_offs :: int
  ubi_ver :: int
  image_seq :: "32 word"
  ec :: int
  node_fd :: int

definition FormatAttr_default :: FormatAttr where
  "FormatAttr_default =
     \<lparr>override_ec = 0, subpage_size = 0, vid_hdr_offs = 0, ubi_ver = 1, image_seq = 0,
      ec = 0, node_fd = 0\<rparr>"

section \<open>The native subsystem\<close>

text \<open>
  Every call into libubi, libmtd, libscan, libubigen and the operating system is an event
  of type \<open>native_call\<close>; an operation of the model returns, next to its result, the list
  of the calls it made, in order. The release of handles by the \<open>RAII\<close> guards of
  \<open>raii.h\<close> is not part of the model.
\<close>

datatype native_call =
    Libubi_open
  | Libmtd_open
  | Ubi_get_info
  | Ubi_attach string ubi_attach_request
  | Mtd_num2ubi_dev int
  | Ubi_detach_mtd string int
  | Ubi_probe_node string
  | Ubi_get_dev_info string
  | Ubi_mkvol string ubi_mkvol_request
  | Ubi_get_vol_info1_nm int string
  | Ubi_rmvol string int
  | Ifstream_open string
  | Sys_stat string
  | Sys_open string int
  | Sys_lseek int int
  | Ubi_update_start int int
  | Sys_read int int int
  | Sys_write int int int
  | Sys_mount string string string
  | Sys_umount string
  | Mtd_get_info
  | Mtd_get_dev_info string
  | Ubi_scan
  | Mtd_erase int
  | Mtd_write int int
  | Mtd_torture int
  | Mtd_mark_bad int
  | Ubigen_create_empty_vtbl
  | Ubigen_write_layout_vol int int int int

text \<open>
  \<open>Sys_read fd count n\<close> and \<open>Sys_write fd count n\<close> are the calls \<open>read(fd, buf, count)\<close>
  and \<open>write(fd, buf, count)\<close> together with the value \<open>n\<close> they returned, so that the
  bytes a transfer moved can be read off its list of calls.
\<close>

text \<open>
  What the native side answers is a parameter of every operation: a record with one field
  per native function. A field is a plain value where the function is called once in an
  operation, a function of the block number for the per-block calls of the format loop,
  and a function of the call's position for \<open>read\<close> and \<open>write\<close>, which the transfer loop
  repeats. Where the code inspects \<open>errno\<close> after a call, the answer carries it.

  The constants and pure helpers that the code takes from headers outside the repository
  (\<open>errno.h\<close>, \<open>fcntl.h\<close>, \<open>libscan.h\<close>, \<open>ubi-user.h\<close>, \<open>common.h\<close>, \<open>IUbiDevice.h\<close>)
  are fields of the same record, so every theorem holds for any value of them. The last two
  fields are the answers of the partition table \<open>MtdTable\<close>, which is not a native call.
\<close>

record native_env =
  EIO :: int
  EINTR :: int
  ENODEV :: int
  O_RDWR :: int
  O_RDONLY :: int
  EB_BAD :: "32 word"
  EC_MAX :: "32 word"
  UBI_DEV_NUM_AUTO :: int
  UBI_VOL_NUM_AUTO :: int
  UBI_DYNAMIC_VOLUME :: int
  error_num :: "ErrorCode \<Rightarrow> int"
  is_power_of_2 :: "int \<Rightarrow> bool"
  ubigen_info_init :: "int \<Rightarrow> int \<Rightarrow> int \<Rightarrow> int \<Rightarrow> int \<Rightarrow> 32 word \<Rightarrow> ubigen_info"
  libubi_open_r :: "bool \<times> int"
  libmtd_open_r :: "bool \<times> int"
  ubi_get_info_r :: "int \<times> int"
  ubi_attach_r :: "ubi_attach_request \<Rightarrow> int"
  mtd_num2ubi_dev_r :: "int \<Rightarrow> int \<times> int"
  ubi_detach_mtd_r :: "int \<Rightarrow> int"
  ubi_probe_node_r :: "string \<Rightarrow> int \<times> int"
  ubi_get_dev_info_r :: "string \<Rightarrow> int \<times> ubi_dev_info"
  ubi_mkvol_r :: "string \<Rightarrow> ubi_mkvol_request \<Rightarrow> int"
  ubi_get_vol_info1_nm_r :: "int \<Rightarrow> string \<Rightarrow> int \<times> ubi_vol_info"
  ubi_rmvol_r :: "string \<Rightarrow> int \<Rightarrow> int"
  ifstream_good :: "string \<Rightarrow> bool"
  stat_r :: "string \<Rightarrow> int \<times> int"
  open_r :: "string \<Rightarrow> int \<Rightarrow> int"
  lseek_r :: "int \<Rightarrow> int \<Rightarrow> int"
  ubi_update_start_r :: "int \<Rightarrow> int \<Rightarrow> int"
  read_r :: "nat \<Rightarrow> int \<times> int"
  write_r :: "nat \<Rightarrow> int \<times> int"
  mount_r :: "string \<Rightarrow> string \<Rightarrow> int"
  umount_r :: "string \<Rightarrow> int"
  mtd_get_info_r :: "int \<times> bool"
  mtd_get_dev_info_r :: "string \<Rightarrow> int \<times> mtd_dev_info"
  ubi_scan_r :: "int \<times> ubi_scan_info"
  mtd_erase_r :: "int \<Rightarrow> int \<times> int"
  mtd_write_r :: "int \<Rightarrow> int \<times> int"
  mtd_torture_r :: "int \<Rightarrow> int"
  mtd_mark_bad_r :: "int \<Rightarrow> int"
  ubigen_create_empty_vtbl_ok :: bool
  ubigen_write_layout_vol_r :: "int \<Rightarrow> int \<Rightarrow> int \<Rightarrow> int \<Rightarrow> int"
  MtdTable_Create_ok :: bool
  GetMtdNum_r :: "string \<Rightarrow> int option"

subsection \<open>Device paths\<close>

text \<open>\<open>folly::sformat("{}{}", prefix, n)\<close> prints the number in decimal.\<close>

fun digits :: "nat \<Rightarrow> string" where
  "digits n =
     (if n < 10 then [char_of (48 + n)] else digits (n div 10) @ [char_of (48 + n mod 10)])"

declare digits.simps [simp del]

definition sformat_int :: "int \<Rightarrow> string" where
  "sformat_int i = (if i < 0 then CHR ''-'' # digits (nat (- i)) else digits (nat i))"

definition kDefaultCtrlDev :: string where
  "kDefaultCtrlDev = ''/dev/ubi_ctrl''"

definition kUbiDeviceFilePrefix :: string where
  "kUbiDeviceFilePrefix = ''/dev/ubi''"

definition kMtdDeviceFilePrefix :: string where
  "kMtdDeviceFilePrefix = ''/dev/mtd''"

definition kAttachDefaultVidHdrOffset :: int where
  "kAttachDefaultVidHdrOffset = 0"

definition kAttachDefaultMaxBebPer1024 :: int where
  "kAttachDefaultMaxBebPer1024 = 0"

definition kMakeVolDefaultAlignment :: int where
  "kMakeVolDefaultAlignment = 1"

definition kMaxConsecutiveBadBlocks :: int where
  "kMaxConsecutiveBadBlocks = 4"

section \<open>The device handle\<close>

text \<open>
  The members \<open>is_attached_\<close>, \<open>mtd_num_\<close> and \<open>ubi_device_file_name_\<close> of \<open>UbiDevice\<close>
  (a name cannot end with an underscore here). An operation takes the handle and returns
  it, so a member it assigns shows in the handle returned.
\<close>

record UbiDevice =
  is_attached :: bool
  mtd_num :: int
  ubi_device_file_name :: string

text \<open>The constructor \<open>UbiDevice(int mtd_num)\<close>.\<close>

definition UbiDevice_new :: "int \<Rightarrow> UbiDevice" where
  "UbiDevice_new n = \<lparr>is_attached = False, UbiDevice.mtd_num = n, ubi_device_file_name = []\<rparr>"

definition CreateUbiLibFileHandle :: "native_env \<Rightarrow> (ErrorCode + unit) \<times> native_call list" where
  "CreateUbiLibFileHandle env =
     (case libubi_open_r env of (opened, errno) \<Rightarrow>
        (if \<not> opened then
           (if errno = 0 then Inl OPEN_LIB_UBI__UBI_IS_NOT_PRESENT_IN_THE_SYSTEM
            else Inl OPEN_LIB_UBI__CANNOT_OPEN_LIBUBI_ERROR)
         else Inr (),
         [Libubi_open]))"

definition CreateMtdLibFileHandle :: "native_env \<Rightarrow> (ErrorCode + unit) \<times> native_call list" where
  "CreateMtdLibFileHandle env =
     (case libmtd_open_r env of (opened, errno) \<Rightarrow>
        (if \<not> opened then
           (if errno = 0 then Inl OPEN_LIB_MTD__MTD_IS_NOT_PRESENT_IN_THE_SYSTEM
            else Inl OPEN_LIB_MTD__CANNOT_OPEN_LIBMTD_ERROR)
         else Inr (),
         [Libmtd_open]))"

text \<open>The handle returned on success is the file descriptor.\<close>

definition CreateCStyleFileHandle ::
  "native_env \<Rightarrow> string \<Rightarrow> int \<Rightarrow> (ErrorCode + int) \<times> native_call list" where
  "CreateCStyleFileHandle env file_name mode =
     (let fd = open_r env file_name mode in
      (if fd = - 1 then Inl CANNOT_OPEN_MTD_DEVICE_FILE_ERROR else Inr fd,
       [Sys_open file_name mode]))"

definition CheckKernelSupportForAttachDetachRequest ::
  "native_env \<Rightarrow> (ErrorCode + unit) \<times> native_call list" where
  "CheckKernelSupportForAttachDetachRequest env =
     (case ubi_get_info_r env of (ret, ctrl_major) \<Rightarrow>
        (if ret \<noteq> 0 then Inl CHECK_KERNEL_SUPPORT__CANNOT_GET_UBI_INFORMATION_ERROR
         else if ctrl_major = - 1 then
           Inl CHECK_KERNEL_SUPPORT__ATTACH_DETACH_FEATURE_IS_NOT_SUPPORTED
         else Inr (),
         [Ubi_get_info]))"

definition Attach ::
  "native_env \<Rightarrow> UbiDevice \<Rightarrow> (ErrorCode + unit) \<times> UbiDevice \<times> native_call list" where
  "Attach env d =
     (case CreateUbiLibFileHandle env of
        (Inl e, cs) \<Rightarrow> (Inl e, d, cs)
      | (Inr _, cs) \<Rightarrow>
          (case CheckKernelSupportForAttachDetachRequest env of
             (Inl e, cs') \<Rightarrow> (Inl e, d, cs @ cs')
           | (Inr _, cs') \<Rightarrow>
               (let req = \<lparr>ubi_attach_request.dev_num = UBI_DEV_NUM_AUTO env,
                           ubi_attach_request.mtd_num = UbiDevice.mtd_num d,
                           vid_hdr_offset = kAttachDefaultVidHdrOffset,
                           max_beb_per1024 = kAttachDefaultMaxBebPer1024\<rparr>;
                    cs2 = cs @ cs' @ [Ubi_attach kDefaultCtrlDev req]
                in if ubi_attach_r env req < 0 then
                     (Inl ATTACH__CANNOT_ATTACH_MTD_DEVICE, d, cs2)
                   else
                     (case mtd_num2ubi_dev_r env (UbiDevice.mtd_num d) of
                        (ret, ubi_dev_num) \<Rightarrow>
                          (let cs3 = cs2 @ [Mtd_num2ubi_dev (UbiDevice.mtd_num d)]
                           in if ret \<noteq> 0 then (Inl ATTACH__MTD_NUM_TO_UBI_ERROR, d, cs3)
                              else
                                (Inr (),
                                 d\<lparr>ubi_device_file_name :=
                                      kUbiDeviceFilePrefix @ sformat_int ubi_dev_num,
                                    is_attached := True\<rparr>,
                                 cs3))))))"

definition Detach ::
  "native_env \<Rightarrow> UbiDevice \<Rightarrow> (ErrorCode + unit) \<times> UbiDevice \<times> native_call list" where
  "Detach env d =
     (case CreateUbiLibFileHandle env of
        (Inl e, cs) \<Rightarrow> (Inl e, d, cs)
      | (Inr _, cs) \<Rightarrow>
          (case CheckKernelSupportForAttachDetachRequest env of
             (Inl e, cs') \<Rightarrow>
               (Inl CHECK_KERNEL_SUPPORT__ATTACH_DETACH_FEATURE_IS_NOT_SUPPORTED, d, cs @ cs')
           | (Inr _, cs') \<Rightarrow>
               (let cs2 = cs @ cs' @ [Ubi_detach_mtd kDefaultCtrlDev (UbiDevice.mtd_num d)]
                in if ubi_detach_mtd_r env (UbiDevice.mtd_num d) < 0 then
                     (Inl DETACH__CANNOT_DETACH_MTD_DEVICE_ERROR, d, cs2)
                   else (Inr (), d, cs2))))"

text \<open>
  The destructor \<open>~UbiDevice\<close>: it detaches when the flag is set and only logs a failure.
  Its value is the list of native calls it makes.
\<close>

definition UbiDevice_dtor :: "native_env \<Rightarrow> UbiDevice \<Rightarrow> native_call list" where
  "UbiDevice_dtor env d =
     (if is_attached d then (case Detach env d of (r, d', cs) \<Rightarrow> cs) else [])"

text \<open>
  \<open>UbiProbeNode\<close> probes the member \<open>ubi_device_file_name_\<close>; its flag
  \<open>is_to_print_log_error\<close> only selects what is logged.
\<close>

definition UbiProbeNode ::
  "native_env \<Rightarrow> UbiDevice \<Rightarrow> (ErrorCode + unit) \<times> native_call list" where
  "UbiProbeNode env d =
     (case ubi_probe_node_r env (ubi_device_file_name d) of (ret, errno) \<Rightarrow>
        (if ret = 2 then Inl NOT_AN_UBI_DEVICE_NODE_ERROR
         else if ret < 0 then
           (if errno = ENODEV env then Inl NOT_AN_UBI_DEVICE_NODE_ERROR
            else Inl PROBE_NODE_ERROR)
         else Inr (),
         [Ubi_probe_node (ubi_device_file_name d)]))"

section \<open>Volume lifecycle\<close>

definition MakeVolume ::
  "native_env \<Rightarrow> UbiDevice \<Rightarrow> string \<Rightarrow> 32 word \<Rightarrow> (int + unit) \<times> native_call list" where
  "MakeVolume env d vol_name size_in_bytes =
     (case CreateUbiLibFileHandle env of
        (Inl e, cs) \<Rightarrow> (Inl (error_num env e), cs)
      | (Inr _, cs) \<Rightarrow>
          (case UbiProbeNode env d of
             (Inl e, cs') \<Rightarrow> (Inl (error_num env UBI_PROBE_NODE_FAILED_ERROR), cs @ cs')
           | (Inr _, cs') \<Rightarrow>
               (case ubi_get_dev_info_r env (ubi_device_file_name d) of (ret, dev_info) \<Rightarrow>
                  (let cs2 = cs @ cs' @ [Ubi_get_dev_info (ubi_device_file_name d)]
                   in if ret \<noteq> 0 then
                        (Inl (error_num env MAKE_VOLUME__UBI_GET_DEV_INFO_ERROR), cs2)
                      else if avail_bytes dev_info = 0 then
                        (Inl (error_num env
                            MAKE_VOLUME__UBI_DEVICE_NOT_ENOUGH_FREE_LOGICAL_ERASEBLOCKS_ERROR),
                         cs2)
                      else
                        (let req = \<lparr>ubi_mkvol_request.vol_id = UBI_VOL_NUM_AUTO env,
                                    alignment = kMakeVolDefaultAlignment,
                                    bytes = (if size_in_bytes = 0 then avail_bytes dev_info
                                             else uint size_in_bytes),
                                    vol_type = UBI_DYNAMIC_VOLUME env,
                                    name = vol_name\<rparr>;
                             cs3 = cs2 @ [Ubi_mkvol (ubi_device_file_name d) req]
                         in if ubi_mkvol_r env (ubi_device_file_name d) req < 0 then
                              (Inl (error_num env MAKE_VOLUME__GENERAL_ERROR), cs3)
                            else (Inr (), cs3))))))"

definition RemoveVolume ::
  "native_env \<Rightarrow> UbiDevice \<Rightarrow> string \<Rightarrow> bool \<Rightarrow> (int + unit) \<times> native_call list" where
  "RemoveVolume env d vol_name is_to_print_log_error =
     (case CreateUbiLibFileHandle env of
        (Inl e, cs) \<Rightarrow> (Inl (error_num env e), cs)
      | (Inr _, cs) \<Rightarrow>
          (case UbiProbeNode env d of
             (Inl e, cs') \<Rightarrow> (Inl (error_num env UBI_PROBE_NODE_FAILED_ERROR), cs @ cs')
           | (Inr _, cs') \<Rightarrow>
               (case ubi_get_dev_info_r env (ubi_device_file_name d) of (ret, dev_info) \<Rightarrow>
                  (let cs2 = cs @ cs' @ [Ubi_get_dev_info (ubi_device_file_name d)]
                   in if ret \<noteq> 0 then
                        (Inl (error_num env
                            REMOVE_VOLUME__CANNOT_FIND_INFORMATION_ABOUT_UBI_DEVICE_ERROR),
                         cs2)
                      else
                        (case ubi_get_vol_info1_nm_r env (ubi_dev_info.dev_num dev_info) vol_name of
                           (ret2, vol_info) \<Rightarrow>
                             (let cs3 = cs2 @
                                    [Ubi_get_vol_info1_nm (ubi_dev_info.dev_num dev_info) vol_name]
                              in if ret2 \<noteq> 0 then
                                   (Inl (error_num env CANNOT_FIND_UBI_VOLUME_ERROR), cs3)
                                 else
                                   (let cs4 = cs3 @
                                          [Ubi_rmvol (ubi_device_file_name d)
                                             (ubi_vol_info.vol_id vol_info)]
                                    in if ubi_rmvol_r env (ubi_device_file_name d)
                                            (ubi_vol_info.vol_id vol_info) \<noteq> 0
                                       then (Inl (error_num env REMOVE_VOLUME__GENERAL_ERROR), cs4)
                                       else (Inr (), cs4))))))))"

definition GetUbiVolumeFile ::
  "native_env \<Rightarrow> UbiDevice \<Rightarrow> string \<Rightarrow> (ErrorCode + string) \<times> native_call list" where
  "GetUbiVolumeFile env d vol_name =
     (case CreateUbiLibFileHandle env of
        (Inl e, cs) \<Rightarrow> (Inl e, cs)
      | (Inr _, cs) \<Rightarrow>
          (case UbiProbeNode env d of
             (Inl e, cs') \<Rightarrow> (Inl UBI_PROBE_NODE_FAILED_ERROR, cs @ cs')
           | (Inr _, cs') \<Rightarrow>
               (case ubi_get_dev_info_r env (ubi_device_file_name d) of (ret, dev_info) \<Rightarrow>
                  (let cs2 = cs @ cs' @ [Ubi_get_dev_info (ubi_device_file_name d)]
                   in if ret \<noteq> 0 then
                        (Inl REMOVE_VOLUME__CANNOT_FIND_INFORMATION_ABOUT_UBI_DEVICE_ERROR, cs2)
                      else
                        (case ubi_get_vol_info1_nm_r env (ubi_dev_info.dev_num dev_info) vol_name of
                           (ret2, vol_info) \<Rightarrow>
                             (let cs3 = cs2 @
                                    [Ubi_get_vol_info1_nm (ubi_dev_info.dev_num dev_info) vol_name]
                              in if ret2 \<noteq> 0 then (Inl CANNOT_FIND_UBI_VOLUME_ERROR, cs3)
                                 else
                                   (Inr (ubi_device_file_name d @ ''_'' @
                                           sformat_int (ubi_vol_info.vol_id vol_info)),
                                    cs3)))))))"

section \<open>Mount adapter\<close>

definition MountVolume ::
  "native_env \<Rightarrow> UbiDevice \<Rightarrow> string \<Rightarrow> string \<Rightarrow> (int + unit) \<times> native_call list" where
  "MountVolume env d vol_name dir_to_mount =
     (case GetUbiVolumeFile env d vol_name of
        (Inl e, cs) \<Rightarrow> (Inl (error_num env e), cs)
      | (Inr ubi_volume_file_name, cs) \<Rightarrow>
          (let cs2 = cs @ [Sys_mount ubi_volume_file_name dir_to_mount ''ubifs'']
           in if mount_r env ubi_volume_file_name dir_to_mount \<noteq> 0 then
                (Inl (error_num env MOUNT_VOLUME__MOUNT_FAILED_ERROR), cs2)
              else (Inr (), cs2)))"

definition UnmountVolume ::
  "native_env \<Rightarrow> UbiDevice \<Rightarrow> string \<Rightarrow> (int + unit) \<times> native_call list" where
  "UnmountVolume env d dir_to_unmount =
     (if umount_r env dir_to_unmount \<noteq> 0 then
        (Inl (error_num env UNMOUNT_VOLUME__UMOUNT_FAILED_ERROR), [Sys_umount dir_to_unmount])
      else (Inr (), [Sys_umount dir_to_unmount]))"

section \<open>Format engine\<close>

subsection \<open>The consecutive-bad-block guard\<close>

text \<open>
  The two \<open>static\<close> locals of \<open>ConsecutiveBadBlocksCheck\<close>. They live as long as the
  process, so the guard takes them and returns them; \<open>guard_fresh\<close> holds their
  initialisers.
\<close>

record guard =
  consecutive_bad_blocks :: int
  prev_bb :: int

definition guard_fresh :: guard where
  "guard_fresh = \<lparr>consecutive_bad_blocks = 1, prev_bb = - 1\<rparr>"

definition ConsecutiveBadBlocksCheck :: "int \<Rightarrow> guard \<Rightarrow> (ErrorCode + unit) \<times> guard" where
  "ConsecutiveBadBlocksCheck eb gd =
     (let g1 = (if prev_bb gd = - 1 then gd\<lparr>prev_bb := eb\<rparr> else gd);
          g2 = (if eb = prev_bb g1 + 1 then
                  g1\<lparr>consecutive_bad_blocks := consecutive_bad_blocks g1 + 1\<rparr>
                else g1\<lparr>consecutive_bad_blocks := 1\<rparr>);
          g3 = g2\<lparr>prev_bb := eb\<rparr>
      in if consecutive_bad_blocks g3 \<ge> kMaxConsecutiveBadBlocks then
           (Inl FORMAT__CONSECUTIVE_BAD_BLOCKS_EXCEED_LIMIT_ERROR, g3)
         else (Inr (), g3))"

subsection \<open>Marking a block bad\<close>

text \<open>
  \<open>MarkBadBlocks\<close> updates the scan information in place; the model returns it, with the
  guard's state and the native calls made. \<open>FormatExec\<close>, its only caller, passes block
  numbers from \<open>0\<close> up to \<open>eb_cnt - 1\<close>, which index the table \<open>si->ec\<close> of \<open>eb_cnt\<close>
  entries.
\<close>

definition MarkBadBlocks ::
  "native_env \<Rightarrow> mtd_dev_info \<Rightarrow> ubi_scan_info \<Rightarrow> int \<Rightarrow> guard \<Rightarrow>
     (ErrorCode + unit) \<times> ubi_scan_info \<times> guard \<times> native_call list" where
  "MarkBadBlocks env mtd scan eb gd =
     (if \<not> bb_allowed mtd then
        (Inl FORMAT__BAD_BLOCK_NOT_SUPPORTED_BY_THIS_FLASH_ERROR, scan, gd, [])
      else if mtd_mark_bad_r env eb \<noteq> 0 then
        (Inl FORMAT__MTD_MARK_BAD_FAILED_ERROR, scan, gd, [Mtd_mark_bad eb])
      else
        (let scan' = scan\<lparr>bad_cnt := bad_cnt scan + 1,
                           ubi_scan_info.ec := (ubi_scan_info.ec scan)[nat eb := EB_BAD env]\<rparr>
         in case ConsecutiveBadBlocksCheck eb gd of
              (Inl e, gd') \<Rightarrow> (Inl FORMAT__CONSECUTIVE_BAD_CHECK_ERROR, scan', gd', [Mtd_mark_bad eb])
            | (Inr _, gd') \<Rightarrow> (Inr (), scan', gd', [Mtd_mark_bad eb])))"

text \<open>The results of a sequence of calls, each starting from the state the previous one left.\<close>

fun ConsecutiveBadBlocksCheck_calls :: "int list \<Rightarrow> guard \<Rightarrow> (ErrorCode + unit) list" where
  "ConsecutiveBadBlocksCheck_calls [] gd = []"
| "ConsecutiveBadBlocksCheck_calls (eb # ebs) gd =
     (case ConsecutiveBadBlocksCheck eb gd of
        (r, gd') \<Rightarrow> r # ConsecutiveBadBlocksCheck_calls ebs gd')"

fun MarkBadBlocks_calls ::
  "native_env \<Rightarrow> mtd_dev_info \<Rightarrow> int list \<Rightarrow> ubi_scan_info \<Rightarrow> guard \<Rightarrow> (ErrorCode + unit) list"
  where
  "MarkBadBlocks_calls env mtd [] scan gd = []"
| "MarkBadBlocks_calls env mtd (eb # ebs) scan gd =
     (case MarkBadBlocks env mtd scan eb gd of
        (r, scan', gd', cs) \<Rightarrow> r # MarkBadBlocks_calls env mtd ebs scan' gd')"

text \<open>No two block numbers of the list are adjacent, in either order.\<close>

fun pairwise_non_adjacent :: "int list \<Rightarrow> bool" where
  "pairwise_non_adjacent [] = True"
| "pairwise_non_adjacent (a # bs) =
     ((\<forall>b \<in> set bs. b \<noteq> a + 1 \<and> a \<noteq> b + 1) \<and> pairwise_non_adjacent bs)"

subsection \<open>The format loop\<close>

text \<open>
  The locals of \<open>FormatExec\<close> that the loop assigns, the scan information and the guard's
  state, and the native calls made so far.
\<close>

record fe_state =
  eb1 :: int
  eb2 :: int
  ec1 :: int
  ec2 :: int
  st_si :: ubi_scan_info
  st_guard :: guard
  st_calls :: "native_call list"

text \<open>The erase counter the loop computes for block \<open>eb\<close> before it erases the block.\<close>

definition block_ec :: "native_env \<Rightarrow> FormatAttr \<Rightarrow> ubi_scan_info \<Rightarrow> int \<Rightarrow> int" where
  "block_ec env format_attr scan eb =
     (if override_ec format_attr \<noteq> 0 then FormatAttr.ec format_attr
      else if ubi_scan_info.ec scan ! nat eb \<le> EC_MAX env then
        uint (ubi_scan_info.ec scan ! nat eb + 1)
      else mean_ec scan)"

text \<open>
  One pass through the body of the \<open>for\<close> loop, at block \<open>eb\<close>: \<open>Inr\<close> is the state with
  which the loop goes on to the next block (\<open>continue\<close> or the end of the body), \<open>Inl\<close> the
  error with which \<open>FormatExec\<close> returns from inside the loop, and the state at that point.
  \<open>Mtd_write eb e\<close> is the write of the erase-counter header built for counter \<open>e\<close>.
\<close>

definition FormatExec_body ::
  "native_env \<Rightarrow> mtd_dev_info \<Rightarrow> FormatAttr \<Rightarrow> int \<Rightarrow> fe_state \<Rightarrow>
     (ErrorCode \<times> fe_state) + fe_state" where
  "FormatExec_body env mtd format_attr eb s =
     (if ubi_scan_info.ec (st_si s) ! nat eb = EB_BAD env then Inr s
      else
        (let ecv = block_ec env format_attr (st_si s) eb;
             s1 = s\<lparr>st_calls := st_calls s @ [Mtd_erase eb]\<rparr>
         in case mtd_erase_r env eb of (ret, errno) \<Rightarrow>
           if ret \<noteq> 0 then
             (if errno \<noteq> EIO env then Inl (FORMAT__FAILED_TO_ERASE_ERASEBLOCK_ERROR, s1)
              else
                (case MarkBadBlocks env mtd (st_si s1) eb (st_guard s1) of
                   (r, scan', gd', cs) \<Rightarrow>
                     (let s2 = s1\<lparr>st_si := scan', st_guard := gd',
                                   st_calls := st_calls s1 @ cs\<rparr>
                      in case r of
                           Inl e \<Rightarrow> Inl (FORMAT__MARK_BAD_FAILED_ERROR, s2)
                         | Inr _ \<Rightarrow> Inr s2)))
           else if eb1 s1 = - 1 \<or> eb2 s1 = - 1 then
             (if eb1 s1 = - 1 then Inr (s1\<lparr>eb1 := eb, ec1 := ecv\<rparr>)
              else if eb2 s1 = - 1 then Inr (s1\<lparr>eb2 := eb, ec2 := ecv\<rparr>)
              else Inr s1)
           else
             (let s3 = s1\<lparr>st_calls := st_calls s1 @ [Mtd_write eb ecv]\<rparr>
              in case mtd_write_r env eb of (wret, werrno) \<Rightarrow>
                if wret \<noteq> 0 then
                  (if werrno \<noteq> EIO env \<and>
                      FormatAttr.subpage_size format_attr \<noteq> min_io_size mtd
                   then Inl (FORMAT__CANNOT_WRITE_EC_HEADER, s3)
                   else
                     (let s4 = s3\<lparr>st_calls := st_calls s3 @ [Mtd_torture eb]\<rparr>
                      in if mtd_torture_r env eb \<noteq> 0 then
                           (case MarkBadBlocks env mtd (st_si s4) eb (st_guard s4) of
                              (r, scan', gd', cs) \<Rightarrow>
                                (let s5 = s4\<lparr>st_si := scan', st_guard := gd',
                                              st_calls := st_calls s4 @ cs\<rparr>
                                 in case r of
                                      Inl e \<Rightarrow> Inl (FORMAT__MARK_BAD_FAILED_ERROR, s5)
                                    | Inr _ \<Rightarrow> Inr s5))
                         else Inr s4))
                else Inr s3)))"

function FormatExec_loop ::
  "native_env \<Rightarrow> mtd_dev_info \<Rightarrow> FormatAttr \<Rightarrow> int \<Rightarrow> fe_state \<Rightarrow>
     (ErrorCode \<times> fe_state) + fe_state" where
  "FormatExec_loop env mtd format_attr eb s =
     (if eb < eb_cnt mtd then
        (case FormatExec_body env mtd format_attr eb s of
           Inl x \<Rightarrow> Inl x
         | Inr s' \<Rightarrow> FormatExec_loop env mtd format_attr (eb + 1) s')
      else Inr s)"
  by pat_completeness auto
termination
  by (relation "measure (\<lambda>(env, mtd, format_attr, eb, s). nat (eb_cnt mtd - eb))") auto

declare FormatExec_loop.simps [simp del]

text \<open>
  The state in which \<open>FormatExec\<close> enters its loop: \<open>eb1\<close>, \<open>eb2\<close>, \<open>ec1\<close> and \<open>ec2\<close>
  are \<open>-1\<close>.
\<close>

definition fe_start :: "ubi_scan_info \<Rightarrow> guard \<Rightarrow> fe_state" where
  "fe_start scan gd =
     \<lparr>eb1 = - 1, eb2 = - 1, ec1 = - 1, ec2 = - 1,
      st_si = scan, st_guard = gd, st_calls = []\<rparr>"

definition FormatExec ::
  "native_env \<Rightarrow> mtd_dev_info \<Rightarrow> ubigen_info \<Rightarrow> ubi_scan_info \<Rightarrow> int \<Rightarrow> FormatAttr \<Rightarrow> guard \<Rightarrow>
     (ErrorCode + unit) \<times> fe_state" where
  "FormatExec env mtd ui scan start_eb format_attr gd =
     (case FormatExec_loop env mtd format_attr start_eb (fe_start scan gd) of
        Inl (e, s) \<Rightarrow> (Inl e, s)
      | Inr s \<Rightarrow>
          if eb1 s = - 1 \<or> eb2 s = - 1 then
            (Inl FORMAT__NO_ERASEBLOCKS_FOR_VOLUME_TABLE_ERROR, s)
          else
            (let s1 = s\<lparr>st_calls := st_calls s @ [Ubigen_create_empty_vtbl]\<rparr>
             in if \<not> ubigen_create_empty_vtbl_ok env then
                  (Inl FORMAT__UBIGEN_CREATE_EMPTY_VTBL_ERROR, s1)
                else
                  (let s2 = s1\<lparr>st_calls := st_calls s1 @
                                  [Ubigen_write_layout_vol (eb1 s) (eb2 s) (ec1 s) (ec2 s)]\<rparr>
                   in if ubigen_write_layout_vol_r env (eb1 s) (eb2 s) (ec1 s) (ec2 s) \<noteq> 0
                      then (Inl FORMAT__CANNOT_WRITE_LAYOUT_VOLUME, s2)
                      else (Inr (), s2))))"

subsection \<open>Format\<close>

text \<open>
  The value of an integer once stored in a signed 64-bit (\<open>long long\<close>, \<open>off_t\<close>) or
  32-bit (\<open>int\<close>) variable.
\<close>

definition signed64 :: "int \<Rightarrow> int" where
  "signed64 x = (x + 2 ^ 63) mod 2 ^ 64 - 2 ^ 63"

definition signed32 :: "int \<Rightarrow> int" where
  "signed32 x = (x + 2 ^ 31) mod 2 ^ 32 - 2 ^ 31"

text \<open>
  The erase-counter policy of \<open>Format\<close>, applied to the format attributes once the scan
  has reported at least two good blocks. The counts of \<open>ubi_scan_info\<close> are of type \<open>int\<close>,
  so the product \<open>si->ok_cnt * 100\<close> is taken in 32 bits and wraps around above
  21474836 blocks. \<open>sdiv\<close> is the division of C, which truncates.
\<close>

definition ec_policy :: "ubi_scan_info \<Rightarrow> FormatAttr \<Rightarrow> FormatAttr" where
  "ec_policy scan format_attr =
     (if empty_cnt scan < good_cnt scan then
        (let percent = signed32 (ok_cnt scan * 100) sdiv good_cnt scan
         in if percent < 50 then format_attr\<lparr>FormatAttr.ec := 0, override_ec := 1\<rparr>
            else if percent < 50 then
              format_attr\<lparr>FormatAttr.ec := mean_ec scan, override_ec := 1\<rparr>
            else format_attr)
      else format_attr)"

text \<open>
  \<open>Format\<close> is static: it takes the partition number \<open>mtd_n\<close> (the parameter \<open>mtd_num\<close>
  of the source), and the guard's state because
  \<open>MarkBadBlocks\<close> reaches it. It returns the result, the guard's state and the native
  calls made.
\<close>

definition Format ::
  "native_env \<Rightarrow> int \<Rightarrow> guard \<Rightarrow> (ErrorCode + unit) \<times> guard \<times> native_call list" where
  "Format env mtd_n gd =
     (case CreateMtdLibFileHandle env of
        (Inl e, cs) \<Rightarrow> (Inl e, gd, cs)
      | (Inr _, cs) \<Rightarrow>
     (case mtd_get_info_r env of (ret, sysfs_supported) \<Rightarrow>
     (let cs1 = cs @ [Mtd_get_info] in
      if ret \<noteq> 0 then (Inl FORMAT__MTD_GET_INFO_FAILURE_ERROR, gd, cs1)
      else
     (let mtd_device_file_name = kMtdDeviceFilePrefix @ sformat_int mtd_n in
      case mtd_get_dev_info_r env mtd_device_file_name of (ret2, mtd) \<Rightarrow>
     (let cs2 = cs1 @ [Mtd_get_dev_info mtd_device_file_name] in
      if ret2 \<noteq> 0 then (Inl FORMAT__MTD_GET_DEV_INFO_FAILURE_ERROR, gd, cs2)
      else if \<not> is_power_of_2 env (min_io_size mtd) then
        (Inl FORMAT__MIN_IO_SIZE_NOT_POWER_OF_2_ERROR, gd, cs2)
      else
     (case CreateCStyleFileHandle env mtd_device_file_name (O_RDWR env) of
        (Inl e, cs') \<Rightarrow> (Inl e, gd, cs2 @ cs')
      | (Inr fd, cs') \<Rightarrow>
     (let format_attr = FormatAttr_default\<lparr>node_fd := fd\<rparr>;
          cs3 = cs2 @ cs' in
      if \<not> writable mtd then (Inl FORMAT__MTD_DEVICE_IS_A_READ_ONLY_DEVICE_ERROR, gd, cs3)
      else
     (case CreateUbiLibFileHandle env of
        (Inl e, cs'') \<Rightarrow> (Inl e, gd, cs3 @ cs'')
      | (Inr _, cs'') \<Rightarrow>
     (case mtd_num2ubi_dev_r env (mtd_dev_info.mtd_num mtd) of (ret3, ubi_dev_num) \<Rightarrow>
     (let cs4 = cs3 @ cs'' @ [Mtd_num2ubi_dev (mtd_dev_info.mtd_num mtd)] in
      if ret3 = 0 then
        (Inl FORMAT__MTD_DEVICE_IS_ALREADY_ATTACHED_TO_UBI_DEVICE_ERROR, gd, cs4)
      else
     (case ubi_scan_r env of (ret4, scan) \<Rightarrow>
     (let cs5 = cs4 @ [Ubi_scan] in
      if ret4 \<noteq> 0 then (Inl FORMAT__UBI_SCAN_FAILURE_ERROR, gd, cs5)
      else if good_cnt scan = 0 then (Inl FORMAT__BAD_ERASEBLOCKS_AFTER_SCAN_ERROR, gd, cs5)
      else if good_cnt scan < 2 then
        (Inl FORMAT__TOO_FEW_NON_BAD_ERASE_BLOCKS_AFTER_SCAN_ERROR, gd, cs5)
      else
     (let format_attr' = ec_policy scan format_attr;
          ui = ubigen_info_init env (eb_size mtd) (min_io_size mtd)
                 (mtd_dev_info.subpage_size mtd) (FormatAttr.vid_hdr_offs format_attr')
                 (ubi_ver format_attr') (image_seq format_attr');
          ui' = (if ubi_scan_info.vid_hdr_offs scan \<noteq> - 1 \<and>
                    ubigen_info.vid_hdr_offs ui \<noteq> ubi_scan_info.vid_hdr_offs scan
                 then ubigen_info_init env (eb_size mtd) (min_io_size mtd) 0
                        (ubi_scan_info.vid_hdr_offs scan)
                        (ubi_ver format_attr') (image_seq format_attr')
                 else ui)
      in case FormatExec env mtd ui' scan 0 format_attr' gd of
           (r, s) \<Rightarrow> (r, st_guard s, cs5 @ st_calls s))))))))))))))"

text \<open>The calls that change the flash: erase, write, the destructive probe, the bad-block mark
  and the write of the layout volume.\<close>

fun modifies_flash :: "native_call \<Rightarrow> bool" where
  "modifies_flash (Mtd_erase eb) = True"
| "modifies_flash (Mtd_write eb e) = True"
| "modifies_flash (Mtd_torture eb) = True"
| "modifies_flash (Mtd_mark_bad eb) = True"
| "modifies_flash (Ubigen_write_layout_vol a b c d) = True"
| "modifies_flash _ = False"

subsection \<open>Create\<close>

text \<open>
  \<open>UbiDevice::Create\<close>: resolve the partition name, format on request, construct the
  handle and attach it. The handle is returned only when \<open>Attach\<close> succeeded; the local
  handle that is moved from, or dropped on failure, is unattached, so its destructor makes
  no call.
\<close>

definition Create ::
  "native_env \<Rightarrow> string \<Rightarrow> bool \<Rightarrow> guard \<Rightarrow> (int + UbiDevice) \<times> guard \<times> native_call list" where
  "Create env mtd_device_name is_to_format_first gd =
     (if \<not> MtdTable_Create_ok env then
        (Inl (error_num env CREATE__MTD_TABLE_CREATE_FAILED_ERROR), gd, [])
      else
        (case GetMtdNum_r env mtd_device_name of
           None \<Rightarrow> (Inl (error_num env CREATE__MTD_NAME_TO_NUM_NOT_FOUND_ERROR), gd, [])
         | Some n \<Rightarrow>
             (case (if is_to_format_first then Format env n gd else (Inr (), gd, [])) of
                (Inl e, gd', cs) \<Rightarrow> (Inl (error_num env e), gd', cs)
              | (Inr _, gd', cs) \<Rightarrow>
                  (case Attach env (UbiDevice_new n) of
                     (Inl e, d, cs') \<Rightarrow> (Inl (error_num env e), gd', cs @ cs')
                   | (Inr _, d, cs') \<Rightarrow> (Inr d, gd', cs @ cs')))))"

section \<open>Volume transfer\<close>

text \<open>
  The state of a transfer: how many \<open>read\<close> and \<open>write\<close> calls were made (the position
  of the next one in the environment's answers), and the native calls made.
\<close>

record xfer =
  n_read :: nat
  n_write :: nat
  x_calls :: "native_call list"

text \<open>
  \<open>UbiWrite\<close>: the answer of \<open>write\<close> is the value the code holds in \<open>ret_size\<close>. The loop
  repeats for as long as \<open>write\<close> is interrupted, so the function is partial: \<open>None\<close> is a
  run that never returns. \<open>sz\<close> is the parameter \<open>size\<close>.
\<close>

partial_function (option) UbiWrite ::
  "native_env \<Rightarrow> int \<Rightarrow> int \<Rightarrow> xfer \<Rightarrow> ((ErrorCode + unit) \<times> xfer) option" where
  "UbiWrite env fd sz x =
     (if sz \<noteq> 0 then
        (case write_r env (n_write x) of (ret_size, errno) \<Rightarrow>
           (let x1 = x\<lparr>n_write := Suc (n_write x),
                        x_calls := x_calls x @ [Sys_write fd sz ret_size]\<rparr>
            in if ret_size < 0 then
                 (if errno = EINTR env then UbiWrite env fd sz x1
                  else Some (Inl UBI_WRITE_FAILED_ERROR, x1))
               else if ret_size = 0 then Some (Inl UBI_WRITE_FAILED_ERROR, x1)
               else UbiWrite env fd (sz - ret_size) x1))
      else Some (Inr (), x))"

text \<open>
  The \<open>while (bytes)\<close> loop of \<open>UpdateVolume\<close>. \<open>min\<close> is the macro of \<open>common.h\<close>; its
  value is stored in the \<open>int\<close> \<open>to_copy\<close>.
\<close>

partial_function (option) UpdateVolume_loop ::
  "native_env \<Rightarrow> int \<Rightarrow> int \<Rightarrow> int \<Rightarrow> int \<Rightarrow> xfer \<Rightarrow> ((ErrorCode + unit) \<times> xfer) option"
  where
  "UpdateVolume_loop env fd_image fd_vol leb nbytes x =
     (if nbytes \<noteq> 0 then
        (let to_copy = signed32 (min leb nbytes) in
         case read_r env (n_read x) of (sz, errno) \<Rightarrow>
           (let x1 = x\<lparr>n_read := Suc (n_read x),
                        x_calls := x_calls x @ [Sys_read fd_image to_copy sz]\<rparr>
            in if sz \<le> 0 then
                 (if errno = EINTR env then UpdateVolume_loop env fd_image fd_vol leb nbytes x1
                  else Some (Inl UPDATE_VOL__CANNOT_READ_FROM_UBIFS_IMAGE_FILE_ERROR, x1))
               else
                 (case UbiWrite env fd_vol sz x1 of
                    None \<Rightarrow> None
                  | Some (Inl e, x2) \<Rightarrow> Some (Inl UPDATE_VOL__UBI_WRITE_FAILED_ERROR, x2)
                  | Some (Inr _, x2) \<Rightarrow>
                      UpdateVolume_loop env fd_image fd_vol leb (nbytes - sz) x2)))
      else Some (Inr (), x))"

text \<open>
  The length that \<open>UpdateVolume\<close> computes in \<open>long long bytes\<close>: the argument \<open>size\<close>
  (here \<open>sz\<close>) when it is positive, else the file size less \<open>skip_bytes\<close>. \<open>st_size\<close> has
  the type \<open>off_t\<close>, a signed 64-bit integer where large files are supported;
  \<open>skip_bytes\<close> is converted to that type, and the difference is taken in it.
\<close>

definition transfer_length :: "32 word \<Rightarrow> int \<Rightarrow> 32 word \<Rightarrow> int" where
  "transfer_length sz st_size skip_bytes =
     (if uint sz > 0 then uint sz else signed64 (st_size - uint skip_bytes))"

text \<open>
  \<open>UpdateVolume\<close> up to the \<open>while\<close> loop. \<open>Inl\<close> is a return before the loop, with the
  error's number and the transfer's state; \<open>Inr\<close> holds what the loop starts from: the two
  file descriptors, the volume's \<open>leb_size\<close>, the length in \<open>bytes\<close> and the state. The
  state's \<open>x_calls\<close> holds every native call made so far.
\<close>

definition UpdateVolume_prologue ::
  "native_env \<Rightarrow> UbiDevice \<Rightarrow> string \<Rightarrow> string \<Rightarrow> 32 word \<Rightarrow> 32 word \<Rightarrow>
     (int \<times> xfer) + (int \<times> int \<times> int \<times> int \<times> xfer)" where
  "UpdateVolume_prologue env d vol_name ubifs_image_file_str skip_bytes sz =
     (let x0 = \<lparr>n_read = 0, n_write = 0,
                x_calls = [Ifstream_open ubifs_image_file_str]\<rparr>;
          fail = (\<lambda>e cs. Inl (error_num env e, x0\<lparr>x_calls := x_calls x0 @ cs\<rparr>))
      in
      if \<not> ifstream_good env ubifs_image_file_str then
        fail UPDATE_VOL__UBIFS_IMAGE_FILE_NOT_EXIST_ERROR []
      else
     (case CreateUbiLibFileHandle env of
        (Inl e, cs) \<Rightarrow> fail e cs
      | (Inr _, cs) \<Rightarrow>
     (case UbiProbeNode env d of
        (Inl e, cs') \<Rightarrow> fail UBI_PROBE_NODE_FAILED_ERROR (cs @ cs')
      | (Inr _, cs') \<Rightarrow>
     (case ubi_get_dev_info_r env (ubi_device_file_name d) of (ret, dev_info) \<Rightarrow>
     (let cs2 = cs @ cs' @ [Ubi_get_dev_info (ubi_device_file_name d)] in
      if ret \<noteq> 0 then
        fail REMOVE_VOLUME__CANNOT_FIND_INFORMATION_ABOUT_UBI_DEVICE_ERROR cs2
      else
     (case ubi_get_vol_info1_nm_r env (ubi_dev_info.dev_num dev_info) vol_name of
        (ret2, vol_info) \<Rightarrow>
     (let cs3 = cs2 @ [Ubi_get_vol_info1_nm (ubi_dev_info.dev_num dev_info) vol_name] in
      if ret2 \<noteq> 0 then fail CANNOT_FIND_UBI_VOLUME_ERROR cs3
      else
     (let ubi_volume_file_name =
            ubi_device_file_name d @ ''_'' @ sformat_int (ubi_vol_info.vol_id vol_info);
          cs4 = (if uint sz > 0 then cs3 else cs3 @ [Sys_stat ubifs_image_file_str])
      in
      if \<not> uint sz > 0 \<and> fst (stat_r env ubifs_image_file_str) < 0 then
        fail UPDATE_VOL__STAT_FAILED_ERROR cs4
      else
     (let nbytes = transfer_length sz (snd (stat_r env ubifs_image_file_str)) skip_bytes in
      if nbytes > rsvd_bytes vol_info then fail UPDATE_VOL__NO_SPACE_ERROR cs4
      else
     (case CreateCStyleFileHandle env ubi_volume_file_name (O_RDWR env) of
        (Inl e, cs5) \<Rightarrow> fail e (cs4 @ cs5)
      | (Inr fd_vol, cs5) \<Rightarrow>
     (case CreateCStyleFileHandle env ubifs_image_file_str (O_RDONLY env) of
        (Inl e, cs6) \<Rightarrow> fail e (cs4 @ cs5 @ cs6)
      | (Inr fd_image, cs6) \<Rightarrow>
     (let cs7 = (if uint skip_bytes > 0
                 then cs4 @ cs5 @ cs6 @ [Sys_lseek fd_image (uint skip_bytes)]
                 else cs4 @ cs5 @ cs6)
      in
      if uint skip_bytes > 0 \<and> lseek_r env fd_image (uint skip_bytes) = - 1 then
        fail UPDATE_VOL__LSEEK_ON_IMAGE_FD_FAILED_ERROR cs7
      else
     (let cs8 = cs7 @ [Ubi_update_start fd_vol nbytes] in
      if ubi_update_start_r env fd_vol nbytes \<noteq> 0 then
        fail UPDATE_VOL__CANNOT_CANNOT_START_VOLUME_ERROR cs8
      else
        Inr (fd_image, fd_vol, leb_size vol_info, nbytes,
             x0\<lparr>x_calls := x_calls x0 @ cs8\<rparr>))))))))))))))"

text \<open>
  \<open>UpdateVolume\<close>: the part before the loop, then the loop. It returns the result and the
  transfer's state; \<open>None\<close> is a run whose loop never ends.
\<close>

definition UpdateVolume ::
  "native_env \<Rightarrow> UbiDevice \<Rightarrow> string \<Rightarrow> string \<Rightarrow> 32 word \<Rightarrow> 32 word \<Rightarrow>
     ((int + unit) \<times> xfer) option" where
  "UpdateVolume env d vol_name ubifs_image_file_str skip_bytes sz =
     (case UpdateVolume_prologue env d vol_name ubifs_image_file_str skip_bytes sz of
        Inl (e, x) \<Rightarrow> Some (Inl e, x)
      | Inr (fd_image, fd_vol, leb, nbytes, x) \<Rightarrow>
          (case UpdateVolume_loop env fd_image fd_vol leb nbytes x of
             None \<Rightarrow> None
           | Some (Inl e, x') \<Rightarrow> Some (Inl (error_num env e), x')
           | Some (Inr _, x') \<Rightarrow> Some (Inr (), x')))"

text \<open>The native calls made before the loop, whichever way the part before the loop ends.\<close>

definition prologue_calls ::
  "(int \<times> xfer) + (int \<times> int \<times> int \<times> int \<times> xfer) \<Rightarrow> native_call list" where
  "prologue_calls p =
     (case p of Inl (e, x) \<Rightarrow> x_calls x | Inr (fd_image, fd_vol, leb, nbytes, x) \<Rightarrow> x_calls x)"

text \<open>
  Every step of \<open>UpdateVolume\<close> before the length is computed succeeds: the image file
  exists, libubi opens, the device node probes as a device, and the device and the volume
  are found.
\<close>

definition finds_volume :: "native_env \<Rightarrow> UbiDevice \<Rightarrow> string \<Rightarrow> string \<Rightarrow> bool" where
  "finds_volume env d vol_name ubifs_image_file_str =
     (ifstream_good env ubifs_image_file_str \<and>
      fst (libubi_open_r env) \<and>
      fst (UbiProbeNode env d) = Inr () \<and>
      fst (ubi_get_dev_info_r env (ubi_device_file_name d)) = 0 \<and>
      fst (ubi_get_vol_info1_nm_r env
             (ubi_dev_info.dev_num (snd (ubi_get_dev_info_r env (ubi_device_file_name d))))
             vol_name) = 0)"

text \<open>The volume that \<open>UpdateVolume\<close> finds, and the name of its device file.\<close>

definition found_volume :: "native_env \<Rightarrow> UbiDevice \<Rightarrow> string \<Rightarrow> ubi_vol_info" where
  "found_volume env d vol_name =
     snd (ubi_get_vol_info1_nm_r env
            (ubi_dev_info.dev_num (snd (ubi_get_dev_info_r env (ubi_device_file_name d))))
            vol_name)"

definition volume_file :: "native_env \<Rightarrow> UbiDevice \<Rightarrow> string \<Rightarrow> string" where
  "volume_file env d vol_name =
     ubi_device_file_name d @ ''_'' @
       sformat_int (ubi_vol_info.vol_id (found_volume env d vol_name))"

text \<open>
  What a list of calls says about a transfer: the bytes that the \<open>read\<close> calls returned
  and the bytes that the \<open>write\<close> calls accepted (a call that returned nothing or failed
  moved none), and the file descriptors that were read and written.
\<close>

definition bytes_read :: "native_call list \<Rightarrow> int" where
  "bytes_read cs = sum_list [n. Sys_read fd c n \<leftarrow> cs, 0 < n]"

definition bytes_written :: "native_call list \<Rightarrow> int" where
  "bytes_written cs = sum_list [n. Sys_write fd c n \<leftarrow> cs, 0 < n]"

definition read_fds :: "native_call list \<Rightarrow> int list" where
  "read_fds cs = [fd. Sys_read fd c n \<leftarrow> cs]"

definition write_fds :: "native_call list \<Rightarrow> int list" where
  "write_fds cs = [fd. Sys_write fd c n \<leftarrow> cs]"

text \<open>
  The list \<open>cs'\<close> continues \<open>cs\<close> by calls that read \<open>r\<close> bytes, all from \<open>fi\<close>, and wrote
  \<open>w\<close> bytes, all to \<open>fv\<close>.
\<close>

definition moved ::
  "int \<Rightarrow> int \<Rightarrow> int \<Rightarrow> int \<Rightarrow> native_call list \<Rightarrow> native_call list \<Rightarrow> bool" where
  "moved fi fv r w cs cs' =
     (bytes_read cs' = bytes_read cs + r \<and> bytes_written cs' = bytes_written cs + w \<and>
      set (read_fds cs') \<subseteq> set (read_fds cs) \<union> {fi} \<and>
      set (write_fds cs') \<subseteq> set (write_fds cs) \<union> {fv})"

section \<open>The remote facade\<close>

text \<open>
  \<open>UbiDeviceServer\<close> holds the shared pointer \<open>ubi_device_\<close>, null until \<open>Init\<close> has
  created a device. A handler that throws \<open>UbiDeviceServerException\<close> returns \<open>Inl\<close> of
  the code the exception carries. The \<open>int64_t\<close> arguments of the handlers are converted
  to the \<open>uint32_t\<close> parameters of the device.
\<close>

record UbiDeviceServer =
  ubi_device :: "UbiDevice option"

definition UbiDeviceServer_new :: UbiDeviceServer where
  "UbiDeviceServer_new = \<lparr>ubi_device = None\<rparr>"

definition UbiDeviceServer_Init ::
  "native_env \<Rightarrow> UbiDeviceServer \<Rightarrow> string \<Rightarrow> bool \<Rightarrow> guard \<Rightarrow>
     (int + unit) \<times> UbiDeviceServer \<times> guard \<times> native_call list" where
  "UbiDeviceServer_Init env srv mtd_device_name is_to_format_first gd =
     (let cs0 = (case ubi_device srv of Some d \<Rightarrow> UbiDevice_dtor env d | None \<Rightarrow> [])
      in case Create env mtd_device_name is_to_format_first gd of
           (Inl e, gd', cs) \<Rightarrow> (Inl e, srv\<lparr>ubi_device := None\<rparr>, gd', cs0 @ cs)
         | (Inr d, gd', cs) \<Rightarrow> (Inr (), srv\<lparr>ubi_device := Some d\<rparr>, gd', cs0 @ cs))"

definition UbiDeviceServer_Destroy ::
  "native_env \<Rightarrow> UbiDeviceServer \<Rightarrow> UbiDeviceServer \<times> native_call list" where
  "UbiDeviceServer_Destroy env srv =
     (case ubi_device srv of
        Some d \<Rightarrow> (srv\<lparr>ubi_device := None\<rparr>, UbiDevice_dtor env d)
      | None \<Rightarrow> (srv, []))"

definition UbiDeviceServer_MountVolume ::
  "native_env \<Rightarrow> UbiDeviceServer \<Rightarrow> string \<Rightarrow> string \<Rightarrow> (int + unit) \<times> native_call list" where
  "UbiDeviceServer_MountVolume env srv vol_name dir_to_mount =
     (case ubi_device srv of
        Some d \<Rightarrow> MountVolume env d vol_name dir_to_mount
      | None \<Rightarrow> (Inl (- 1), []))"

definition UbiDeviceServer_UnmountVolume ::
  "native_env \<Rightarrow> UbiDeviceServer \<Rightarrow> string \<Rightarrow> (int + unit) \<times> native_call list" where
  "UbiDeviceServer_UnmountVolume env srv dir_to_unmount =
     (case ubi_device srv of
        Some d \<Rightarrow> UnmountVolume env d dir_to_unmount
      | None \<Rightarrow> (Inl (- 1), []))"

definition UbiDeviceServer_MakeVolume ::
  "native_env \<Rightarrow> UbiDeviceServer \<Rightarrow> string \<Rightarrow> 64 word \<Rightarrow> (int + unit) \<times> native_call list" where
  "UbiDeviceServer_MakeVolume env srv vol_name size_in_bytes =
     (case ubi_device srv of
        Some d \<Rightarrow> MakeVolume env d vol_name (ucast size_in_bytes)
      | None \<Rightarrow> (Inl (- 1), []))"

definition UbiDeviceServer_RemoveVolume ::
  "native_env \<Rightarrow> UbiDeviceServer \<Rightarrow> string \<Rightarrow> bool \<Rightarrow> (int + unit) \<times> native_call list" where
  "UbiDeviceServer_RemoveVolume env srv vol_name is_to_print_log_error =
     (case ubi_device srv of
        Some d \<Rightarrow> RemoveVolume env d vol_name is_to_print_log_error
      | None \<Rightarrow> (Inl (- 1), []))"

definition UbiDeviceServer_UpdateVolume ::
  "native_env \<Rightarrow> UbiDeviceServer \<Rightarrow> string \<Rightarrow> string \<Rightarrow> 64 word \<Rightarrow> 64 word \<Rightarrow>
     ((int + unit) \<times> native_call list) option" where
  "UbiDeviceServer_UpdateVolume env srv vol_name ubifs_image_file_str skip_bytes sz =
     (case ubi_device srv of
        Some d \<Rightarrow>
          (case UpdateVolume env d vol_name ubifs_image_file_str (ucast skip_bytes) (ucast sz) of
             None \<Rightarrow> None
           | Some (r, x) \<Rightarrow> Some (r, x_calls x))
      | None \<Rightarrow> Some (Inl (- 1), []))"

section \<open>A concrete environment\<close>

text \<open>
  An environment in which every native call succeeds, used to run the model: the
  constants have the values of the Linux and mtd-utils headers, the partition has sixteen
  erase blocks, the volume holds 1000 bytes in blocks of 8, and \<open>read\<close> and \<open>write\<close>
  always transfer 4 bytes.
\<close>

definition mtd_ok :: mtd_dev_info where
  "mtd_ok = \<lparr>mtd_dev_info.mtd_num = 3, eb_cnt = 16, eb_size = 131072, min_io_size = 2048,
             mtd_dev_info.subpage_size = 2048, writable = True, bb_allowed = True\<rparr>"

definition si_ok :: ubi_scan_info where
  "si_ok = \<lparr>ubi_scan_info.ec = [5, 5, 5, 5, 5, 5, 5, 5, 5, 5, 5, 5, 5, 5, 5, 5],
            mean_ec = 5, ok_cnt = 16, empty_cnt = 0, alien_cnt = 0, bad_cnt = 0, good_cnt = 16,
            ubi_scan_info.vid_hdr_offs = 2048, ubi_scan_info.data_offs = 4096\<rparr>"

definition env_ok :: native_env where
  "env_ok =
     \<lparr>EIO = 5, EINTR = 4, ENODEV = 19, O_RDWR = 2, O_RDONLY = 0,
      EB_BAD = 0xFFFFFFFC, EC_MAX = 0x7FFFFFFF,
      UBI_DEV_NUM_AUTO = - 1, UBI_VOL_NUM_AUTO = - 1, UBI_DYNAMIC_VOLUME = 3,
      error_num = (\<lambda>e. 1),
      is_power_of_2 = (\<lambda>n. n = 2048),
      ubigen_info_init = (\<lambda>a b c d e f. \<lparr>ubigen_info.vid_hdr_offs = 2048, ubigen_info.data_offs = 4096\<rparr>),
      libubi_open_r = (True, 0),
      libmtd_open_r = (True, 0),
      ubi_get_info_r = (0, 10),
      ubi_attach_r = (\<lambda>req. 0),
      mtd_num2ubi_dev_r = (\<lambda>n. (- 1, 0)),
      ubi_detach_mtd_r = (\<lambda>n. 0),
      ubi_probe_node_r = (\<lambda>p. (1, 0)),
      ubi_get_dev_info_r = (\<lambda>p. (0, \<lparr>ubi_dev_info.dev_num = 0, avail_bytes = 5000\<rparr>)),
      ubi_mkvol_r = (\<lambda>p req. 0),
      ubi_get_vol_info1_nm_r = (\<lambda>n v. (0, \<lparr>ubi_vol_info.vol_id = 0, rsvd_bytes = 1000,
                                          leb_size = 8\<rparr>)),
      ubi_rmvol_r = (\<lambda>p n. 0),
      ifstream_good = (\<lambda>p. True),
      stat_r = (\<lambda>p. (0, 20)),
      open_r = (\<lambda>p m. 7),
      lseek_r = (\<lambda>fd off. off),
      ubi_update_start_r = (\<lambda>fd n. 0),
      read_r = (\<lambda>k. (4, 0)),
      write_r = (\<lambda>k. (4, 0)),
      mount_r = (\<lambda>a b. 0),
      umount_r = (\<lambda>a. 0),
      mtd_get_info_r = (0, True),
      mtd_get_dev_info_r = (\<lambda>p. (0, mtd_ok)),
      ubi_scan_r = (0, si_ok),
      mtd_erase_r = (\<lambda>eb. (0, 0)),
      mtd_write_r = (\<lambda>eb. (0, 0)),
      mtd_torture_r = (\<lambda>eb. 0),
      mtd_mark_bad_r = (\<lambda>eb. 0),
      ubigen_create_empty_vtbl_ok = True,
      ubigen_write_layout_vol_r = (\<lambda>a b c d. 0),
      MtdTable_Create_ok = True,
      GetMtdNum_r = (\<lambda>s. Some 3)\<rparr>"

text \<open>
  The same environment after a scan that found every block bad, and after a scan that
  found one good block.
\<close>

definition si_all_bad :: ubi_scan_info where
  "si_all_bad =
     si_ok\<lparr>ubi_scan_info.ec := replicate 16 0xFFFFFFFC, ok_cnt := 0, bad_cnt := 16,
           good_cnt := 0\<rparr>"

definition si_one_good :: ubi_scan_info where
  "si_one_good =
     si_ok\<lparr>ubi_scan_info.ec := 5 # replicate 15 0xFFFFFFFC, ok_cnt := 1, bad_cnt := 15,
           good_cnt := 1\<rparr>"

definition env_all_bad :: native_env where
  "env_all_bad = env_ok\<lparr>ubi_scan_r := (0, si_all_bad)\<rparr>"

definition env_one_good :: native_env where
  "env_one_good = env_ok\<lparr>ubi_scan_r := (0, si_one_good)\<rparr>"

definition dev_ok :: UbiDevice where
  "dev_ok = \<lparr>is_attached = True, UbiDevice.mtd_num = 3, ubi_device_file_name = ''/dev/ubi0''\<rparr>"

text \<open>
  A flash without bad-block support, the header geometry, a scan that found the blocks 0
  and 1 good and the others bad, and an environment in which the erase of block 0 fails
  with \<open>EIO\<close>.
\<close>

definition mtd_no_bb :: mtd_dev_info where
  "mtd_no_bb = mtd_ok\<lparr>bb_allowed := False\<rparr>"

definition ui_ok :: ubigen_info where
  "ui_ok = \<lparr>ubigen_info.vid_hdr_offs = 2048, ubigen_info.data_offs = 4096\<rparr>"

definition si_two_good :: ubi_scan_info where
  "si_two_good =
     si_ok\<lparr>ubi_scan_info.ec :=
             [5, 5, 0xFFFFFFFC, 0xFFFFFFFC, 0xFFFFFFFC, 0xFFFFFFFC, 0xFFFFFFFC, 0xFFFFFFFC,
              0xFFFFFFFC, 0xFFFFFFFC, 0xFFFFFFFC, 0xFFFFFFFC, 0xFFFFFFFC, 0xFFFFFFFC,
              0xFFFFFFFC, 0xFFFFFFFC],
           ok_cnt := 2, bad_cnt := 14, good_cnt := 2\<rparr>"

definition env_erase_eio :: native_env where
  "env_erase_eio = env_ok\<lparr>mtd_erase_r := (\<lambda>eb. if eb = 0 then (- 1, 5) else (0, 0))\<rparr>"

section \<open>Reading the calls of a format run\<close>

text \<open>
  The blocks whose erase succeeded, the blocks to which an erase-counter header was
  written, and the arguments of the layout-volume writes, each in the order of the calls.
\<close>

definition erased_ok :: "native_env \<Rightarrow> native_call list \<Rightarrow> int list" where
  "erased_ok env cs = [eb. Mtd_erase eb \<leftarrow> cs, fst (mtd_erase_r env eb) = 0]"

definition header_writes :: "native_call list \<Rightarrow> int list" where
  "header_writes cs = [eb. Mtd_write eb e \<leftarrow> cs]"

definition layout_writes :: "native_call list \<Rightarrow> (int \<times> int \<times> int \<times> int) list" where
  "layout_writes cs = [(a, b, c, d). Ubigen_write_layout_vol a b c d \<leftarrow> cs]"

text \<open>
  What holds of the loop's state whenever the loop is about to look at block \<open>eb\<close>, for a
  run that started from the scan information \<open>scan\<close>: the entries of the blocks still to
  come are those of \<open>scan\<close>; every block erased or written so far lies below \<open>eb\<close>; no
  header was written to the first two blocks erased; no layout volume was written; and
  \<open>eb1\<close>, \<open>ec1\<close>, \<open>eb2\<close>, \<open>ec2\<close> hold the first and the second block erased and the
  counters computed for them, or \<open>-1\<close> while there is no such block.
\<close>

definition fe_inv :: "native_env \<Rightarrow> FormatAttr \<Rightarrow> ubi_scan_info \<Rightarrow> int \<Rightarrow> fe_state \<Rightarrow> bool" where
  "fe_inv env fa scan eb s =
     ((\<forall>j. eb \<le> j \<longrightarrow>
         ubi_scan_info.ec (st_si s) ! nat j = ubi_scan_info.ec scan ! nat j) \<and>
      mean_ec (st_si s) = mean_ec scan \<and>
      (\<forall>j \<in> set (erased_ok env (st_calls s)). 0 \<le> j \<and> j < eb) \<and>
      (\<forall>j \<in> set (header_writes (st_calls s)). j < eb) \<and>
      (\<forall>j \<in> set (take 2 (erased_ok env (st_calls s))). j \<notin> set (header_writes (st_calls s))) \<and>
      layout_writes (st_calls s) = [] \<and>
      (eb1 s = - 1) = (erased_ok env (st_calls s) = []) \<and>
      (eb2 s = - 1) = (length (erased_ok env (st_calls s)) < 2) \<and>
      (eb1 s \<noteq> - 1 \<longrightarrow>
         eb1 s = erased_ok env (st_calls s) ! 0 \<and> ec1 s = block_ec env fa scan (eb1 s)) \<and>
      (eb2 s \<noteq> - 1 \<longrightarrow>
         eb2 s = erased_ok env (st_calls s) ! 1 \<and> ec2 s = block_ec env fa scan (eb2 s)))"

text \<open>The state with which one pass through the loop's body ends, whichever way it ends.\<close>

definition body_state :: "(ErrorCode \<times> fe_state) + fe_state \<Rightarrow> fe_state" where
  "body_state r = (case r of Inl (e, s) \<Rightarrow> s | Inr s \<Rightarrow> s)"

section \<open>Attach and detach\<close>

lemma Detach_keeps_handle: "Detach env d = (r, d', cs) \<Longrightarrow> d' = d"
  by (auto simp: Detach_def Let_def split: prod.splits sum.splits if_splits)

lemma Attach_marks_attached: "Attach env d = (Inr (), d', cs) \<Longrightarrow> is_attached d'"
  by (auto simp: Attach_def Let_def split: prod.splits sum.splits if_splits)

text \<open>
  Claim C1: a \<open>Detach()\<close> whose detach request succeeds returns success and marks the
  handle unattached, so that the destructor issues no second detach. The code returns
  success but assigns no member: on the attached handle \<open>dev_ok\<close>, with every native call
  succeeding, the handle that \<open>Detach\<close> leaves is \<open>dev_ok\<close> itself, still marked attached,
  and the destructor run on it issues the detach request a second time.
\<close>

theorem Detach_leaves_handle_attached:
  "Detach env_ok dev_ok =
     (Inr (), dev_ok, [Libubi_open, Ubi_get_info, Ubi_detach_mtd kDefaultCtrlDev 3]) \<and>
   is_attached (fst (snd (Detach env_ok dev_ok))) \<and>
   UbiDevice_dtor env_ok (fst (snd (Detach env_ok dev_ok))) =
     [Libubi_open, Ubi_get_info, Ubi_detach_mtd kDefaultCtrlDev 3]"
  by (simp add: UbiDevice_dtor_def Detach_def CreateUbiLibFileHandle_def
      CheckKernelSupportForAttachDetachRequest_def env_ok_def dev_ok_def)

section \<open>The consecutive-bad-block guard\<close>

lemma guard_step:
  "prev_bb gd = - 1 \<or> eb \<noteq> prev_bb gd + 1 \<Longrightarrow>
   ConsecutiveBadBlocksCheck eb gd = (Inr (), \<lparr>consecutive_bad_blocks = 1, prev_bb = eb\<rparr>)"
  by (auto simp: ConsecutiveBadBlocksCheck_def Let_def kMaxConsecutiveBadBlocks_def)

lemma guard_pairwise:
  "pairwise_non_adjacent ebs \<Longrightarrow> \<forall>b \<in> set ebs. prev_bb gd = - 1 \<or> b \<noteq> prev_bb gd + 1 \<Longrightarrow>
   set (ConsecutiveBadBlocksCheck_calls ebs gd) \<subseteq> {Inr ()}"
proof (induction ebs arbitrary: gd)
  case Nil
  then show ?case by simp
next
  case (Cons eb ebs)
  have st: "ConsecutiveBadBlocksCheck eb gd =
      (Inr (), \<lparr>consecutive_bad_blocks = 1, prev_bb = eb\<rparr>)"
    using Cons.prems(2) by (intro guard_step) auto
  have "set (ConsecutiveBadBlocksCheck_calls ebs \<lparr>consecutive_bad_blocks = 1, prev_bb = eb\<rparr>)
      \<subseteq> {Inr ()}"
    using Cons.prems(1) by (intro Cons.IH) auto
  then show ?case using st by simp
qed

text \<open>
  A call of \<open>MarkBadBlocks\<close> that fails before the guard leaves the guard's state as it
  was, so the block of the next call is compared with an earlier block of the sequence.
\<close>

lemma MarkBadBlocks_pairwise:
  "pairwise_non_adjacent ebs \<Longrightarrow> \<forall>b \<in> set ebs. prev_bb gd = - 1 \<or> b \<noteq> prev_bb gd + 1 \<Longrightarrow>
   Inl FORMAT__CONSECUTIVE_BAD_CHECK_ERROR \<notin> set (MarkBadBlocks_calls env mtd ebs scan gd)"
proof (induction ebs arbitrary: gd scan)
  case Nil
  then show ?case by simp
next
  case (Cons eb ebs)
  have st: "ConsecutiveBadBlocksCheck eb gd =
      (Inr (), \<lparr>consecutive_bad_blocks = 1, prev_bb = eb\<rparr>)"
    using Cons.prems(2) by (intro guard_step) auto
  have pw: "pairwise_non_adjacent ebs"
    using Cons.prems(1) by simp
  have same: "Inl FORMAT__CONSECUTIVE_BAD_CHECK_ERROR \<notin>
      set (MarkBadBlocks_calls env mtd ebs sc gd)" for sc
    using pw Cons.prems(2) by (intro Cons.IH) auto
  have moved: "Inl FORMAT__CONSECUTIVE_BAD_CHECK_ERROR \<notin>
      set (MarkBadBlocks_calls env mtd ebs sc \<lparr>consecutive_bad_blocks = 1, prev_bb = eb\<rparr>)" for sc
    using pw Cons.prems(1) by (intro Cons.IH) auto
  show ?case
    using st same moved by (simp add: MarkBadBlocks_def Let_def)
qed

lemma MarkBadBlocks_never_limit_code:
  "Inl FORMAT__CONSECUTIVE_BAD_BLOCKS_EXCEED_LIMIT_ERROR \<notin>
     set (MarkBadBlocks_calls env mtd ebs scan gd)"
  by (induction ebs arbitrary: scan gd)
     (auto simp: MarkBadBlocks_def Let_def split: prod.splits sum.splits)

lemma guard_run:
  "ConsecutiveBadBlocksCheck_calls [10, 11, 12, 13] guard_fresh =
     [Inr (), Inr (), Inr (), Inl FORMAT__CONSECUTIVE_BAD_BLOCKS_EXCEED_LIMIT_ERROR]"
  by (simp add: ConsecutiveBadBlocksCheck_def guard_fresh_def kMaxConsecutiveBadBlocks_def)

lemma mark_run:
  "bb_allowed mtd \<Longrightarrow> \<forall>eb. mtd_mark_bad_r env eb = 0 \<Longrightarrow>
   MarkBadBlocks_calls env mtd [10, 11, 12, 13] scan guard_fresh =
     [Inr (), Inr (), Inr (), Inl FORMAT__CONSECUTIVE_BAD_CHECK_ERROR]"
  by (simp add: MarkBadBlocks_def ConsecutiveBadBlocksCheck_def guard_fresh_def
      kMaxConsecutiveBadBlocks_def)

text \<open>
  Claim C2, as the code has it: from the guard's fresh state, calls at the blocks 10, 11,
  12 and 13 make \<open>ConsecutiveBadBlocksCheck\<close> return the exceed-limit error on the call
  for block 13 and success on the three calls before; \<open>MarkBadBlocks\<close>, when the flash
  supports bad blocks and the native mark succeeds, returns success on the first three
  calls and reports the guard's error on the fourth as
  \<open>FORMAT__CONSECUTIVE_BAD_CHECK_ERROR\<close>. For any sequence of calls at pairwise
  non-adjacent blocks, every call of the guard succeeds, and no call of \<open>MarkBadBlocks\<close>
  returns either of the two codes, however many blocks are marked.
\<close>

theorem consecutive_bad_block_guard:
  "ConsecutiveBadBlocksCheck_calls [10, 11, 12, 13] guard_fresh =
     [Inr (), Inr (), Inr (), Inl FORMAT__CONSECUTIVE_BAD_BLOCKS_EXCEED_LIMIT_ERROR] \<and>
   (bb_allowed mtd \<and> (\<forall>eb. mtd_mark_bad_r env eb = 0) \<longrightarrow>
      MarkBadBlocks_calls env mtd [10, 11, 12, 13] scan guard_fresh =
        [Inr (), Inr (), Inr (), Inl FORMAT__CONSECUTIVE_BAD_CHECK_ERROR]) \<and>
   (pairwise_non_adjacent ebs \<longrightarrow>
      set (ConsecutiveBadBlocksCheck_calls ebs guard_fresh) \<subseteq> {Inr ()} \<and>
      Inl FORMAT__CONSECUTIVE_BAD_CHECK_ERROR \<notin>
        set (MarkBadBlocks_calls env mtd ebs scan guard_fresh) \<and>
      Inl FORMAT__CONSECUTIVE_BAD_BLOCKS_EXCEED_LIMIT_ERROR \<notin>
        set (MarkBadBlocks_calls env mtd ebs scan guard_fresh))"
proof (intro conjI impI)
  show "ConsecutiveBadBlocksCheck_calls [10, 11, 12, 13] guard_fresh =
     [Inr (), Inr (), Inr (), Inl FORMAT__CONSECUTIVE_BAD_BLOCKS_EXCEED_LIMIT_ERROR]"
    by (rule guard_run)
next
  assume "bb_allowed mtd \<and> (\<forall>eb. mtd_mark_bad_r env eb = 0)"
  then show "MarkBadBlocks_calls env mtd [10, 11, 12, 13] scan guard_fresh =
        [Inr (), Inr (), Inr (), Inl FORMAT__CONSECUTIVE_BAD_CHECK_ERROR]"
    by (intro mark_run) simp_all
next
  assume "pairwise_non_adjacent ebs"
  then show "set (ConsecutiveBadBlocksCheck_calls ebs guard_fresh) \<subseteq> {Inr ()}"
    by (intro guard_pairwise) (simp_all add: guard_fresh_def)
next
  assume "pairwise_non_adjacent ebs"
  then show "Inl FORMAT__CONSECUTIVE_BAD_CHECK_ERROR \<notin>
      set (MarkBadBlocks_calls env mtd ebs scan guard_fresh)"
    by (intro MarkBadBlocks_pairwise) (simp_all add: guard_fresh_def)
next
  show "Inl FORMAT__CONSECUTIVE_BAD_BLOCKS_EXCEED_LIMIT_ERROR \<notin>
        set (MarkBadBlocks_calls env mtd ebs scan guard_fresh)"
    by (rule MarkBadBlocks_never_limit_code)
qed

text \<open>The theorem at the environment \<open>env_ok\<close> and the blocks 10, 12 and 14.\<close>

theorem consecutive_bad_block_guard_witness:
  "bb_allowed mtd_ok \<and> (\<forall>eb. mtd_mark_bad_r env_ok eb = 0) \<and>
   pairwise_non_adjacent [10, 12, 14] \<and>
   MarkBadBlocks_calls env_ok mtd_ok [10, 11, 12, 13] si_ok guard_fresh =
     [Inr (), Inr (), Inr (), Inl FORMAT__CONSECUTIVE_BAD_CHECK_ERROR] \<and>
   set (ConsecutiveBadBlocksCheck_calls [10, 12, 14] guard_fresh) \<subseteq> {Inr ()} \<and>
   Inl FORMAT__CONSECUTIVE_BAD_CHECK_ERROR \<notin>
     set (MarkBadBlocks_calls env_ok mtd_ok [10, 12, 14] si_ok guard_fresh)"
  using consecutive_bad_block_guard [of mtd_ok env_ok si_ok "[10, 12, 14]"]
  by (simp add: mtd_ok_def env_ok_def)

text \<open>
  The calls of \<open>MarkBadBlocks\<close> at the blocks 10, 11, 12 and 13 do not return the
  exceed-limit code on the fourth call: that code stays inside \<open>MarkBadBlocks\<close>.
\<close>

theorem MarkBadBlocks_limit_code_counterexample:
  "MarkBadBlocks_calls env_ok mtd_ok [10, 11, 12, 13] si_ok guard_fresh \<noteq>
     [Inr (), Inr (), Inr (), Inl FORMAT__CONSECUTIVE_BAD_BLOCKS_EXCEED_LIMIT_ERROR]"
  by (simp add: MarkBadBlocks_def ConsecutiveBadBlocksCheck_def guard_fresh_def
      kMaxConsecutiveBadBlocks_def mtd_ok_def env_ok_def)

section \<open>Creating a volume\<close>

text \<open>
  Claim C8: when \<open>MakeVolume\<close> reaches the device information (libubi opens, the node
  probes as a device, \<open>ubi_get_dev_info\<close> succeeds), then with zero available bytes it
  fails with the not-enough-free-logical-eraseblocks code after exactly the three calls
  before volume creation; otherwise it issues one \<open>ubi_mkvol\<close> whose request has the
  automatic volume id, alignment 1, the dynamic type, and as byte size \<open>size_in_bytes\<close>
  when that is not zero, else the available bytes just read.
\<close>

theorem MakeVolume_request:
  "fst (libubi_open_r env) \<and> fst (UbiProbeNode env d) = Inr () \<and>
   ubi_get_dev_info_r env (ubi_device_file_name d) = (0, dev_info) \<longrightarrow>
   (avail_bytes dev_info = 0 \<longrightarrow>
      MakeVolume env d vol_name size_in_bytes =
        (Inl (error_num env MAKE_VOLUME__UBI_DEVICE_NOT_ENOUGH_FREE_LOGICAL_ERASEBLOCKS_ERROR),
         [Libubi_open, Ubi_probe_node (ubi_device_file_name d),
          Ubi_get_dev_info (ubi_device_file_name d)])) \<and>
   (avail_bytes dev_info \<noteq> 0 \<longrightarrow>
      (let req = \<lparr>ubi_mkvol_request.vol_id = UBI_VOL_NUM_AUTO env, alignment = 1,
                  bytes = (if size_in_bytes = 0 then avail_bytes dev_info
                           else uint size_in_bytes),
                  vol_type = UBI_DYNAMIC_VOLUME env, name = vol_name\<rparr>
       in MakeVolume env d vol_name size_in_bytes =
            (if ubi_mkvol_r env (ubi_device_file_name d) req < 0
             then Inl (error_num env MAKE_VOLUME__GENERAL_ERROR) else Inr (),
             [Libubi_open, Ubi_probe_node (ubi_device_file_name d),
              Ubi_get_dev_info (ubi_device_file_name d),
              Ubi_mkvol (ubi_device_file_name d) req])))"
  by (cases "libubi_open_r env"; cases "ubi_probe_node_r env (ubi_device_file_name d)")
     (auto simp: MakeVolume_def CreateUbiLibFileHandle_def UbiProbeNode_def Let_def
        kMakeVolDefaultAlignment_def split: if_splits)

text \<open>The theorem at \<open>env_ok\<close>, with 5000 bytes available and \<open>size_in_bytes = 0\<close>.\<close>

theorem MakeVolume_request_witness:
  "fst (libubi_open_r env_ok) \<and> fst (UbiProbeNode env_ok dev_ok) = Inr () \<and>
   ubi_get_dev_info_r env_ok (ubi_device_file_name dev_ok) =
     (0, \<lparr>ubi_dev_info.dev_num = 0, avail_bytes = 5000\<rparr>) \<and>
   MakeVolume env_ok dev_ok ''rootfs'' 0 =
     (Inr (),
      [Libubi_open, Ubi_probe_node ''/dev/ubi0'', Ubi_get_dev_info ''/dev/ubi0'',
       Ubi_mkvol ''/dev/ubi0''
         \<lparr>ubi_mkvol_request.vol_id = - 1, alignment = 1, bytes = 5000, vol_type = 3,
          name = ''rootfs''\<rparr>])"
  using MakeVolume_request
    [of env_ok dev_ok "\<lparr>ubi_dev_info.dev_num = 0, avail_bytes = 5000\<rparr>" "''rootfs''" 0]
  by (simp add: env_ok_def dev_ok_def UbiProbeNode_def)

section \<open>The erase-counter policy\<close>

lemma signed32_id: "- (2 ^ 31) \<le> x \<Longrightarrow> x < 2 ^ 31 \<Longrightarrow> signed32 x = x"
  by (simp add: signed32_def)

lemma signed32_le:
  assumes "0 \<le> x"
  shows "signed32 x \<le> x"
proof (cases "x < 2 ^ 31")
  case True
  then show ?thesis using assms by (simp add: signed32_id)
next
  case False
  have "(x + 2 ^ 31) mod 2 ^ 32 < (2 ^ 32 :: int)"
    by simp
  then have "signed32 x < 2 ^ 31"
    by (simp add: signed32_def)
  then show ?thesis using False by simp
qed

lemma div_less_50:
  assumes "0 < (g :: int)"
  shows "(w div g < 50) = (w < 50 * g)"
proof
  assume "w div g < 50"
  then have "w div g \<le> 49" by simp
  then have "g * (w div g) \<le> g * 49"
    using assms by (intro mult_left_mono) simp_all
  moreover have "w mod g < g"
    using assms by simp
  moreover have "w = g * (w div g) + w mod g"
    by simp
  ultimately show "w < 50 * g" by linarith
next
  assume lt: "w < 50 * g"
  show "w div g < 50"
  proof (rule ccontr)
    assume "\<not> w div g < 50"
    then have "50 \<le> w div g" by simp
    then have "g * 50 \<le> g * (w div g)"
      using assms by (intro mult_left_mono) simp_all
    moreover have "0 \<le> w mod g"
      using assms by simp
    moreover have "w = g * (w div g) + w mod g"
      by simp
    ultimately show False using lt by linarith
  qed
qed

lemma sdiv_less_50:
  assumes "0 < g" "w < 50 * g"
  shows "w sdiv g < (50 :: int)"
proof (cases "0 \<le> w")
  case True
  then have "w sdiv g = w div g"
    using assms(1) by (simp add: signed_divide_int_def sgn_if)
  moreover have "w div g < 50"
    using assms by (simp add: div_less_50)
  ultimately show ?thesis by simp
next
  case False
  then have "w sdiv g = - (\<bar>w\<bar> div g)"
    using assms(1) by (simp add: signed_divide_int_def sgn_if)
  moreover have "0 \<le> \<bar>w\<bar> div g"
    using assms(1) by (simp add: pos_imp_zdiv_nonneg_iff)
  ultimately show ?thesis by simp
qed

lemma percent_exact:
  assumes "0 \<le> k" "k * 100 < 2 ^ 31" "0 < g"
  shows "(signed32 (k * 100) sdiv g < 50) = (2 * k < g)"
proof -
  have "signed32 (k * 100) = k * 100"
    using assms(1,2) by (intro signed32_id) simp_all
  moreover have "(k * 100) sdiv g = (k * 100) div g"
    using assms(1,3) by (simp add: signed_divide_int_def sgn_if)
  moreover have "((k * 100) div g < 50) = (k * 100 < 50 * g)"
    using assms(3) by (rule div_less_50)
  ultimately show ?thesis by auto
qed

lemma percent_few:
  assumes "0 \<le> k" "0 < g" "2 * k < g"
  shows "signed32 (k * 100) sdiv g < 50"
proof -
  have "signed32 (k * 100) \<le> k * 100"
    using assms(1) by (intro signed32_le) simp
  then have "signed32 (k * 100) < 50 * g"
    using assms(3) by simp
  with assms(2) show ?thesis by (rule sdiv_less_50)
qed

text \<open>
  Claim C9: in the erase-counter policy of \<open>Format\<close>, whenever the override is triggered
  (some block is not empty and fewer than half the good blocks carry a valid counter) the
  counter used for all blocks is 0, and the branch that would use the scan's mean counter
  is never taken, its condition being the one of the branch before it. The policy equals
  the policy without that branch, it does not depend on the mean counter, and after a
  triggered override the counter computed for any block is 0. The percentage is computed
  in 32 bits: while the product \<open>ok_cnt * 100\<close> fits, the override is triggered exactly when
  some block is not empty and fewer than half the good blocks carry a valid counter, and
  such a scan triggers it also when the product wraps around.
\<close>

theorem ec_policy_override_is_zero:
  "ec_policy scan format_attr =
     (if empty_cnt scan < good_cnt scan \<and>
         signed32 (ok_cnt scan * 100) sdiv good_cnt scan < 50
      then format_attr\<lparr>FormatAttr.ec := 0, override_ec := 1\<rparr> else format_attr) \<and>
   ec_policy (scan\<lparr>mean_ec := m\<rparr>) format_attr = ec_policy scan format_attr \<and>
   (empty_cnt scan < good_cnt scan \<and>
    signed32 (ok_cnt scan * 100) sdiv good_cnt scan < 50 \<longrightarrow>
      block_ec env (ec_policy scan format_attr) scan' eb = 0) \<and>
   (0 \<le> ok_cnt scan \<and> ok_cnt scan * 100 < 2 ^ 31 \<and> 0 < good_cnt scan \<longrightarrow>
      (signed32 (ok_cnt scan * 100) sdiv good_cnt scan < 50) =
        (2 * ok_cnt scan < good_cnt scan)) \<and>
   (0 \<le> ok_cnt scan \<and> 0 < good_cnt scan \<and> 2 * ok_cnt scan < good_cnt scan \<longrightarrow>
      signed32 (ok_cnt scan * 100) sdiv good_cnt scan < 50)"
proof (intro conjI impI)
  show "ec_policy scan format_attr =
     (if empty_cnt scan < good_cnt scan \<and>
         signed32 (ok_cnt scan * 100) sdiv good_cnt scan < 50
      then format_attr\<lparr>FormatAttr.ec := 0, override_ec := 1\<rparr> else format_attr)"
    by (simp add: ec_policy_def Let_def)
  show "ec_policy (scan\<lparr>mean_ec := m\<rparr>) format_attr = ec_policy scan format_attr"
    by (simp add: ec_policy_def Let_def)
next
  assume "empty_cnt scan < good_cnt scan \<and>
    signed32 (ok_cnt scan * 100) sdiv good_cnt scan < 50"
  then show "block_ec env (ec_policy scan format_attr) scan' eb = 0"
    by (simp add: ec_policy_def Let_def block_ec_def)
next
  assume "0 \<le> ok_cnt scan \<and> ok_cnt scan * 100 < 2 ^ 31 \<and> 0 < good_cnt scan"
  then show "(signed32 (ok_cnt scan * 100) sdiv good_cnt scan < 50) =
      (2 * ok_cnt scan < good_cnt scan)"
    by (intro percent_exact) simp_all
next
  assume "0 \<le> ok_cnt scan \<and> 0 < good_cnt scan \<and> 2 * ok_cnt scan < good_cnt scan"
  then show "signed32 (ok_cnt scan * 100) sdiv good_cnt scan < 50"
    by (intro percent_few) simp_all
qed

text \<open>The theorem at a scan in which 7 of 16 good blocks have a valid counter.\<close>

theorem ec_policy_override_is_zero_witness:
  "empty_cnt (si_ok\<lparr>ok_cnt := 7\<rparr>) < good_cnt (si_ok\<lparr>ok_cnt := 7\<rparr>) \<and>
   0 \<le> ok_cnt (si_ok\<lparr>ok_cnt := 7\<rparr>) \<and> ok_cnt (si_ok\<lparr>ok_cnt := 7\<rparr>) * 100 < 2 ^ 31 \<and>
   2 * ok_cnt (si_ok\<lparr>ok_cnt := 7\<rparr>) < good_cnt (si_ok\<lparr>ok_cnt := 7\<rparr>) \<and>
   signed32 (ok_cnt (si_ok\<lparr>ok_cnt := 7\<rparr>) * 100) sdiv good_cnt (si_ok\<lparr>ok_cnt := 7\<rparr>) < 50 \<and>
   ec_policy (si_ok\<lparr>ok_cnt := 7\<rparr>) FormatAttr_default =
     FormatAttr_default\<lparr>FormatAttr.ec := 0, override_ec := 1\<rparr> \<and>
   block_ec env_ok (ec_policy (si_ok\<lparr>ok_cnt := 7\<rparr>) FormatAttr_default) si_ok 4 = 0"
  using ec_policy_override_is_zero [of "si_ok\<lparr>ok_cnt := 7\<rparr>" FormatAttr_default 5 env_ok si_ok 4]
  by (auto simp: si_ok_def)

text \<open>
  Where the product wraps around the override is triggered also by a scan in which every
  good block has a valid counter: with 30000000 good blocks, all valid, the product is
  stored as \<open>-1294967296\<close> and the percentage is \<open>-43\<close>.
\<close>

lemma ec_policy_wraps:
  "ec_policy (si_ok\<lparr>ok_cnt := 30000000, good_cnt := 30000000\<rparr>) FormatAttr_default =
     FormatAttr_default\<lparr>FormatAttr.ec := 0, override_ec := 1\<rparr>"
  by (simp add: ec_policy_def si_ok_def signed32_def signed_divide_int_def Let_def)

section \<open>Too few good blocks\<close>

lemma sformat_int_3: "sformat_int 3 = ''3''"
  by code_simp

lemma sformat_int_0: "sformat_int 0 = ''0''"
  by code_simp

lemma Format_no_FormatExec:
  "fst (ubi_scan_r env) = 0 \<Longrightarrow> good_cnt (snd (ubi_scan_r env)) < 2 \<Longrightarrow>
   Format env n gd = (r, gd', cs) \<Longrightarrow>
   gd' = gd \<and> (\<forall>c \<in> set cs. \<not> modifies_flash c) \<and>
   (Ubi_scan \<in> set cs \<longrightarrow>
      r = Inl (if good_cnt (snd (ubi_scan_r env)) = 0
               then FORMAT__BAD_ERASEBLOCKS_AFTER_SCAN_ERROR
               else FORMAT__TOO_FEW_NON_BAD_ERASE_BLOCKS_AFTER_SCAN_ERROR))"
  by (auto simp: Format_def CreateMtdLibFileHandle_def CreateCStyleFileHandle_def
      CreateUbiLibFileHandle_def Let_def split: prod.splits sum.splits if_splits)

lemma Format_all_bad:
  "Format env_all_bad 3 guard_fresh =
     (Inl FORMAT__BAD_ERASEBLOCKS_AFTER_SCAN_ERROR, guard_fresh,
      [Libmtd_open, Mtd_get_info, Mtd_get_dev_info ''/dev/mtd3'', Sys_open ''/dev/mtd3'' 2,
       Libubi_open, Mtd_num2ubi_dev 3, Ubi_scan])"
  by (simp add: Format_def CreateMtdLibFileHandle_def CreateCStyleFileHandle_def
      CreateUbiLibFileHandle_def env_all_bad_def env_ok_def mtd_ok_def si_all_bad_def si_ok_def
      kMtdDeviceFilePrefix_def sformat_int_3 Let_def)

lemma Format_one_good:
  "Format env_one_good 3 guard_fresh =
     (Inl FORMAT__TOO_FEW_NON_BAD_ERASE_BLOCKS_AFTER_SCAN_ERROR, guard_fresh,
      [Libmtd_open, Mtd_get_info, Mtd_get_dev_info ''/dev/mtd3'', Sys_open ''/dev/mtd3'' 2,
       Libubi_open, Mtd_num2ubi_dev 3, Ubi_scan])"
  by (simp add: Format_def CreateMtdLibFileHandle_def CreateCStyleFileHandle_def
      CreateUbiLibFileHandle_def env_one_good_def env_ok_def mtd_ok_def si_one_good_def
      si_ok_def kMtdDeviceFilePrefix_def sformat_int_3 Let_def)

text \<open>
  Claim C3, as the code has it: when \<open>Format\<close> reaches the scan and the scan succeeds and
  reports fewer than 2 good erase blocks, \<open>Format\<close> fails and makes no call that changes
  the flash (no erase, write, destructive probe, bad-block mark or layout write). The code
  it returns is the too-few-good-blocks code when exactly one block is good; when no block
  is good it is \<open>FORMAT__BAD_ERASEBLOCKS_AFTER_SCAN_ERROR\<close>, from the check that comes first.
\<close>

theorem Format_too_few_good_blocks:
  "fst (ubi_scan_r env) = 0 \<and> good_cnt (snd (ubi_scan_r env)) < 2 \<and>
   Format env n gd = (r, gd', cs) \<and> Ubi_scan \<in> set cs \<longrightarrow>
     r = Inl (if good_cnt (snd (ubi_scan_r env)) = 0
              then FORMAT__BAD_ERASEBLOCKS_AFTER_SCAN_ERROR
              else FORMAT__TOO_FEW_NON_BAD_ERASE_BLOCKS_AFTER_SCAN_ERROR) \<and>
     (\<forall>c \<in> set cs. \<not> modifies_flash c)"
  using Format_no_FormatExec [of env n gd r gd' cs] by blast

text \<open>The theorem at a partition whose scan found one good block.\<close>

theorem Format_too_few_good_blocks_witness:
  "fst (ubi_scan_r env_one_good) = 0 \<and> good_cnt (snd (ubi_scan_r env_one_good)) = 1 \<and>
   Ubi_scan \<in> set (snd (snd (Format env_one_good 3 guard_fresh))) \<and>
   fst (Format env_one_good 3 guard_fresh) =
     Inl FORMAT__TOO_FEW_NON_BAD_ERASE_BLOCKS_AFTER_SCAN_ERROR \<and>
   filter modifies_flash (snd (snd (Format env_one_good 3 guard_fresh))) = []"
  using Format_too_few_good_blocks [of env_one_good 3 guard_fresh
      "fst (Format env_one_good 3 guard_fresh)" "fst (snd (Format env_one_good 3 guard_fresh))"
      "snd (snd (Format env_one_good 3 guard_fresh))"]
  by (simp add: Format_one_good) (simp add: env_one_good_def si_one_good_def)

text \<open>
  A partition whose scan found no good block: the scan succeeds and reports fewer than 2
  good blocks, and \<open>Format\<close> does not return the too-few-good-blocks code.
\<close>

theorem Format_no_good_block_counterexample:
  "fst (ubi_scan_r env_all_bad) = 0 \<and> good_cnt (snd (ubi_scan_r env_all_bad)) < 2 \<and>
   Ubi_scan \<in> set (snd (snd (Format env_all_bad 3 guard_fresh))) \<and>
   fst (Format env_all_bad 3 guard_fresh) \<noteq>
     Inl FORMAT__TOO_FEW_NON_BAD_ERASE_BLOCKS_AFTER_SCAN_ERROR"
  by (simp add: Format_all_bad) (simp add: env_all_bad_def si_all_bad_def)

section \<open>Transfer length\<close>

lemma moved_refl: "moved fi fv 0 0 cs cs"
  by (auto simp: moved_def)

lemma moved_trans:
  "moved fi fv r w a b \<Longrightarrow> moved fi fv r' w' b c \<Longrightarrow> r'' = r + r' \<Longrightarrow> w'' = w + w' \<Longrightarrow>
   moved fi fv r'' w'' a c"
  by (auto simp: moved_def)

lemma moved_read:
  "moved fi fv (if 0 < n then n else 0) 0 cs (cs @ [Sys_read fi c n])"
  by (auto simp: moved_def bytes_read_def bytes_written_def read_fds_def write_fds_def)

lemma moved_write:
  "moved fi fv 0 (if 0 < n then n else 0) cs (cs @ [Sys_write fv c n])"
  by (auto simp: moved_def bytes_read_def bytes_written_def read_fds_def write_fds_def)

lemma UbiWrite_moved_aux:
  assumes "UbiWrite env fd sz x = Some y"
  shows "fst y = Inr () \<longrightarrow> moved fi fd 0 sz (x_calls x) (x_calls (snd y))"
proof (rule UbiWrite.raw_induct
    [where P = "\<lambda>env fd sz x y.
         fst y = Inr () \<longrightarrow> moved fi fd 0 sz (x_calls x) (x_calls (snd y))"
       and xa = "(((env, fd), sz), x)" and y = y, unfolded prod.case])
  show "UbiWrite env fd sz x = Some y" by (rule assms)
next
  fix w :: "native_env \<Rightarrow> int \<Rightarrow> int \<Rightarrow> xfer \<Rightarrow> ((ErrorCode + unit) \<times> xfer) option"
    and env fd sz x y
  assume IH: "\<And>e f s b z. w e f s b = Some z \<Longrightarrow>
      fst z = Inr () \<longrightarrow> moved fi f 0 s (x_calls b) (x_calls (snd z))"
    and eq: "(if sz \<noteq> 0
      then case write_r env (n_write x) of
           (ret_size, errno) \<Rightarrow>
             let x1 = x
                   \<lparr>n_write := Suc (n_write x),
                      x_calls := x_calls x @ [Sys_write fd sz ret_size]\<rparr>
             in if ret_size < 0
                then if errno = EINTR env then w env fd sz x1
                     else Some (Inl UBI_WRITE_FAILED_ERROR, x1)
                else if ret_size = 0
                     then Some (Inl UBI_WRITE_FAILED_ERROR, x1)
                     else w env fd (sz - ret_size) x1
      else Some (Inr (), x)) = Some y"
  obtain ret errno where wr: "write_r env (n_write x) = (ret, errno)"
    by (cases "write_r env (n_write x)")
  define x1 where
    "x1 = x\<lparr>n_write := Suc (n_write x), x_calls := x_calls x @ [Sys_write fd sz ret]\<rparr>"
  have ev: "moved fi fd 0 (if 0 < ret then ret else 0) (x_calls x) (x_calls x1)"
    using moved_write [of fi fd ret "x_calls x" sz] by (simp add: x1_def)
  show "fst y = Inr () \<longrightarrow> moved fi fd 0 sz (x_calls x) (x_calls (snd y))"
  proof
    assume ok: "fst y = Inr ()"
    consider (stop) "sz = 0" | (again) "sz \<noteq> 0" "ret < 0" | (zero) "sz \<noteq> 0" "ret = 0"
      | (more) "sz \<noteq> 0" "0 < ret" by linarith
    then show "moved fi fd 0 sz (x_calls x) (x_calls (snd y))"
    proof cases
      case stop
      then have "y = (Inr (), x)" using eq by simp
      then show ?thesis using stop by (simp add: moved_refl)
    next
      case again
      have "errno = EINTR env"
      proof (rule ccontr)
        assume "errno \<noteq> EINTR env"
        then have "y = (Inl UBI_WRITE_FAILED_ERROR, x1)"
          using eq wr again by (simp add: x1_def Let_def)
        then show False using ok by simp
      qed
      then have "w env fd sz x1 = Some y"
        using eq wr again by (simp add: x1_def Let_def)
      from IH [OF this] ok have "moved fi fd 0 sz (x_calls x1) (x_calls (snd y))"
        by simp
      with ev show ?thesis
        using again by (auto intro: moved_trans)
    next
      case zero
      then have "y = (Inl UBI_WRITE_FAILED_ERROR, x1)"
        using eq wr by (simp add: x1_def Let_def)
      then show ?thesis using ok by simp
    next
      case more
      then have "w env fd (sz - ret) x1 = Some y"
        using eq wr by (simp add: x1_def Let_def)
      from IH [OF this] ok have "moved fi fd 0 (sz - ret) (x_calls x1) (x_calls (snd y))"
        by simp
      with ev show ?thesis
        using more by (auto intro: moved_trans)
    qed
  qed
qed

lemma UbiWrite_moved:
  "UbiWrite env fd sz x = Some (Inr (), x') \<Longrightarrow> moved fi fd 0 sz (x_calls x) (x_calls x')"
  using UbiWrite_moved_aux [of env fd sz x "(Inr (), x')" fi] by simp

lemma UpdateVolume_loop_moved_aux:
  assumes "UpdateVolume_loop env fi fv leb n x = Some y"
  shows "fst y = Inr () \<longrightarrow> moved fi fv n n (x_calls x) (x_calls (snd y))"
proof (rule UpdateVolume_loop.raw_induct
    [where P = "\<lambda>env fi fv leb n x y.
         fst y = Inr () \<longrightarrow> moved fi fv n n (x_calls x) (x_calls (snd y))"
       and xa = "(((((env, fi), fv), leb), n), x)" and y = y, unfolded prod.case])
  show "UpdateVolume_loop env fi fv leb n x = Some y" by (rule assms)
next
  fix lp :: "native_env \<Rightarrow> int \<Rightarrow> int \<Rightarrow> int \<Rightarrow> int \<Rightarrow> xfer \<Rightarrow>
      ((ErrorCode + unit) \<times> xfer) option"
    and env fd_image fd_vol leb nbytes x y
  assume IH: "\<And>e a b c m s z. lp e a b c m s = Some z \<Longrightarrow>
      fst z = Inr () \<longrightarrow> moved a b m m (x_calls s) (x_calls (snd z))"
    and eq: "(if nbytes \<noteq> 0
      then let to_copy = signed32 (min leb nbytes)
           in case read_r env (n_read x) of
              (sz, errno) \<Rightarrow>
                let x1 = x
                      \<lparr>n_read := Suc (n_read x),
                         x_calls := x_calls x @ [Sys_read fd_image to_copy sz]\<rparr>
                in if sz \<le> 0
                   then if errno = EINTR env
                        then lp env fd_image fd_vol leb nbytes x1
                        else Some (Inl UPDATE_VOL__CANNOT_READ_FROM_UBIFS_IMAGE_FILE_ERROR, x1)
                   else case UbiWrite env fd_vol sz x1 of None \<Rightarrow> None
                        | Some (Inl e, x2) \<Rightarrow> Some (Inl UPDATE_VOL__UBI_WRITE_FAILED_ERROR, x2)
                        | Some (Inr u, x2) \<Rightarrow> lp env fd_image fd_vol leb (nbytes - sz) x2
      else Some (Inr (), x)) = Some y"
  obtain sz errno where rd: "read_r env (n_read x) = (sz, errno)"
    by (cases "read_r env (n_read x)")
  define x1 where "x1 = x\<lparr>n_read := Suc (n_read x),
      x_calls := x_calls x @ [Sys_read fd_image (signed32 (min leb nbytes)) sz]\<rparr>"
  have ev: "moved fd_image fd_vol (if 0 < sz then sz else 0) 0 (x_calls x) (x_calls x1)"
    using moved_read [of fd_image fd_vol sz "x_calls x" "signed32 (min leb nbytes)"]
    by (simp add: x1_def)
  show "fst y = Inr () \<longrightarrow> moved fd_image fd_vol nbytes nbytes (x_calls x) (x_calls (snd y))"
  proof
    assume ok: "fst y = Inr ()"
    consider (stop) "nbytes = 0" | (noread) "nbytes \<noteq> 0" "sz \<le> 0"
      | (some) "nbytes \<noteq> 0" "0 < sz" by linarith
    then show "moved fd_image fd_vol nbytes nbytes (x_calls x) (x_calls (snd y))"
    proof cases
      case stop
      then have "y = (Inr (), x)" using eq by simp
      then show ?thesis using stop by (simp add: moved_refl)
    next
      case noread
      have "errno = EINTR env"
      proof (rule ccontr)
        assume "errno \<noteq> EINTR env"
        then have "y = (Inl UPDATE_VOL__CANNOT_READ_FROM_UBIFS_IMAGE_FILE_ERROR, x1)"
          using eq rd noread by (simp add: x1_def Let_def)
        then show False using ok by simp
      qed
      then have "lp env fd_image fd_vol leb nbytes x1 = Some y"
        using eq rd noread by (simp add: x1_def Let_def)
      from IH [OF this] ok
      have "moved fd_image fd_vol nbytes nbytes (x_calls x1) (x_calls (snd y))"
        by simp
      with ev show ?thesis
        using noread by (auto intro: moved_trans)
    next
      case some
      have eq': "(case UbiWrite env fd_vol sz x1 of None \<Rightarrow> None
          | Some (Inl e, x2) \<Rightarrow> Some (Inl UPDATE_VOL__UBI_WRITE_FAILED_ERROR, x2)
          | Some (Inr u, x2) \<Rightarrow> lp env fd_image fd_vol leb (nbytes - sz) x2) = Some y"
        using eq rd some by (simp add: x1_def Let_def)
      then obtain r x2 where uw: "UbiWrite env fd_vol sz x1 = Some (r, x2)"
        by (cases "UbiWrite env fd_vol sz x1") auto
      have "r = Inr ()"
      proof (cases r)
        case (Inl e)
        then have "y = (Inl UPDATE_VOL__UBI_WRITE_FAILED_ERROR, x2)"
          using eq' uw by simp
        then show ?thesis using ok by simp
      next
        case (Inr u)
        then show ?thesis by simp
      qed
      then have rest: "lp env fd_image fd_vol leb (nbytes - sz) x2 = Some y"
        and w2: "moved fd_image fd_vol 0 sz (x_calls x1) (x_calls x2)"
        using eq' uw UbiWrite_moved [of env fd_vol sz x1 x2 fd_image] by simp_all
      from IH [OF rest] ok
      have w3: "moved fd_image fd_vol (nbytes - sz) (nbytes - sz) (x_calls x2) (x_calls (snd y))"
        by simp
      have "moved fd_image fd_vol sz sz (x_calls x) (x_calls x2)"
        using ev w2 some by (auto intro: moved_trans)
      with w3 show ?thesis
        by (auto intro: moved_trans)
    qed
  qed
qed

lemma UpdateVolume_loop_moved:
  "UpdateVolume_loop env fi fv leb n x = Some (Inr (), x') \<Longrightarrow>
   moved fi fv n n (x_calls x) (x_calls x')"
  using UpdateVolume_loop_moved_aux [of env fi fv leb n x "(Inr (), x')"] by simp

lemma prologue_Inr:
  "UpdateVolume_prologue env d v img skip sz = Inr (fi, fv, leb, n, x) \<Longrightarrow>
   n = transfer_length sz (snd (stat_r env img)) skip \<and>
   bytes_read (x_calls x) = 0 \<and> bytes_written (x_calls x) = 0 \<and>
   read_fds (x_calls x) = [] \<and> write_fds (x_calls x) = [] \<and>
   last (x_calls x) = Ubi_update_start fv n"
  by (auto simp: UpdateVolume_prologue_def CreateUbiLibFileHandle_def UbiProbeNode_def
      CreateCStyleFileHandle_def bytes_read_def bytes_written_def read_fds_def write_fds_def
      Let_def split: prod.splits sum.splits if_splits)

lemma prologue_fds:
  "UpdateVolume_prologue env d v img skip sz = Inr (fi, fv, leb, n, x) \<Longrightarrow>
   fi = open_r env img (O_RDONLY env) \<and>
   fv = open_r env (volume_file env d v) (O_RDWR env)"
  by (cases "libubi_open_r env"; cases "ubi_probe_node_r env (ubi_device_file_name d)";
      cases "ubi_get_dev_info_r env (ubi_device_file_name d)";
      cases "ubi_get_vol_info1_nm_r env
        (ubi_dev_info.dev_num (snd (ubi_get_dev_info_r env (ubi_device_file_name d)))) v")
     (auto simp: UpdateVolume_prologue_def found_volume_def volume_file_def
        CreateUbiLibFileHandle_def UbiProbeNode_def CreateCStyleFileHandle_def Let_def
        split: if_splits)


lemma signed64_id: "- (2 ^ 63) \<le> x \<Longrightarrow> x < 2 ^ 63 \<Longrightarrow> signed64 x = x"
  by (simp add: signed64_def)

lemma uint_pos_iff: "(0 < uint (w :: 32 word)) = (w \<noteq> 0)"
  by (metis uint_0_iff uint_ge_0 less_le)

lemma uint32_bound: "uint (w :: 32 word) < 2 ^ 32"
  using uint_bounded [of w] by simp

lemma transfer_length_size: "sz \<noteq> 0 \<Longrightarrow> transfer_length sz fs skip = uint sz"
  by (simp add: transfer_length_def uint_pos_iff)

lemma transfer_length_rest:
  assumes "0 \<le> fs" "fs < 2 ^ 63"
  shows "transfer_length 0 fs skip = fs - uint skip"
proof -
  have up: "uint skip < 4294967296"
    using uint32_bound [of skip] by simp
  have le: "fs - uint skip \<le> fs"
    by simp
  have "fs - uint skip < 2 ^ 63"
    using le assms(2) by (rule le_less_trans)
  moreover have "- (2 ^ 63) \<le> fs - uint skip"
    using up assms(1) by simp
  ultimately show ?thesis
    by (simp add: transfer_length_def signed64_id)
qed

lemma prologue_no_space:
  assumes "finds_volume env d v img"
    and "sz \<noteq> 0 \<or> 0 \<le> fst (stat_r env img)"
    and "rsvd_bytes (found_volume env d v) < transfer_length sz (snd (stat_r env img)) skip"
  shows "UpdateVolume_prologue env d v img skip sz =
     Inl (error_num env UPDATE_VOL__NO_SPACE_ERROR,
          \<lparr>n_read = 0, n_write = 0,
           x_calls = [Ifstream_open img, Libubi_open, Ubi_probe_node (ubi_device_file_name d),
             Ubi_get_dev_info (ubi_device_file_name d),
             Ubi_get_vol_info1_nm
               (ubi_dev_info.dev_num (snd (ubi_get_dev_info_r env (ubi_device_file_name d)))) v]
             @ (if sz \<noteq> 0 then [] else [Sys_stat img])\<rparr>)"
  using assms
  by (cases "libubi_open_r env"; cases "ubi_probe_node_r env (ubi_device_file_name d)";
      cases "ubi_get_dev_info_r env (ubi_device_file_name d)";
      cases "ubi_get_vol_info1_nm_r env
        (ubi_dev_info.dev_num (snd (ubi_get_dev_info_r env (ubi_device_file_name d)))) v")
     (auto simp: UpdateVolume_prologue_def finds_volume_def found_volume_def
        CreateUbiLibFileHandle_def UbiProbeNode_def Let_def uint_pos_iff split: if_splits)


lemma prologue_past_guard:
  assumes "finds_volume env d v img"
    and "sz \<noteq> 0 \<or> 0 \<le> fst (stat_r env img)"
    and "\<not> rsvd_bytes (found_volume env d v) < transfer_length sz (snd (stat_r env img)) skip"
  shows "Sys_open (volume_file env d v) (O_RDWR env) \<in>
           set (prologue_calls (UpdateVolume_prologue env d v img skip sz))"
    and "open_r env (volume_file env d v) (O_RDWR env) \<noteq> - 1 \<Longrightarrow>
         open_r env img (O_RDONLY env) \<noteq> - 1 \<Longrightarrow>
         skip = 0 \<or> lseek_r env (open_r env img (O_RDONLY env)) (uint skip) \<noteq> - 1 \<Longrightarrow>
         last (prologue_calls (UpdateVolume_prologue env d v img skip sz)) =
           Ubi_update_start (open_r env (volume_file env d v) (O_RDWR env))
             (transfer_length sz (snd (stat_r env img)) skip)"
  using assms
  by (cases "libubi_open_r env"; cases "ubi_probe_node_r env (ubi_device_file_name d)";
      cases "ubi_get_dev_info_r env (ubi_device_file_name d)";
      cases "ubi_get_vol_info1_nm_r env
        (ubi_dev_info.dev_num (snd (ubi_get_dev_info_r env (ubi_device_file_name d)))) v";
      auto simp: UpdateVolume_prologue_def finds_volume_def found_volume_def volume_file_def
        prologue_calls_def CreateUbiLibFileHandle_def UbiProbeNode_def
        CreateCStyleFileHandle_def Let_def uint_pos_iff split: if_splits)+

lemma UpdateVolume_success:
  assumes "UpdateVolume env d v img skip sz = Some (Inr (), x)"
  shows "bytes_read (x_calls x) = transfer_length sz (snd (stat_r env img)) skip"
    and "bytes_written (x_calls x) = transfer_length sz (snd (stat_r env img)) skip"
    and "set (read_fds (x_calls x)) \<subseteq> {open_r env img (O_RDONLY env)}"
    and "set (write_fds (x_calls x)) \<subseteq> {open_r env (volume_file env d v) (O_RDWR env)}"
    and "\<exists>fd. Ubi_update_start fd (transfer_length sz (snd (stat_r env img)) skip) \<in>
           set (prologue_calls (UpdateVolume_prologue env d v img skip sz))"
proof -
  from assms obtain fi fv leb n x0
    where pr: "UpdateVolume_prologue env d v img skip sz = Inr (fi, fv, leb, n, x0)"
      and lp: "UpdateVolume_loop env fi fv leb n x0 = Some (Inr (), x)"
    by (auto simp: UpdateVolume_def split: sum.splits prod.splits option.splits)
  from prologue_Inr [OF pr]
  have n: "n = transfer_length sz (snd (stat_r env img)) skip"
    and r0: "bytes_read (x_calls x0) = 0" and w0: "bytes_written (x_calls x0) = 0"
    and rf: "read_fds (x_calls x0) = []" and wf: "write_fds (x_calls x0) = []"
    and la: "last (x_calls x0) = Ubi_update_start fv n"
    by simp_all
  from prologue_fds [OF pr]
  have fi: "fi = open_r env img (O_RDONLY env)"
    and fv: "fv = open_r env (volume_file env d v) (O_RDWR env)"
    by simp_all
  note mv = UpdateVolume_loop_moved [OF lp]
  show "bytes_read (x_calls x) = transfer_length sz (snd (stat_r env img)) skip"
    using mv n r0 by (simp add: moved_def)
  show "bytes_written (x_calls x) = transfer_length sz (snd (stat_r env img)) skip"
    using mv n w0 by (simp add: moved_def)
  show "set (read_fds (x_calls x)) \<subseteq> {open_r env img (O_RDONLY env)}"
    using mv rf fi by (simp add: moved_def)
  show "set (write_fds (x_calls x)) \<subseteq> {open_r env (volume_file env d v) (O_RDWR env)}"
    using mv wf fv by (simp add: moved_def)
  have ne: "x_calls x0 \<noteq> []"
    using pr by (auto simp: UpdateVolume_prologue_def Let_def
        split: prod.splits sum.splits if_splits)
  have "Ubi_update_start fv n \<in> set (x_calls x0)"
    using la last_in_set [OF ne] by simp
  then show "\<exists>fd. Ubi_update_start fd (transfer_length sz (snd (stat_r env img)) skip) \<in>
           set (prologue_calls (UpdateVolume_prologue env d v img skip sz))"
    using pr n by (auto simp: prologue_calls_def)
qed


lemma finds_volume_ok: "finds_volume env_ok dev_ok ''rootfs'' ''img''"
  by (simp add: finds_volume_def UbiProbeNode_def env_ok_def dev_ok_def)

lemma found_volume_ok:
  "found_volume env_ok dev_ok ''rootfs'' =
     \<lparr>ubi_vol_info.vol_id = 0, rsvd_bytes = 1000, leb_size = 8\<rparr>"
  by (simp add: found_volume_def env_ok_def dev_ok_def)

lemma volume_file_ok: "volume_file env_ok dev_ok ''rootfs'' = ''/dev/ubi0_0''"
  by (simp add: volume_file_def found_volume_ok sformat_int_0) (simp add: dev_ok_def)

lemma UpdateVolume_run:
  "UpdateVolume env_ok dev_ok ''rootfs'' ''img'' 4 0 =
     Some (Inr (),
       \<lparr>n_read = 4, n_write = 4,
        x_calls = [Ifstream_open ''img'', Libubi_open, Ubi_probe_node ''/dev/ubi0'',
          Ubi_get_dev_info ''/dev/ubi0'', Ubi_get_vol_info1_nm 0 ''rootfs'', Sys_stat ''img'',
          Sys_open ''/dev/ubi0_0'' 2, Sys_open ''img'' 0, Sys_lseek 7 4,
          Ubi_update_start 7 16,
          Sys_read 7 8 4, Sys_write 7 4 4, Sys_read 7 8 4, Sys_write 7 4 4,
          Sys_read 7 8 4, Sys_write 7 4 4, Sys_read 7 4 4, Sys_write 7 4 4]\<rparr>)"
  by (simp add: UpdateVolume_def UpdateVolume_prologue_def CreateUbiLibFileHandle_def
      UbiProbeNode_def CreateCStyleFileHandle_def transfer_length_def signed64_def signed32_def
      sformat_int_0 Let_def UpdateVolume_loop.simps UbiWrite.simps env_ok_def dev_ok_def)

lemma UpdateVolume_too_long:
  "UpdateVolume env_ok dev_ok ''rootfs'' ''img'' 0 2000 =
     Some (Inl (error_num env_ok UPDATE_VOL__NO_SPACE_ERROR),
       \<lparr>n_read = 0, n_write = 0,
        x_calls = [Ifstream_open ''img'', Libubi_open, Ubi_probe_node ''/dev/ubi0'',
          Ubi_get_dev_info ''/dev/ubi0'', Ubi_get_vol_info1_nm 0 ''rootfs'']\<rparr>)"
  by (simp add: UpdateVolume_def UpdateVolume_prologue_def CreateUbiLibFileHandle_def
      UbiProbeNode_def CreateCStyleFileHandle_def transfer_length_def
      sformat_int_0 Let_def env_ok_def dev_ok_def)

text \<open>
  Claim C6: once \<open>UpdateVolume\<close> has found the volume (and, for \<open>size = 0\<close>, \<open>stat\<close> has
  succeeded), the transfer length is the argument \<open>size\<close> when that is not zero and the
  file size less \<open>skip_bytes\<close> otherwise; when the length exceeds the volume's reserved
  bytes the call fails with the no-space code, having opened neither the volume file nor
  the image file; and whenever the call succeeds, exactly that many bytes are transferred:
  the bytes returned by the \<open>read\<close> calls of the run add up to the length, and so do the
  bytes accepted by its \<open>write\<close> calls; every \<open>read\<close> is from the descriptor of the image
  file and every \<open>write\<close> to the descriptor of the volume file; and the length is the one
  the update was started with. The image file is probed through a \<open>std::ifstream\<close> at the
  start of every call; the two file descriptors are those of \<open>CreateCStyleFileHandle\<close>.
\<close>

theorem UpdateVolume_transfer_length:
  "finds_volume env d vol_name img \<and> (sz = 0 \<longrightarrow> 0 \<le> fst (stat_r env img)) \<longrightarrow>
   (sz \<noteq> 0 \<longrightarrow> transfer_length sz (snd (stat_r env img)) skip_bytes = uint sz) \<and>
   (sz = 0 \<and> 0 \<le> snd (stat_r env img) \<and> snd (stat_r env img) < 2 ^ 63 \<longrightarrow>
      transfer_length sz (snd (stat_r env img)) skip_bytes =
        snd (stat_r env img) - uint skip_bytes) \<and>
   (rsvd_bytes (found_volume env d vol_name) <
        transfer_length sz (snd (stat_r env img)) skip_bytes \<longrightarrow>
      (\<exists>x. UpdateVolume env d vol_name img skip_bytes sz =
              Some (Inl (error_num env UPDATE_VOL__NO_SPACE_ERROR), x) \<and>
           (\<forall>p m. Sys_open p m \<notin> set (x_calls x)))) \<and>
   (\<forall>x. UpdateVolume env d vol_name img skip_bytes sz = Some (Inr (), x) \<longrightarrow>
      bytes_read (x_calls x) = transfer_length sz (snd (stat_r env img)) skip_bytes \<and>
      bytes_written (x_calls x) = transfer_length sz (snd (stat_r env img)) skip_bytes \<and>
      set (read_fds (x_calls x)) \<subseteq> {open_r env img (O_RDONLY env)} \<and>
      set (write_fds (x_calls x)) \<subseteq>
        {open_r env (volume_file env d vol_name) (O_RDWR env)} \<and>
      (\<exists>fd. Ubi_update_start fd (transfer_length sz (snd (stat_r env img)) skip_bytes) \<in>
         set (prologue_calls (UpdateVolume_prologue env d vol_name img skip_bytes sz))))"
proof (intro impI conjI allI)
  assume "sz \<noteq> 0"
  then show "transfer_length sz (snd (stat_r env img)) skip_bytes = uint sz"
    by (rule transfer_length_size)
next
  assume "sz = 0 \<and> 0 \<le> snd (stat_r env img) \<and> snd (stat_r env img) < 2 ^ 63"
  then show "transfer_length sz (snd (stat_r env img)) skip_bytes =
      snd (stat_r env img) - uint skip_bytes"
    using transfer_length_rest [of "snd (stat_r env img)" skip_bytes] by simp
next
  assume fv: "finds_volume env d vol_name img \<and> (sz = 0 \<longrightarrow> 0 \<le> fst (stat_r env img))"
    and big: "rsvd_bytes (found_volume env d vol_name) <
        transfer_length sz (snd (stat_r env img)) skip_bytes"
  have st: "sz \<noteq> 0 \<or> 0 \<le> fst (stat_r env img)"
    using fv by blast
  have "finds_volume env d vol_name img"
    using fv by simp
  from prologue_no_space [OF this st big]
  show "\<exists>x. UpdateVolume env d vol_name img skip_bytes sz =
              Some (Inl (error_num env UPDATE_VOL__NO_SPACE_ERROR), x) \<and>
           (\<forall>p m. Sys_open p m \<notin> set (x_calls x))"
    by (auto simp: UpdateVolume_def)
next
  fix x
  assume "UpdateVolume env d vol_name img skip_bytes sz = Some (Inr (), x)"
  then show "bytes_read (x_calls x) = transfer_length sz (snd (stat_r env img)) skip_bytes"
    by (rule UpdateVolume_success(1))
next
  fix x
  assume "UpdateVolume env d vol_name img skip_bytes sz = Some (Inr (), x)"
  then show "bytes_written (x_calls x) = transfer_length sz (snd (stat_r env img)) skip_bytes"
    by (rule UpdateVolume_success(2))
next
  fix x
  assume "UpdateVolume env d vol_name img skip_bytes sz = Some (Inr (), x)"
  then show "set (read_fds (x_calls x)) \<subseteq> {open_r env img (O_RDONLY env)}"
    by (rule UpdateVolume_success(3))
next
  fix x
  assume "UpdateVolume env d vol_name img skip_bytes sz = Some (Inr (), x)"
  then show "set (write_fds (x_calls x)) \<subseteq>
      {open_r env (volume_file env d vol_name) (O_RDWR env)}"
    by (rule UpdateVolume_success(4))
next
  fix x
  assume "UpdateVolume env d vol_name img skip_bytes sz = Some (Inr (), x)"
  then show "\<exists>fd. Ubi_update_start fd (transfer_length sz (snd (stat_r env img)) skip_bytes) \<in>
         set (prologue_calls (UpdateVolume_prologue env d vol_name img skip_bytes sz))"
    by (rule UpdateVolume_success(5))
qed

text \<open>
  The theorem at \<open>env_ok\<close>: a file of 20 bytes with \<open>skip_bytes = 4\<close> and \<open>size = 0\<close>
  transfers 16 bytes, in four \<open>read\<close> and four \<open>write\<close> calls of 4 bytes each, and
  \<open>size = 2000\<close> exceeds the 1000 reserved bytes.
\<close>

theorem UpdateVolume_transfer_length_witness:
  "finds_volume env_ok dev_ok ''rootfs'' ''img'' \<and>
   fst (stat_r env_ok ''img'') = 0 \<and> snd (stat_r env_ok ''img'') = 20 \<and>
   fst (the (UpdateVolume env_ok dev_ok ''rootfs'' ''img'' 4 0)) = Inr () \<and>
   bytes_read (x_calls (snd (the (UpdateVolume env_ok dev_ok ''rootfs'' ''img'' 4 0)))) =
     20 - 4 \<and>
   bytes_written (x_calls (snd (the (UpdateVolume env_ok dev_ok ''rootfs'' ''img'' 4 0)))) =
     20 - 4 \<and>
   read_fds (x_calls (snd (the (UpdateVolume env_ok dev_ok ''rootfs'' ''img'' 4 0)))) =
     [7, 7, 7, 7] \<and>
   write_fds (x_calls (snd (the (UpdateVolume env_ok dev_ok ''rootfs'' ''img'' 4 0)))) =
     [7, 7, 7, 7] \<and>
   rsvd_bytes (found_volume env_ok dev_ok ''rootfs'') < uint (2000 :: 32 word) \<and>
   fst (the (UpdateVolume env_ok dev_ok ''rootfs'' ''img'' 0 2000)) =
     Inl (error_num env_ok UPDATE_VOL__NO_SPACE_ERROR) \<and>
   filter (\<lambda>c. c = Sys_open ''/dev/ubi0_0'' 2 \<or> c = Sys_open ''img'' 0)
     (x_calls (snd (the (UpdateVolume env_ok dev_ok ''rootfs'' ''img'' 0 2000)))) = []"
  using UpdateVolume_transfer_length [of env_ok dev_ok "''rootfs''" "''img''" 0 4]
    UpdateVolume_transfer_length [of env_ok dev_ok "''rootfs''" "''img''" 2000 0]
    finds_volume_ok
  by (simp add: UpdateVolume_run UpdateVolume_too_long found_volume_ok
      bytes_read_def bytes_written_def read_fds_def write_fds_def)
     (simp add: env_ok_def)

text \<open>
  Claim C10: for \<open>size = 0\<close> and \<open>skip_bytes\<close> greater than the size of the image file, once
  the volume is found and \<open>stat\<close> has succeeded, the length computed is the negative
  difference itself (the 64-bit subtraction does not wrap), the guard on the reserved bytes
  (which are not negative) does not reject it: the volume file is opened next, and when
  both files open and the seek succeeds, the last call before the loop is the start of the
  update with that negative length.
\<close>

theorem UpdateVolume_negative_length:
  "finds_volume env d vol_name img \<and> 0 \<le> fst (stat_r env img) \<and>
   0 \<le> snd (stat_r env img) \<and> snd (stat_r env img) < 2 ^ 63 \<and>
   snd (stat_r env img) < uint skip_bytes \<and>
   0 \<le> rsvd_bytes (found_volume env d vol_name) \<longrightarrow>
   transfer_length 0 (snd (stat_r env img)) skip_bytes =
     snd (stat_r env img) - uint skip_bytes \<and>
   transfer_length 0 (snd (stat_r env img)) skip_bytes < 0 \<and>
   Sys_open (volume_file env d vol_name) (O_RDWR env) \<in>
     set (prologue_calls (UpdateVolume_prologue env d vol_name img skip_bytes 0)) \<and>
   (open_r env (volume_file env d vol_name) (O_RDWR env) \<noteq> - 1 \<and>
    open_r env img (O_RDONLY env) \<noteq> - 1 \<and>
    lseek_r env (open_r env img (O_RDONLY env)) (uint skip_bytes) \<noteq> - 1 \<longrightarrow>
      last (prologue_calls (UpdateVolume_prologue env d vol_name img skip_bytes 0)) =
        Ubi_update_start (open_r env (volume_file env d vol_name) (O_RDWR env))
          (snd (stat_r env img) - uint skip_bytes))"
proof (intro impI)
  assume h: "finds_volume env d vol_name img \<and> 0 \<le> fst (stat_r env img) \<and>
   0 \<le> snd (stat_r env img) \<and> snd (stat_r env img) < 2 ^ 63 \<and>
   snd (stat_r env img) < uint skip_bytes \<and>
   0 \<le> rsvd_bytes (found_volume env d vol_name)"
  have len: "transfer_length 0 (snd (stat_r env img)) skip_bytes =
      snd (stat_r env img) - uint skip_bytes"
    using h by (intro transfer_length_rest) simp_all
  have neg: "transfer_length 0 (snd (stat_r env img)) skip_bytes < 0"
    using h len by simp
  have fits: "\<not> rsvd_bytes (found_volume env d vol_name) <
      transfer_length 0 (snd (stat_r env img)) skip_bytes"
    using h neg by linarith
  have st: "(0 :: 32 word) \<noteq> 0 \<or> 0 \<le> fst (stat_r env img)"
    using h by simp
  have fv: "finds_volume env d vol_name img"
    using h by simp
  note past = prologue_past_guard [OF fv st fits]
  show "transfer_length 0 (snd (stat_r env img)) skip_bytes =
     snd (stat_r env img) - uint skip_bytes \<and>
   transfer_length 0 (snd (stat_r env img)) skip_bytes < 0 \<and>
   Sys_open (volume_file env d vol_name) (O_RDWR env) \<in>
     set (prologue_calls (UpdateVolume_prologue env d vol_name img skip_bytes 0)) \<and>
   (open_r env (volume_file env d vol_name) (O_RDWR env) \<noteq> - 1 \<and>
    open_r env img (O_RDONLY env) \<noteq> - 1 \<and>
    lseek_r env (open_r env img (O_RDONLY env)) (uint skip_bytes) \<noteq> - 1 \<longrightarrow>
      last (prologue_calls (UpdateVolume_prologue env d vol_name img skip_bytes 0)) =
        Ubi_update_start (open_r env (volume_file env d vol_name) (O_RDWR env))
          (snd (stat_r env img) - uint skip_bytes))"
    using len neg past(1) past(2) by simp
qed

lemma prologue_negative:
  "UpdateVolume_prologue env_ok dev_ok ''rootfs'' ''img'' 30 0 =
     Inr (7, 7, 8, - 10,
       \<lparr>n_read = 0, n_write = 0,
        x_calls = [Ifstream_open ''img'', Libubi_open, Ubi_probe_node ''/dev/ubi0'',
          Ubi_get_dev_info ''/dev/ubi0'', Ubi_get_vol_info1_nm 0 ''rootfs'', Sys_stat ''img'',
          Sys_open ''/dev/ubi0_0'' 2, Sys_open ''img'' 0, Sys_lseek 7 30,
          Ubi_update_start 7 (- 10)]\<rparr>)"
  by (simp add: UpdateVolume_prologue_def CreateUbiLibFileHandle_def
      UbiProbeNode_def CreateCStyleFileHandle_def transfer_length_def signed64_def
      sformat_int_0 Let_def env_ok_def dev_ok_def)

text \<open>The theorem at \<open>env_ok\<close>: a file of 20 bytes with \<open>skip_bytes = 30\<close>.\<close>

theorem UpdateVolume_negative_length_witness:
  "finds_volume env_ok dev_ok ''rootfs'' ''img'' \<and> fst (stat_r env_ok ''img'') = 0 \<and>
   snd (stat_r env_ok ''img'') = 20 \<and> (20 :: int) < uint (30 :: 32 word) \<and>
   rsvd_bytes (found_volume env_ok dev_ok ''rootfs'') = 1000 \<and>
   open_r env_ok (volume_file env_ok dev_ok ''rootfs'') (O_RDWR env_ok) = 7 \<and>
   open_r env_ok ''img'' (O_RDONLY env_ok) = 7 \<and>
   lseek_r env_ok 7 (uint (30 :: 32 word)) = 30 \<and>
   transfer_length 0 20 30 = - 10 \<and>
   last (prologue_calls (UpdateVolume_prologue env_ok dev_ok ''rootfs'' ''img'' 30 0)) =
     Ubi_update_start 7 (- 10)"
  using UpdateVolume_negative_length [of env_ok dev_ok "''rootfs''" "''img''" 30]
    finds_volume_ok
  by (simp add: found_volume_ok volume_file_ok) (simp add: env_ok_def)

section \<open>Erase failures in the format loop\<close>

lemma loop_step:
  "eb < eb_cnt mtd \<Longrightarrow>
   FormatExec_loop env mtd fa eb s =
     (case FormatExec_body env mtd fa eb s of
        Inl x \<Rightarrow> Inl x
      | Inr s' \<Rightarrow> FormatExec_loop env mtd fa (eb + 1) s')"
  by (subst FormatExec_loop.simps) simp

lemma loop_end: "\<not> eb < eb_cnt mtd \<Longrightarrow> FormatExec_loop env mtd fa eb s = Inr s"
  by (subst FormatExec_loop.simps) simp

text \<open>
  Claim C5, as the code has it: when the loop of \<open>FormatExec\<close> reaches a block that the
  scan did not mark bad and the erase of the block fails, then: if the native error is not
  \<open>EIO\<close>, the run ends there with the failed-to-erase code, the erase being its last
  call; if the error is \<open>EIO\<close> and \<open>MarkBadBlocks\<close> succeeds (the flash supports bad
  blocks, the native mark succeeds and the consecutive-bad-block guard does not trip), the
  bad count is incremented, the block's erase-counter entry is set to \<open>EB_BAD\<close> and the
  loop goes on with the next block; if the error is \<open>EIO\<close> and \<open>MarkBadBlocks\<close> fails,
  the run ends there with \<open>FORMAT__MARK_BAD_FAILED_ERROR\<close>.
\<close>

theorem FormatExec_erase_failure:
  "eb < eb_cnt mtd \<and> ubi_scan_info.ec (st_si s) ! nat eb \<noteq> EB_BAD env \<and>
   fst (mtd_erase_r env eb) \<noteq> 0 \<longrightarrow>
   (snd (mtd_erase_r env eb) \<noteq> EIO env \<longrightarrow>
      FormatExec_loop env mtd fa eb s =
        Inl (FORMAT__FAILED_TO_ERASE_ERASEBLOCK_ERROR,
             s\<lparr>st_calls := st_calls s @ [Mtd_erase eb]\<rparr>)) \<and>
   (snd (mtd_erase_r env eb) = EIO env \<and> bb_allowed mtd \<and> mtd_mark_bad_r env eb = 0 \<and>
    fst (ConsecutiveBadBlocksCheck eb (st_guard s)) = Inr () \<longrightarrow>
      FormatExec_loop env mtd fa eb s =
        FormatExec_loop env mtd fa (eb + 1)
          (s\<lparr>st_si := (st_si s)\<lparr>bad_cnt := bad_cnt (st_si s) + 1,
                ubi_scan_info.ec := (ubi_scan_info.ec (st_si s))[nat eb := EB_BAD env]\<rparr>,
             st_guard := snd (ConsecutiveBadBlocksCheck eb (st_guard s)),
             st_calls := st_calls s @ [Mtd_erase eb, Mtd_mark_bad eb]\<rparr>)) \<and>
   (snd (mtd_erase_r env eb) = EIO env \<and>
    \<not> (bb_allowed mtd \<and> mtd_mark_bad_r env eb = 0 \<and>
       fst (ConsecutiveBadBlocksCheck eb (st_guard s)) = Inr ()) \<longrightarrow>
      (\<exists>s'. FormatExec_loop env mtd fa eb s = Inl (FORMAT__MARK_BAD_FAILED_ERROR, s') \<and>
            (st_calls s' = st_calls s @ [Mtd_erase eb] \<or>
             st_calls s' = st_calls s @ [Mtd_erase eb, Mtd_mark_bad eb])))"
  by (cases "mtd_erase_r env eb"; cases "ConsecutiveBadBlocksCheck eb (st_guard s)")
     (auto simp: loop_step FormatExec_body_def MarkBadBlocks_def Let_def
        split: sum.splits)

lemma run_after_block_0:
  "FormatExec_loop env_erase_eio mtd_ok FormatAttr_default 1
     ((fe_start si_ok guard_fresh)
        \<lparr>st_si := si_ok\<lparr>bad_cnt := 1, ubi_scan_info.ec := (ubi_scan_info.ec si_ok)[0 := 0xFFFFFFFC]\<rparr>,
         st_guard := \<lparr>consecutive_bad_blocks = 1, prev_bb = 0\<rparr>,
         st_calls := [Mtd_erase 0, Mtd_mark_bad 0]\<rparr>) =
   Inr \<lparr>eb1 = 1, eb2 = 2, ec1 = 6, ec2 = 6,
        st_si = si_ok\<lparr>bad_cnt := 1, ubi_scan_info.ec := (ubi_scan_info.ec si_ok)[0 := 0xFFFFFFFC]\<rparr>,
        st_guard = \<lparr>consecutive_bad_blocks = 1, prev_bb = 0\<rparr>,
        st_calls = [Mtd_erase 0, Mtd_mark_bad 0, Mtd_erase 1, Mtd_erase 2,
          Mtd_erase 3, Mtd_write 3 6, Mtd_erase 4, Mtd_write 4 6, Mtd_erase 5, Mtd_write 5 6,
          Mtd_erase 6, Mtd_write 6 6, Mtd_erase 7, Mtd_write 7 6, Mtd_erase 8, Mtd_write 8 6,
          Mtd_erase 9, Mtd_write 9 6, Mtd_erase 10, Mtd_write 10 6, Mtd_erase 11, Mtd_write 11 6,
          Mtd_erase 12, Mtd_write 12 6, Mtd_erase 13, Mtd_write 13 6, Mtd_erase 14, Mtd_write 14 6,
          Mtd_erase 15, Mtd_write 15 6]\<rparr>"
  by (simp add: FormatExec_loop.simps FormatExec_body_def block_ec_def fe_start_def Let_def
      env_erase_eio_def env_ok_def mtd_ok_def si_ok_def FormatAttr_default_def)


text \<open>
  The theorem at a partition whose block 0 fails to erase with \<open>EIO\<close>: the block is
  marked bad and the loop runs through the other fifteen blocks.
\<close>

theorem FormatExec_erase_failure_witness:
  "(0 :: int) < eb_cnt mtd_ok \<and>
   ubi_scan_info.ec (st_si (fe_start si_ok guard_fresh)) ! nat 0 = 5 \<and>
   EB_BAD env_erase_eio = 0xFFFFFFFC \<and>
   mtd_erase_r env_erase_eio 0 = (- 1, EIO env_erase_eio) \<and>
   bb_allowed mtd_ok \<and> mtd_mark_bad_r env_erase_eio 0 = 0 \<and>
   fst (ConsecutiveBadBlocksCheck 0 (st_guard (fe_start si_ok guard_fresh))) = Inr () \<and>
   FormatExec_loop env_erase_eio mtd_ok FormatAttr_default 0 (fe_start si_ok guard_fresh) =
     Inr \<lparr>eb1 = 1, eb2 = 2, ec1 = 6, ec2 = 6,
        st_si = si_ok\<lparr>bad_cnt := 1,
                  ubi_scan_info.ec := (ubi_scan_info.ec si_ok)[0 := 0xFFFFFFFC]\<rparr>,
        st_guard = \<lparr>consecutive_bad_blocks = 1, prev_bb = 0\<rparr>,
        st_calls = [Mtd_erase 0, Mtd_mark_bad 0, Mtd_erase 1, Mtd_erase 2,
          Mtd_erase 3, Mtd_write 3 6, Mtd_erase 4, Mtd_write 4 6, Mtd_erase 5, Mtd_write 5 6,
          Mtd_erase 6, Mtd_write 6 6, Mtd_erase 7, Mtd_write 7 6, Mtd_erase 8, Mtd_write 8 6,
          Mtd_erase 9, Mtd_write 9 6, Mtd_erase 10, Mtd_write 10 6, Mtd_erase 11, Mtd_write 11 6,
          Mtd_erase 12, Mtd_write 12 6, Mtd_erase 13, Mtd_write 13 6, Mtd_erase 14, Mtd_write 14 6,
          Mtd_erase 15, Mtd_write 15 6]\<rparr>"
proof -
  have hyp: "(0 :: int) < eb_cnt mtd_ok \<and>
      ubi_scan_info.ec (st_si (fe_start si_ok guard_fresh)) ! nat 0 = 5 \<and>
      EB_BAD env_erase_eio = 0xFFFFFFFC \<and>
      mtd_erase_r env_erase_eio 0 = (- 1, EIO env_erase_eio) \<and>
      bb_allowed mtd_ok \<and> mtd_mark_bad_r env_erase_eio 0 = 0 \<and>
      fst (ConsecutiveBadBlocksCheck 0 (st_guard (fe_start si_ok guard_fresh))) = Inr ()"
    by (simp add: mtd_ok_def fe_start_def si_ok_def env_erase_eio_def env_ok_def
        ConsecutiveBadBlocksCheck_def guard_fresh_def kMaxConsecutiveBadBlocks_def)
  have gd: "snd (ConsecutiveBadBlocksCheck 0 (st_guard (fe_start si_ok guard_fresh))) =
      \<lparr>consecutive_bad_blocks = 1, prev_bb = 0\<rparr>"
    by (simp add: fe_start_def ConsecutiveBadBlocksCheck_def guard_fresh_def
        kMaxConsecutiveBadBlocks_def)
  have "FormatExec_loop env_erase_eio mtd_ok FormatAttr_default 0 (fe_start si_ok guard_fresh) =
      FormatExec_loop env_erase_eio mtd_ok FormatAttr_default 1
        ((fe_start si_ok guard_fresh)
          \<lparr>st_si := si_ok\<lparr>bad_cnt := 1,
                ubi_scan_info.ec := (ubi_scan_info.ec si_ok)[0 := 0xFFFFFFFC]\<rparr>,
           st_guard := \<lparr>consecutive_bad_blocks = 1, prev_bb = 0\<rparr>,
           st_calls := [Mtd_erase 0, Mtd_mark_bad 0]\<rparr>)"
    using FormatExec_erase_failure
      [of 0 mtd_ok "fe_start si_ok guard_fresh" env_erase_eio FormatAttr_default] hyp gd
    by (simp add: fe_start_def si_ok_def)
  then show ?thesis
    using hyp by (simp only: run_after_block_0)
qed

text \<open>
  On a flash without bad-block support the erase of block 0 fails with \<open>EIO\<close>: the block
  is not marked, the scan information is unchanged, and the loop does not go on to block 1.
\<close>

theorem FormatExec_erase_eio_counterexample:
  "fst (mtd_erase_r env_erase_eio 0) \<noteq> 0 \<and>
   snd (mtd_erase_r env_erase_eio 0) = EIO env_erase_eio \<and>
   FormatExec env_erase_eio mtd_no_bb ui_ok si_ok 0 FormatAttr_default guard_fresh =
     (Inl FORMAT__MARK_BAD_FAILED_ERROR,
      (fe_start si_ok guard_fresh)\<lparr>st_calls := [Mtd_erase 0]\<rparr>)"
  by (simp add: FormatExec_def FormatExec_loop.simps [of _ _ _ 0] FormatExec_body_def
      MarkBadBlocks_def fe_start_def Let_def env_erase_eio_def env_ok_def mtd_no_bb_def
      mtd_ok_def si_ok_def)

section \<open>The volume-table blocks\<close>

text \<open>
  The three readings of a trace distribute over the concatenation of traces, and are computed
  call by call.
\<close>

lemma erased_ok_append [simp]: "erased_ok env (a @ b) = erased_ok env a @ erased_ok env b"
  by (simp add: erased_ok_def)

lemma header_writes_append [simp]: "header_writes (a @ b) = header_writes a @ header_writes b"
  by (simp add: header_writes_def)

lemma layout_writes_append [simp]: "layout_writes (a @ b) = layout_writes a @ layout_writes b"
  by (simp add: layout_writes_def)

lemma reads_single [simp]:
  "erased_ok env [Mtd_erase eb] = (if fst (mtd_erase_r env eb) = 0 then [eb] else [])"
  "erased_ok env [Mtd_write eb e] = []"
  "erased_ok env [Mtd_torture eb] = []"
  "erased_ok env [Mtd_mark_bad eb] = []"
  "erased_ok env [] = []"
  "header_writes [Mtd_erase eb] = []"
  "header_writes [Mtd_write eb e] = [eb]"
  "header_writes [Mtd_torture eb] = []"
  "header_writes [Mtd_mark_bad eb] = []"
  "header_writes [] = []"
  "layout_writes [Mtd_erase eb] = []"
  "layout_writes [Mtd_write eb e] = []"
  "layout_writes [Mtd_torture eb] = []"
  "layout_writes [Mtd_mark_bad eb] = []"
  "layout_writes [] = []"
  by (simp_all add: erased_ok_def header_writes_def layout_writes_def)

lemma reads_cons [simp]:
  "erased_ok env (c # d # cs) = erased_ok env [c] @ erased_ok env (d # cs)"
  "header_writes (c # d # cs) = header_writes [c] @ header_writes (d # cs)"
  "layout_writes (c # d # cs) = layout_writes [c] @ layout_writes (d # cs)"
  by (simp_all add: erased_ok_def header_writes_def layout_writes_def)

lemma block_ec_cong:
  "ubi_scan_info.ec a ! nat eb = ubi_scan_info.ec b ! nat eb \<Longrightarrow> mean_ec a = mean_ec b \<Longrightarrow>
   block_ec env fa a eb = block_ec env fa b eb"
  by (simp add: block_ec_def)

lemma MarkBadBlocks_effect:
  assumes "MarkBadBlocks env mtd scan eb gd = (r, scan', gd', cs)"
  shows "(cs = [] \<or> cs = [Mtd_mark_bad eb]) \<and> mean_ec scan' = mean_ec scan \<and>
         (\<forall>j. j \<noteq> nat eb \<longrightarrow> ubi_scan_info.ec scan' ! j = ubi_scan_info.ec scan ! j)"
  using assms
  by (auto simp: MarkBadBlocks_def Let_def split: if_splits prod.splits sum.splits)


lemma take2_append_long: "2 \<le> length xs \<Longrightarrow> take 2 (xs @ ys) = take 2 xs"
  by simp

lemma take2_long: "2 \<le> length xs \<Longrightarrow> take 2 xs = [xs ! 0, xs ! 1]"
  by (cases xs; cases "tl xs") auto

lemma nat_neq: "0 \<le> eb \<Longrightarrow> eb < j \<Longrightarrow> nat j \<noteq> nat eb"
  by simp


lemma inv_next: "fe_inv env fa scan eb s \<Longrightarrow> fe_inv env fa scan (eb + 1) s"
  unfolding fe_inv_def by (intro conjI; force)

lemma inv_same_reads:
  assumes "fe_inv env fa scan k s"
    and "erased_ok env (st_calls s') = erased_ok env (st_calls s)"
    and "header_writes (st_calls s') = header_writes (st_calls s)"
    and "layout_writes (st_calls s') = layout_writes (st_calls s)"
    and "\<forall>j. k \<le> j \<longrightarrow>
           ubi_scan_info.ec (st_si s') ! nat j = ubi_scan_info.ec (st_si s) ! nat j"
    and "mean_ec (st_si s') = mean_ec (st_si s)"
    and "eb1 s' = eb1 s" "eb2 s' = eb2 s" "ec1 s' = ec1 s" "ec2 s' = ec2 s"
  shows "fe_inv env fa scan k s'"
  using assms unfolding fe_inv_def by simp

lemma inv_reserve_first:
  assumes inv: "fe_inv env fa scan eb s" and nn: "0 \<le> eb"
    and "eb1 s = - 1"
    and "erased_ok env (st_calls s') = erased_ok env (st_calls s) @ [eb]"
    and "header_writes (st_calls s') = header_writes (st_calls s)"
    and "layout_writes (st_calls s') = layout_writes (st_calls s)"
    and "st_si s' = st_si s"
    and "eb1 s' = eb" "ec1 s' = block_ec env fa scan eb" "eb2 s' = eb2 s" "ec2 s' = ec2 s"
  shows "fe_inv env fa scan (eb + 1) s'"
proof -
  have e: "erased_ok env (st_calls s) = []" and e2: "eb2 s = - 1"
    using inv assms(3) by (simp_all add: fe_inv_def)
  have w: "\<forall>j \<in> set (header_writes (st_calls s)). j < eb"
    using inv by (simp add: fe_inv_def)
  show ?thesis
    unfolding fe_inv_def using inv nn e e2 w assms(4-)
    by (intro conjI) (auto simp: fe_inv_def)
qed

lemma inv_reserve_second:
  assumes inv: "fe_inv env fa scan eb s" and nn: "0 \<le> eb"
    and "eb1 s \<noteq> - 1" "eb2 s = - 1"
    and "erased_ok env (st_calls s') = erased_ok env (st_calls s) @ [eb]"
    and "header_writes (st_calls s') = header_writes (st_calls s)"
    and "layout_writes (st_calls s') = layout_writes (st_calls s)"
    and "st_si s' = st_si s"
    and "eb1 s' = eb1 s" "ec1 s' = ec1 s" "eb2 s' = eb" "ec2 s' = block_ec env fa scan eb"
  shows "fe_inv env fa scan (eb + 1) s'"
proof -
  obtain a where e: "erased_ok env (st_calls s) = [a]"
    using inv assms(3,4)
    by (cases "erased_ok env (st_calls s)"; cases "tl (erased_ok env (st_calls s))")
       (auto simp: fe_inv_def)
  have a: "0 \<le> a" "a < eb" "eb1 s = a" "ec1 s = block_ec env fa scan a"
    using inv e assms(3) by (auto simp: fe_inv_def)
  have w: "\<forall>j \<in> set (header_writes (st_calls s)). j < eb"
    and wa: "a \<notin> set (header_writes (st_calls s))"
    using inv e by (auto simp: fe_inv_def)
  have e': "erased_ok env (st_calls s') = [a, eb]"
    using e assms(5) by simp
  have c1: "\<forall>j. eb + 1 \<le> j \<longrightarrow>
      ubi_scan_info.ec (st_si s') ! nat j = ubi_scan_info.ec scan ! nat j"
    using inv assms(8) by (simp add: fe_inv_def)
  have c2: "mean_ec (st_si s') = mean_ec scan"
    using inv assms(8) by (simp add: fe_inv_def)
  have c3: "\<forall>j \<in> set (erased_ok env (st_calls s')). 0 \<le> j \<and> j < eb + 1"
    using a nn e' by auto
  have c4: "\<forall>j \<in> set (header_writes (st_calls s')). j < eb + 1"
    using w assms(6) by auto
  have c5: "\<forall>j \<in> set (take 2 (erased_ok env (st_calls s'))).
      j \<notin> set (header_writes (st_calls s'))"
    using w wa e' assms(6) by auto
  have c6: "layout_writes (st_calls s') = []"
    using inv assms(7) by (simp add: fe_inv_def)
  have c7: "(eb1 s' = - 1) = (erased_ok env (st_calls s') = [])"
    using assms(3,9) e' by simp
  have c8: "(eb2 s' = - 1) = (length (erased_ok env (st_calls s')) < 2)"
    using assms(11) nn e' by simp
  have c9: "eb1 s' \<noteq> - 1 \<longrightarrow>
      eb1 s' = erased_ok env (st_calls s') ! 0 \<and> ec1 s' = block_ec env fa scan (eb1 s')"
    using a assms(9,10) e' by simp
  have c10: "eb2 s' \<noteq> - 1 \<longrightarrow>
      eb2 s' = erased_ok env (st_calls s') ! 1 \<and> ec2 s' = block_ec env fa scan (eb2 s')"
    using assms(11,12) e' by simp
  show ?thesis
    unfolding fe_inv_def using c1 c2 c3 c4 c5 c6 c7 c8 c9 c10 by blast
qed

lemma inv_header:
  assumes inv: "fe_inv env fa scan eb s" and nn: "0 \<le> eb"
    and "eb1 s \<noteq> - 1" "eb2 s \<noteq> - 1"
    and "erased_ok env (st_calls s') = erased_ok env (st_calls s) @ [eb]"
    and "header_writes (st_calls s') = header_writes (st_calls s) @ ws" "set ws \<subseteq> {eb}"
    and "layout_writes (st_calls s') = layout_writes (st_calls s)"
    and "st_si s' = st_si s"
    and "eb1 s' = eb1 s" "ec1 s' = ec1 s" "eb2 s' = eb2 s" "ec2 s' = ec2 s"
  shows "fe_inv env fa scan (eb + 1) s'"
proof -
  have len: "2 \<le> length (erased_ok env (st_calls s))"
    using inv assms(3,4) by (simp add: fe_inv_def)
  then have t: "take 2 (erased_ok env (st_calls s) @ [eb]) = take 2 (erased_ok env (st_calls s))"
    by simp
  have lt: "\<forall>j \<in> set (erased_ok env (st_calls s)). 0 \<le> j \<and> j < eb"
    and w: "\<forall>j \<in> set (header_writes (st_calls s)). j < eb"
    and d: "\<forall>j \<in> set (take 2 (erased_ok env (st_calls s))). j \<notin> set (header_writes (st_calls s))"
    using inv by (simp_all add: fe_inv_def)
  have r: "\<forall>j \<in> set (take 2 (erased_ok env (st_calls s))). j < eb"
    using lt by (meson in_set_takeD)
  have n0: "(erased_ok env (st_calls s) @ [eb]) ! 0 = erased_ok env (st_calls s) ! 0"
    and n1: "(erased_ok env (st_calls s) @ [eb]) ! 1 = erased_ok env (st_calls s) ! 1"
    using len by (auto simp: nth_append)
  have c1: "\<forall>j. eb + 1 \<le> j \<longrightarrow>
      ubi_scan_info.ec (st_si s') ! nat j = ubi_scan_info.ec scan ! nat j"
    using inv assms(9) by (simp add: fe_inv_def)
  have c2: "mean_ec (st_si s') = mean_ec scan"
    using inv assms(9) by (simp add: fe_inv_def)
  have c3: "\<forall>j \<in> set (erased_ok env (st_calls s')). 0 \<le> j \<and> j < eb + 1"
    using lt nn assms(5) by auto
  have c4: "\<forall>j \<in> set (header_writes (st_calls s')). j < eb + 1"
    using w assms(6,7) by auto
  have c5: "\<forall>j \<in> set (take 2 (erased_ok env (st_calls s'))).
      j \<notin> set (header_writes (st_calls s'))"
    using d r assms(5,6,7) t by auto
  have c6: "layout_writes (st_calls s') = []"
    using inv assms(8) by (simp add: fe_inv_def)
  have c7: "(eb1 s' = - 1) = (erased_ok env (st_calls s') = [])"
    using assms(3,5,10) by simp
  have c8: "(eb2 s' = - 1) = (length (erased_ok env (st_calls s')) < 2)"
    using assms(4,5,12) len by auto
  have c9: "eb1 s' \<noteq> - 1 \<longrightarrow>
      eb1 s' = erased_ok env (st_calls s') ! 0 \<and> ec1 s' = block_ec env fa scan (eb1 s')"
    using inv assms(3,5,10,11) n0 by (simp add: fe_inv_def)
  have c10: "eb2 s' \<noteq> - 1 \<longrightarrow>
      eb2 s' = erased_ok env (st_calls s') ! 1 \<and> ec2 s' = block_ec env fa scan (eb2 s')"
    using inv assms(4,5,12,13) n1 by (simp add: fe_inv_def)
  show ?thesis
    unfolding fe_inv_def using c1 c2 c3 c4 c5 c6 c7 c8 c9 c10 by blast
qed


lemma inv_mark:
  assumes inv: "fe_inv env fa scan (eb + 1) t" and nn: "0 \<le> eb"
    and mb: "MarkBadBlocks env mtd (st_si t) eb (st_guard t) = (r, scan', gd', cs)"
  shows "fe_inv env fa scan (eb + 1)
           (t\<lparr>st_si := scan', st_guard := gd', st_calls := st_calls t @ cs\<rparr>)"
proof (rule inv_same_reads [OF inv])
  note eff = MarkBadBlocks_effect [OF mb]
  show "\<forall>j. eb + 1 \<le> j \<longrightarrow>
      ubi_scan_info.ec (st_si (t\<lparr>st_si := scan', st_guard := gd', st_calls := st_calls t @ cs\<rparr>)) ! nat j =
      ubi_scan_info.ec (st_si t) ! nat j"
    using eff nn by auto
  show "mean_ec (st_si (t\<lparr>st_si := scan', st_guard := gd', st_calls := st_calls t @ cs\<rparr>)) =
      mean_ec (st_si t)"
    using eff by simp
  show "erased_ok env (st_calls (t\<lparr>st_si := scan', st_guard := gd', st_calls := st_calls t @ cs\<rparr>)) =
      erased_ok env (st_calls t)"
    using eff by auto
  show "header_writes (st_calls (t\<lparr>st_si := scan', st_guard := gd', st_calls := st_calls t @ cs\<rparr>)) =
      header_writes (st_calls t)"
    using eff by auto
  show "layout_writes (st_calls (t\<lparr>st_si := scan', st_guard := gd', st_calls := st_calls t @ cs\<rparr>)) =
      layout_writes (st_calls t)"
    using eff by auto
qed simp_all

lemma inv_torture:
  "fe_inv env fa scan k t \<Longrightarrow>
   fe_inv env fa scan k (t\<lparr>st_calls := st_calls t @ [Mtd_torture eb]\<rparr>)"
  by (erule inv_same_reads) simp_all

lemma inv_erase_failed:
  "fe_inv env fa scan k t \<Longrightarrow> fst (mtd_erase_r env eb) \<noteq> 0 \<Longrightarrow>
   fe_inv env fa scan k (t\<lparr>st_calls := st_calls t @ [Mtd_erase eb]\<rparr>)"
  by (erule inv_same_reads) simp_all

lemma body_inv:
  assumes inv: "fe_inv env fa scan eb s" and nn: "0 \<le> eb"
  shows "fe_inv env fa scan (eb + 1) (body_state (FormatExec_body env mtd fa eb s))"
proof (cases "ubi_scan_info.ec (st_si s) ! nat eb = EB_BAD env")
  case True
  then have "body_state (FormatExec_body env mtd fa eb s) = s"
    by (simp add: FormatExec_body_def body_state_def)
  then show ?thesis
    using inv_next [OF inv] by simp
next
  case nb: False
  obtain ret errno where er: "mtd_erase_r env eb = (ret, errno)"
    by (cases "mtd_erase_r env eb") auto
  define s1 where "s1 = s\<lparr>st_calls := st_calls s @ [Mtd_erase eb]\<rparr>"
  have ecv: "block_ec env fa (st_si s) eb = block_ec env fa scan eb"
    using inv by (intro block_ec_cong) (simp_all add: fe_inv_def)
  show ?thesis
  proof (cases "ret = 0")
    case failed: False
    have inv1: "fe_inv env fa scan (eb + 1) s1"
      unfolding s1_def using inv_next [OF inv] er failed by (intro inv_erase_failed) simp_all
    show ?thesis
    proof (cases "errno = EIO env")
      case False
      then have "body_state (FormatExec_body env mtd fa eb s) = s1"
        using nb er failed by (simp add: FormatExec_body_def body_state_def s1_def Let_def)
      then show ?thesis using inv1 by simp
    next
      case True
      obtain r scan' gd' cs
        where mb: "MarkBadBlocks env mtd (st_si s1) eb (st_guard s1) = (r, scan', gd', cs)"
        by (cases "MarkBadBlocks env mtd (st_si s1) eb (st_guard s1)") auto
      have "body_state (FormatExec_body env mtd fa eb s) =
          s1\<lparr>st_si := scan', st_guard := gd', st_calls := st_calls s1 @ cs\<rparr>"
        using nb er failed True mb
        by (simp add: FormatExec_body_def body_state_def s1_def Let_def split: sum.splits)
      then show ?thesis
        using inv_mark [OF inv1 nn mb] by simp
    qed
  next
    case erased: True
    have e1: "erased_ok env (st_calls s1) = erased_ok env (st_calls s) @ [eb]"
      using er erased by (simp add: s1_def)
    show ?thesis
    proof (cases "eb1 s = - 1")
      case True
      then have "body_state (FormatExec_body env mtd fa eb s) =
          s1\<lparr>eb1 := eb, ec1 := block_ec env fa (st_si s) eb\<rparr>"
        using nb er erased by (simp add: FormatExec_body_def body_state_def s1_def Let_def)
      moreover have "fe_inv env fa scan (eb + 1)
          (s1\<lparr>eb1 := eb, ec1 := block_ec env fa (st_si s) eb\<rparr>)"
        using e1 ecv by (intro inv_reserve_first [OF inv nn True]) (simp_all add: s1_def)
      ultimately show ?thesis by simp
    next
      case first: False
      show ?thesis
      proof (cases "eb2 s = - 1")
        case True
        then have "body_state (FormatExec_body env mtd fa eb s) =
            s1\<lparr>eb2 := eb, ec2 := block_ec env fa (st_si s) eb\<rparr>"
          using nb er erased first
          by (simp add: FormatExec_body_def body_state_def s1_def Let_def)
        moreover have "fe_inv env fa scan (eb + 1)
            (s1\<lparr>eb2 := eb, ec2 := block_ec env fa (st_si s) eb\<rparr>)"
          using e1 ecv
          by (intro inv_reserve_second [OF inv nn first True]) (simp_all add: s1_def)
        ultimately show ?thesis by simp
      next
        case second: False
        define s3 where
          "s3 = s1\<lparr>st_calls := st_calls s1 @ [Mtd_write eb (block_ec env fa (st_si s) eb)]\<rparr>"
        define s4 where "s4 = s3\<lparr>st_calls := st_calls s3 @ [Mtd_torture eb]\<rparr>"
        have inv3: "fe_inv env fa scan (eb + 1) s3"
          using inv nn first second
        proof (rule inv_header [where ws = "[eb]"])
          show "erased_ok env (st_calls s3) = erased_ok env (st_calls s) @ [eb]"
            using e1 by (simp add: s3_def)
          show "header_writes (st_calls s3) = header_writes (st_calls s) @ [eb]"
            by (simp add: s3_def s1_def)
          show "layout_writes (st_calls s3) = layout_writes (st_calls s)"
            by (simp add: s3_def s1_def)
        qed (simp_all add: s3_def s1_def)
        have inv4: "fe_inv env fa scan (eb + 1) s4"
          unfolding s4_def using inv3 by (rule inv_torture)
        obtain wret werrno where wr: "mtd_write_r env eb = (wret, werrno)"
          by (cases "mtd_write_r env eb") auto
        obtain r scan' gd' cs
          where mb: "MarkBadBlocks env mtd (st_si s4) eb (st_guard s4) = (r, scan', gd', cs)"
          by (cases "MarkBadBlocks env mtd (st_si s4) eb (st_guard s4)") auto
        have "body_state (FormatExec_body env mtd fa eb s) = s3 \<or>
              body_state (FormatExec_body env mtd fa eb s) = s4 \<or>
              body_state (FormatExec_body env mtd fa eb s) =
                s4\<lparr>st_si := scan', st_guard := gd', st_calls := st_calls s4 @ cs\<rparr>"
          using nb er erased first second wr mb
          by (simp add: FormatExec_body_def body_state_def s1_def s3_def s4_def Let_def
              split: sum.splits)
        then show ?thesis
          using inv3 inv4 inv_mark [OF inv4 nn mb] by auto
      qed
    qed
  qed
qed


lemma loop_inv:
  "fe_inv env fa scan eb s \<Longrightarrow> 0 \<le> eb \<Longrightarrow>
   \<exists>k. fe_inv env fa scan k (body_state (FormatExec_loop env mtd fa eb s))"
proof (induction env mtd fa eb s rule: FormatExec_loop.induct)
  case (1 env mtd fa eb s)
  show ?case
  proof (cases "eb < eb_cnt mtd")
    case False
    then have "FormatExec_loop env mtd fa eb s = Inr s"
      by (subst FormatExec_loop.simps) simp
    then show ?thesis
      using "1.prems"(1) by (auto simp: body_state_def)
  next
    case True
    note step = body_inv [OF "1.prems", of mtd]
    show ?thesis
    proof (cases "FormatExec_body env mtd fa eb s")
      case (Inl x)
      then have "FormatExec_loop env mtd fa eb s = Inl x"
        using True by (subst FormatExec_loop.simps) simp
      then show ?thesis
        using step Inl by auto
    next
      case (Inr s')
      then have eq: "FormatExec_loop env mtd fa eb s = FormatExec_loop env mtd fa (eb + 1) s'"
        using True by (subst FormatExec_loop.simps) simp
      have "fe_inv env fa scan (eb + 1) s'"
        using step Inr by (simp add: body_state_def)
      then show ?thesis
        using "1.IH" [OF True Inr] "1.prems"(2) eq by simp
    qed
  qed
qed

lemma fe_inv_start: "fe_inv env fa scan eb (fe_start scan gd)"
  by (simp add: fe_inv_def fe_start_def)

lemma layout_writes_mem:
  "(Ubigen_write_layout_vol a b c d \<in> set cs) = ((a, b, c, d) \<in> set (layout_writes cs))"
  by (induction cs) (auto simp: layout_writes_def split: native_call.splits)

lemma fe_inv_reserved:
  assumes "fe_inv env fa scan k t"
  shows "(eb1 t = - 1 \<or> eb2 t = - 1) = (length (erased_ok env (st_calls t)) < 2)"
    and "eb1 t \<noteq> - 1 \<Longrightarrow> eb2 t \<noteq> - 1 \<Longrightarrow>
         take 2 (erased_ok env (st_calls t)) = [eb1 t, eb2 t] \<and>
         ec1 t = block_ec env fa scan (eb1 t) \<and> ec2 t = block_ec env fa scan (eb2 t)"
    and "\<forall>j \<in> set (take 2 (erased_ok env (st_calls t))). j \<notin> set (header_writes (st_calls t))"
    and "layout_writes (st_calls t) = []"
proof -
  show "(eb1 t = - 1 \<or> eb2 t = - 1) = (length (erased_ok env (st_calls t)) < 2)"
    using assms by (auto simp: fe_inv_def)
  show "\<forall>j \<in> set (take 2 (erased_ok env (st_calls t))). j \<notin> set (header_writes (st_calls t))"
    using assms by (simp add: fe_inv_def)
  show "layout_writes (st_calls t) = []"
    using assms by (simp add: fe_inv_def)
  assume a: "eb1 t \<noteq> - 1" and b: "eb2 t \<noteq> - 1"
  then have len: "2 \<le> length (erased_ok env (st_calls t))"
    using assms by (simp add: fe_inv_def)
  show "take 2 (erased_ok env (st_calls t)) = [eb1 t, eb2 t] \<and>
         ec1 t = block_ec env fa scan (eb1 t) \<and> ec2 t = block_ec env fa scan (eb2 t)"
    using assms a b take2_long [OF len] by (simp add: fe_inv_def)
qed


lemma FormatExec_shape:
  "FormatExec env mtd ui scan start_eb fa gd = (r, s) \<Longrightarrow>
   (\<exists>e. FormatExec_loop env mtd fa start_eb (fe_start scan gd) = Inl (e, s) \<and> r = Inl e) \<or>
   (\<exists>t. FormatExec_loop env mtd fa start_eb (fe_start scan gd) = Inr t \<and>
      ((eb1 t = - 1 \<or> eb2 t = - 1) \<and> s = t \<and>
         r = Inl FORMAT__NO_ERASEBLOCKS_FOR_VOLUME_TABLE_ERROR \<or>
       eb1 t \<noteq> - 1 \<and> eb2 t \<noteq> - 1 \<and>
         s = t\<lparr>st_calls := st_calls t @ [Ubigen_create_empty_vtbl]\<rparr> \<and>
         r = Inl FORMAT__UBIGEN_CREATE_EMPTY_VTBL_ERROR \<or>
       eb1 t \<noteq> - 1 \<and> eb2 t \<noteq> - 1 \<and>
         s = t\<lparr>st_calls := st_calls t @ [Ubigen_create_empty_vtbl] @
               [Ubigen_write_layout_vol (eb1 t) (eb2 t) (ec1 t) (ec2 t)]\<rparr>))"
  by (auto simp: FormatExec_def Let_def split: sum.splits prod.splits if_splits)

lemma reads_layout [simp]:
  "erased_ok env [Ubigen_create_empty_vtbl] = []"
  "header_writes [Ubigen_create_empty_vtbl] = []"
  "layout_writes [Ubigen_create_empty_vtbl] = []"
  "erased_ok env [Ubigen_write_layout_vol a b c d] = []"
  "header_writes [Ubigen_write_layout_vol a b c d] = []"
  "layout_writes [Ubigen_write_layout_vol a b c d] = [(a, b, c, d)]"
  by (simp_all add: erased_ok_def header_writes_def layout_writes_def)

text \<open>
  Claim C4: in every \<open>FormatExec\<close> run (from a start block that is not negative; \<open>Format\<close>
  passes 0), the first two blocks that are successfully erased are reserved for the volume
  table. No erase-counter header is written to them: no \<open>mtd_write\<close> of the run addresses one
  of the first two successfully erased blocks. Their indices and erase counters are the ones
  passed to the layout-volume write: every \<open>ubigen_write_layout_vol\<close> of the run receives
  exactly these two blocks, in the order of their erasure, each with the counter that the
  loop computed for it from the incoming scan, and a successful run makes exactly one such
  write. If the loop ends normally, a reservation is missing exactly when fewer than two
  blocks were successfully erased, and then \<open>FormatExec\<close> fails with
  \<open>FORMAT__NO_ERASEBLOCKS_FOR_VOLUME_TABLE_ERROR\<close>, its trace is the loop's and holds no
  layout-volume write.
\<close>

theorem FormatExec_volume_table_blocks:
  "0 \<le> start_eb \<and> FormatExec env mtd ui scan start_eb fa gd = (r, s) \<longrightarrow>
     (\<forall>j \<in> set (take 2 (erased_ok env (st_calls s))). j \<notin> set (header_writes (st_calls s))) \<and>
     (\<forall>a b c d. Ubigen_write_layout_vol a b c d \<in> set (st_calls s) \<longrightarrow>
        take 2 (erased_ok env (st_calls s)) = [a, b] \<and>
        c = block_ec env fa scan a \<and> d = block_ec env fa scan b) \<and>
     (r = Inr () \<longrightarrow> length (layout_writes (st_calls s)) = 1) \<and>
     (\<forall>t. FormatExec_loop env mtd fa start_eb (fe_start scan gd) = Inr t \<longrightarrow>
        (eb1 t = - 1 \<or> eb2 t = - 1) = (length (erased_ok env (st_calls t)) < 2) \<and>
        (length (erased_ok env (st_calls t)) < 2 \<longrightarrow>
           r = Inl FORMAT__NO_ERASEBLOCKS_FOR_VOLUME_TABLE_ERROR \<and> s = t \<and>
           layout_writes (st_calls s) = []))"
proof (intro impI)
  assume h: "0 \<le> start_eb \<and> FormatExec env mtd ui scan start_eb fa gd = (r, s)"
  then have nn: "0 \<le> start_eb" and run: "FormatExec env mtd ui scan start_eb fa gd = (r, s)"
    by simp_all
  obtain k where inv: "fe_inv env fa scan k
      (body_state (FormatExec_loop env mtd fa start_eb (fe_start scan gd)))"
    using loop_inv [OF fe_inv_start nn] by blast
  note shape = FormatExec_shape [OF run]
  from shape consider
      (abort) e where "FormatExec_loop env mtd fa start_eb (fe_start scan gd) = Inl (e, s)"
        "r = Inl e"
    | (none) t where "FormatExec_loop env mtd fa start_eb (fe_start scan gd) = Inr t"
        "eb1 t = - 1 \<or> eb2 t = - 1" "s = t"
        "r = Inl FORMAT__NO_ERASEBLOCKS_FOR_VOLUME_TABLE_ERROR"
    | (novtbl) t where "FormatExec_loop env mtd fa start_eb (fe_start scan gd) = Inr t"
        "eb1 t \<noteq> - 1" "eb2 t \<noteq> - 1"
        "s = t\<lparr>st_calls := st_calls t @ [Ubigen_create_empty_vtbl]\<rparr>"
        "r = Inl FORMAT__UBIGEN_CREATE_EMPTY_VTBL_ERROR"
    | (layout) t where "FormatExec_loop env mtd fa start_eb (fe_start scan gd) = Inr t"
        "eb1 t \<noteq> - 1" "eb2 t \<noteq> - 1"
        "s = t\<lparr>st_calls := st_calls t @ [Ubigen_create_empty_vtbl] @
               [Ubigen_write_layout_vol (eb1 t) (eb2 t) (ec1 t) (ec2 t)]\<rparr>"
    by blast
  then show "(\<forall>j \<in> set (take 2 (erased_ok env (st_calls s))). j \<notin> set (header_writes (st_calls s))) \<and>
     (\<forall>a b c d. Ubigen_write_layout_vol a b c d \<in> set (st_calls s) \<longrightarrow>
        take 2 (erased_ok env (st_calls s)) = [a, b] \<and>
        c = block_ec env fa scan a \<and> d = block_ec env fa scan b) \<and>
     (r = Inr () \<longrightarrow> length (layout_writes (st_calls s)) = 1) \<and>
     (\<forall>t. FormatExec_loop env mtd fa start_eb (fe_start scan gd) = Inr t \<longrightarrow>
        (eb1 t = - 1 \<or> eb2 t = - 1) = (length (erased_ok env (st_calls t)) < 2) \<and>
        (length (erased_ok env (st_calls t)) < 2 \<longrightarrow>
           r = Inl FORMAT__NO_ERASEBLOCKS_FOR_VOLUME_TABLE_ERROR \<and> s = t \<and>
           layout_writes (st_calls s) = []))"
  proof cases
    case abort
    have i: "fe_inv env fa scan k s"
      using inv abort by (simp add: body_state_def)
    show ?thesis
      using fe_inv_reserved(3,4) [OF i] abort by (simp add: layout_writes_mem)
  next
    case none
    have i: "fe_inv env fa scan k t"
      using inv none by (simp add: body_state_def)
    show ?thesis
      using fe_inv_reserved(1,3,4) [OF i] none by (simp add: layout_writes_mem)
  next
    case novtbl
    have i: "fe_inv env fa scan k t"
      using inv novtbl by (simp add: body_state_def)
    show ?thesis
      using fe_inv_reserved(1,3,4) [OF i] novtbl by (simp add: layout_writes_mem)
  next
    case layout
    have i: "fe_inv env fa scan k t"
      using inv layout by (simp add: body_state_def)
    show ?thesis
      using fe_inv_reserved(1,3,4) [OF i] fe_inv_reserved(2) [OF i layout(2,3)] layout
      by (simp add: layout_writes_mem)
  qed
qed

text \<open>
  Two complete runs. On the partition \<open>mtd_ok\<close> with every erase succeeding, blocks 0 and 1
  are reserved, the headers go to blocks 2 to 15 and the layout volume is written to blocks 0
  and 1 with the counter 6 each.
\<close>

lemma FormatExec_run_ok:
  "FormatExec env_ok mtd_ok ui_ok si_ok 0 FormatAttr_default guard_fresh =
     (Inr (),
      \<lparr>eb1 = 0, eb2 = 1, ec1 = 6, ec2 = 6, st_si = si_ok, st_guard = guard_fresh,
       st_calls = [Mtd_erase 0, Mtd_erase 1, Mtd_erase 2, Mtd_write 2 6,
          Mtd_erase 3, Mtd_write 3 6, Mtd_erase 4, Mtd_write 4 6, Mtd_erase 5, Mtd_write 5 6,
          Mtd_erase 6, Mtd_write 6 6, Mtd_erase 7, Mtd_write 7 6, Mtd_erase 8, Mtd_write 8 6,
          Mtd_erase 9, Mtd_write 9 6, Mtd_erase 10, Mtd_write 10 6, Mtd_erase 11, Mtd_write 11 6,
          Mtd_erase 12, Mtd_write 12 6, Mtd_erase 13, Mtd_write 13 6, Mtd_erase 14, Mtd_write 14 6,
          Mtd_erase 15, Mtd_write 15 6, Ubigen_create_empty_vtbl,
          Ubigen_write_layout_vol 0 1 6 6]\<rparr>)"
  by (simp add: FormatExec_def FormatExec_loop.simps FormatExec_body_def block_ec_def
      fe_start_def Let_def env_ok_def mtd_ok_def si_ok_def FormatAttr_default_def)

text \<open>
  On a partition with two good blocks of which the first fails to erase with \<open>EIO\<close>, the loop
  ends with one reservation only.
\<close>

lemma FormatExec_loop_short:
  "FormatExec_loop env_erase_eio mtd_ok FormatAttr_default 0 (fe_start si_two_good guard_fresh) =
     Inr \<lparr>eb1 = 1, eb2 = - 1, ec1 = 6, ec2 = - 1,
          st_si = si_two_good\<lparr>bad_cnt := 15,
                    ubi_scan_info.ec := (ubi_scan_info.ec si_two_good)[0 := 0xFFFFFFFC]\<rparr>,
          st_guard = \<lparr>consecutive_bad_blocks = 1, prev_bb = 0\<rparr>,
          st_calls = [Mtd_erase 0, Mtd_mark_bad 0, Mtd_erase 1]\<rparr>"
  by (simp add: FormatExec_loop.simps FormatExec_body_def MarkBadBlocks_def
      ConsecutiveBadBlocksCheck_def kMaxConsecutiveBadBlocks_def guard_fresh_def block_ec_def
      fe_start_def Let_def env_erase_eio_def env_ok_def mtd_ok_def si_two_good_def si_ok_def
      FormatAttr_default_def)

lemma erase_env_ok: "fst (mtd_erase_r env_ok eb) = 0"
  by (simp add: env_ok_def)

lemma erase_env_eio: "fst (mtd_erase_r env_erase_eio eb) = (if eb = 0 then - 1 else 0)"
  by (simp add: env_erase_eio_def)

text \<open>
  The theorem at these two runs: the first reserves blocks 0 and 1 and writes the layout
  volume there; the second erases only block 1 successfully and fails without a layout volume.
\<close>

theorem FormatExec_volume_table_blocks_witness:
  "(0 :: int) \<le> 0 \<and>
   fst (FormatExec env_ok mtd_ok ui_ok si_ok 0 FormatAttr_default guard_fresh) = Inr () \<and>
   take 2 (erased_ok env_ok
     (st_calls (snd (FormatExec env_ok mtd_ok ui_ok si_ok 0 FormatAttr_default guard_fresh)))) =
     [0, 1] \<and>
   header_writes
     (st_calls (snd (FormatExec env_ok mtd_ok ui_ok si_ok 0 FormatAttr_default guard_fresh))) =
     [2, 3, 4, 5, 6, 7, 8, 9, 10, 11, 12, 13, 14, 15] \<and>
   layout_writes
     (st_calls (snd (FormatExec env_ok mtd_ok ui_ok si_ok 0 FormatAttr_default guard_fresh))) =
     [(0, 1, block_ec env_ok FormatAttr_default si_ok 0,
       block_ec env_ok FormatAttr_default si_ok 1)] \<and>
   erased_ok env_erase_eio (st_calls (body_state
     (FormatExec_loop env_erase_eio mtd_ok FormatAttr_default 0
        (fe_start si_two_good guard_fresh)))) = [1] \<and>
   fst (FormatExec env_erase_eio mtd_ok ui_ok si_two_good 0 FormatAttr_default guard_fresh) =
     Inl FORMAT__NO_ERASEBLOCKS_FOR_VOLUME_TABLE_ERROR \<and>
   layout_writes (st_calls (snd
     (FormatExec env_erase_eio mtd_ok ui_ok si_two_good 0 FormatAttr_default guard_fresh))) = []"
proof -
  have lay: "Ubigen_write_layout_vol 0 1 6 6 \<in> set (st_calls (snd
      (FormatExec env_ok mtd_ok ui_ok si_ok 0 FormatAttr_default guard_fresh)))"
    by (simp add: FormatExec_run_ok)
  have six: "block_ec env_ok FormatAttr_default si_ok 0 = 6 \<and>
      block_ec env_ok FormatAttr_default si_ok 1 = 6"
    using FormatExec_volume_table_blocks [of 0 env_ok mtd_ok ui_ok si_ok FormatAttr_default
        guard_fresh "fst (FormatExec env_ok mtd_ok ui_ok si_ok 0 FormatAttr_default guard_fresh)"
        "snd (FormatExec env_ok mtd_ok ui_ok si_ok 0 FormatAttr_default guard_fresh)"] lay
    by simp
  have few: "erased_ok env_erase_eio [Mtd_erase 0, Mtd_mark_bad 0, Mtd_erase 1] = [1]"
    by (simp add: erase_env_eio)
  have short: "fst (FormatExec env_erase_eio mtd_ok ui_ok si_two_good 0 FormatAttr_default
        guard_fresh) = Inl FORMAT__NO_ERASEBLOCKS_FOR_VOLUME_TABLE_ERROR \<and>
      layout_writes (st_calls (snd (FormatExec env_erase_eio mtd_ok ui_ok si_two_good 0
        FormatAttr_default guard_fresh))) = []"
    using FormatExec_volume_table_blocks [of 0 env_erase_eio mtd_ok ui_ok si_two_good
        FormatAttr_default guard_fresh
        "fst (FormatExec env_erase_eio mtd_ok ui_ok si_two_good 0 FormatAttr_default guard_fresh)"
        "snd (FormatExec env_erase_eio mtd_ok ui_ok si_two_good 0 FormatAttr_default guard_fresh)"]
    by (simp add: FormatExec_loop_short few)
  show ?thesis
    using six short few
    by (simp add: FormatExec_run_ok FormatExec_loop_short body_state_def erase_env_ok)
qed

section \<open>Volume operations and attachment\<close>

text \<open>
  \<open>Create\<close> hands out a device only once \<open>Attach\<close> has succeeded, and a failed \<open>Init\<close>
  leaves the server without a device.
\<close>

lemma Create_attached: "Create env nm fmt gd = (Inr d, gd', cs) \<Longrightarrow> is_attached d"
  by (auto simp: Create_def Attach_def Let_def
      split: prod.splits sum.splits if_splits option.splits)

lemma Init_failure_leaves_no_device:
  "UbiDeviceServer_Init env srv nm fmt gd = (Inl e, srv', gd', cs) \<Longrightarrow> ubi_device srv' = None"
  by (auto simp: UbiDeviceServer_Init_def Let_def split: prod.splits sum.splits)

text \<open>
  None of the five volume operations of \<open>UbiDevice\<close> reads \<open>is_attached_\<close>: each gives
  the same result and makes the same calls whatever the flag.
\<close>

lemma CreateUbiLibFileHandle_first:
  "\<exists>cs. snd (CreateUbiLibFileHandle env) = Libubi_open # cs"
  by (auto simp: CreateUbiLibFileHandle_def split: prod.splits)

lemma UbiProbeNode_flag: "UbiProbeNode env (d\<lparr>is_attached := b\<rparr>) = UbiProbeNode env d"
  by (simp add: UbiProbeNode_def)

lemma MakeVolume_flag:
  "MakeVolume env (d\<lparr>is_attached := b\<rparr>) v n = MakeVolume env d v n"
  by (simp add: MakeVolume_def UbiProbeNode_flag Let_def
      split: prod.splits sum.splits)

lemma RemoveVolume_flag:
  "RemoveVolume env (d\<lparr>is_attached := b\<rparr>) v lg = RemoveVolume env d v lg"
  by (simp add: RemoveVolume_def UbiProbeNode_flag Let_def
      split: prod.splits sum.splits)

lemma prologue_flag:
  "UpdateVolume_prologue env (d\<lparr>is_attached := b\<rparr>) v img skip sz =
     UpdateVolume_prologue env d v img skip sz"
  by (simp add: UpdateVolume_prologue_def UbiProbeNode_flag Let_def
      split: prod.splits sum.splits)

lemma UpdateVolume_flag:
  "UpdateVolume env (d\<lparr>is_attached := b\<rparr>) v img skip sz = UpdateVolume env d v img skip sz"
  by (simp add: UpdateVolume_def prologue_flag)

lemma MountVolume_flag:
  "MountVolume env (d\<lparr>is_attached := b\<rparr>) v dir = MountVolume env d v dir"
  by (simp add: MountVolume_def GetUbiVolumeFile_def UbiProbeNode_flag Let_def
      split: prod.splits sum.splits)

lemma UnmountVolume_flag:
  "UnmountVolume env (d\<lparr>is_attached := b\<rparr>) dir = UnmountVolume env d dir"
  by (simp add: UnmountVolume_def)

lemma MakeVolume_first: "\<exists>cs. snd (MakeVolume env d v n) = Libubi_open # cs"
  by (auto simp: MakeVolume_def CreateUbiLibFileHandle_def Let_def
      split: prod.splits sum.splits if_splits)

lemma RemoveVolume_first: "\<exists>cs. snd (RemoveVolume env d v lg) = Libubi_open # cs"
  by (auto simp: RemoveVolume_def CreateUbiLibFileHandle_def Let_def
      split: prod.splits sum.splits if_splits)

lemma MountVolume_first: "\<exists>cs. snd (MountVolume env d v dir) = Libubi_open # cs"
  by (auto simp: MountVolume_def GetUbiVolumeFile_def CreateUbiLibFileHandle_def Let_def
      split: prod.splits sum.splits if_splits)

lemma UnmountVolume_first: "snd (UnmountVolume env d dir) = [Sys_umount dir]"
  by (simp add: UnmountVolume_def)

lemma prologue_first:
  "\<exists>cs. prologue_calls (UpdateVolume_prologue env d v img skip sz) = Ifstream_open img # cs"
  by (auto simp: UpdateVolume_prologue_def prologue_calls_def Let_def
      split: prod.splits sum.splits if_splits)

lemma MakeVolume_code:
  "fst (MakeVolume env d v n) = Inr () \<or> (\<exists>e. fst (MakeVolume env d v n) = Inl (error_num env e))"
  by (auto simp: MakeVolume_def Let_def split: prod.splits sum.splits if_splits)

lemma RemoveVolume_code:
  "fst (RemoveVolume env d v lg) = Inr () \<or>
   (\<exists>e. fst (RemoveVolume env d v lg) = Inl (error_num env e))"
  by (auto simp: RemoveVolume_def Let_def split: prod.splits sum.splits if_splits)

lemma MountVolume_code:
  "fst (MountVolume env d v dir) = Inr () \<or>
   (\<exists>e. fst (MountVolume env d v dir) = Inl (error_num env e))"
  by (auto simp: MountVolume_def Let_def split: prod.splits sum.splits if_splits)

lemma UnmountVolume_code:
  "fst (UnmountVolume env d dir) = Inr () \<or>
   (\<exists>e. fst (UnmountVolume env d dir) = Inl (error_num env e))"
  by (auto simp: UnmountVolume_def)

lemma prologue_code:
  "UpdateVolume_prologue env d v img skip sz = Inl (k, x) \<Longrightarrow> \<exists>e. k = error_num env e"
  by (auto simp: UpdateVolume_prologue_def Let_def split: prod.splits sum.splits if_splits)

lemma UpdateVolume_code:
  "UpdateVolume env d v img skip sz = Some (r, x) \<Longrightarrow>
   r = Inr () \<or> (\<exists>e. r = Inl (error_num env e))"
  by (auto simp: UpdateVolume_def split: sum.splits prod.splits option.splits
      dest: prologue_code)

text \<open>
  Claim C7: a volume operation (\<open>MakeVolume\<close>, \<open>RemoveVolume\<close>, \<open>UpdateVolume\<close>,
  \<open>MountVolume\<close>, \<open>UnmountVolume\<close>) invoked against a handle that was never attached or
  initialised is rejected with the code for that, and makes no native call. This holds of
  the server: while it holds no device, each of its five handlers throws the exception
  with code \<open>-1\<close> and its list of native calls is empty, whereas a handler of a server that
  holds a device fails, if it fails, with the number of an \<open>ErrorCode\<close> enumerator. It does
  not hold of the device: the five operations of \<open>UbiDevice\<close> give the same result and make
  the same calls whatever \<open>is_attached_\<close> is, and each of them starts with a native call
  (\<open>libubi_open\<close>, the opening of the image file, or \<open>umount\<close>).
\<close>

theorem volume_operations_without_attachment:
  "(ubi_device srv = None \<longrightarrow>
     UbiDeviceServer_MakeVolume env srv vol_name size_in_bytes = (Inl (- 1), []) \<and>
     UbiDeviceServer_RemoveVolume env srv vol_name is_to_print_log_error = (Inl (- 1), []) \<and>
     UbiDeviceServer_UpdateVolume env srv vol_name img skip_bytes sz = Some (Inl (- 1), []) \<and>
     UbiDeviceServer_MountVolume env srv vol_name dir = (Inl (- 1), []) \<and>
     UbiDeviceServer_UnmountVolume env srv dir = (Inl (- 1), [])) \<and>
   (ubi_device srv' = Some d \<longrightarrow>
     (fst (UbiDeviceServer_MakeVolume env srv' vol_name size_in_bytes) = Inr () \<or>
      (\<exists>e. fst (UbiDeviceServer_MakeVolume env srv' vol_name size_in_bytes) =
             Inl (error_num env e))) \<and>
     (fst (UbiDeviceServer_RemoveVolume env srv' vol_name is_to_print_log_error) = Inr () \<or>
      (\<exists>e. fst (UbiDeviceServer_RemoveVolume env srv' vol_name is_to_print_log_error) =
             Inl (error_num env e))) \<and>
     (\<forall>r cs. UbiDeviceServer_UpdateVolume env srv' vol_name img skip_bytes sz = Some (r, cs) \<longrightarrow>
         r = Inr () \<or> (\<exists>e. r = Inl (error_num env e))) \<and>
     (fst (UbiDeviceServer_MountVolume env srv' vol_name dir) = Inr () \<or>
      (\<exists>e. fst (UbiDeviceServer_MountVolume env srv' vol_name dir) = Inl (error_num env e))) \<and>
     (fst (UbiDeviceServer_UnmountVolume env srv' dir) = Inr () \<or>
      (\<exists>e. fst (UbiDeviceServer_UnmountVolume env srv' dir) = Inl (error_num env e)))) \<and>
   MakeVolume env (h\<lparr>is_attached := b\<rparr>) vol_name n = MakeVolume env h vol_name n \<and>
   RemoveVolume env (h\<lparr>is_attached := b\<rparr>) vol_name is_to_print_log_error =
     RemoveVolume env h vol_name is_to_print_log_error \<and>
   UpdateVolume env (h\<lparr>is_attached := b\<rparr>) vol_name img skip n =
     UpdateVolume env h vol_name img skip n \<and>
   MountVolume env (h\<lparr>is_attached := b\<rparr>) vol_name dir = MountVolume env h vol_name dir \<and>
   UnmountVolume env (h\<lparr>is_attached := b\<rparr>) dir = UnmountVolume env h dir \<and>
   (\<exists>cs. snd (MakeVolume env h vol_name n) = Libubi_open # cs) \<and>
   (\<exists>cs. snd (RemoveVolume env h vol_name is_to_print_log_error) = Libubi_open # cs) \<and>
   (\<exists>cs. prologue_calls (UpdateVolume_prologue env h vol_name img skip n) =
           Ifstream_open img # cs) \<and>
   (\<exists>cs. snd (MountVolume env h vol_name dir) = Libubi_open # cs) \<and>
   snd (UnmountVolume env h dir) = [Sys_umount dir]"
proof (intro conjI)
  show "ubi_device srv = None \<longrightarrow>
     UbiDeviceServer_MakeVolume env srv vol_name size_in_bytes = (Inl (- 1), []) \<and>
     UbiDeviceServer_RemoveVolume env srv vol_name is_to_print_log_error = (Inl (- 1), []) \<and>
     UbiDeviceServer_UpdateVolume env srv vol_name img skip_bytes sz = Some (Inl (- 1), []) \<and>
     UbiDeviceServer_MountVolume env srv vol_name dir = (Inl (- 1), []) \<and>
     UbiDeviceServer_UnmountVolume env srv dir = (Inl (- 1), [])"
    by (simp add: UbiDeviceServer_MakeVolume_def UbiDeviceServer_RemoveVolume_def
        UbiDeviceServer_UpdateVolume_def UbiDeviceServer_MountVolume_def
        UbiDeviceServer_UnmountVolume_def)
  show "ubi_device srv' = Some d \<longrightarrow>
     (fst (UbiDeviceServer_MakeVolume env srv' vol_name size_in_bytes) = Inr () \<or>
      (\<exists>e. fst (UbiDeviceServer_MakeVolume env srv' vol_name size_in_bytes) =
             Inl (error_num env e))) \<and>
     (fst (UbiDeviceServer_RemoveVolume env srv' vol_name is_to_print_log_error) = Inr () \<or>
      (\<exists>e. fst (UbiDeviceServer_RemoveVolume env srv' vol_name is_to_print_log_error) =
             Inl (error_num env e))) \<and>
     (\<forall>r cs. UbiDeviceServer_UpdateVolume env srv' vol_name img skip_bytes sz = Some (r, cs) \<longrightarrow>
         r = Inr () \<or> (\<exists>e. r = Inl (error_num env e))) \<and>
     (fst (UbiDeviceServer_MountVolume env srv' vol_name dir) = Inr () \<or>
      (\<exists>e. fst (UbiDeviceServer_MountVolume env srv' vol_name dir) = Inl (error_num env e))) \<and>
     (fst (UbiDeviceServer_UnmountVolume env srv' dir) = Inr () \<or>
      (\<exists>e. fst (UbiDeviceServer_UnmountVolume env srv' dir) = Inl (error_num env e)))"
  proof (intro impI conjI allI)
    assume dev: "ubi_device srv' = Some d"
    show "fst (UbiDeviceServer_MakeVolume env srv' vol_name size_in_bytes) = Inr () \<or>
      (\<exists>e. fst (UbiDeviceServer_MakeVolume env srv' vol_name size_in_bytes) =
             Inl (error_num env e))"
      using dev MakeVolume_code [of env d vol_name "ucast size_in_bytes"]
      by (simp add: UbiDeviceServer_MakeVolume_def)
    show "fst (UbiDeviceServer_RemoveVolume env srv' vol_name is_to_print_log_error) = Inr () \<or>
      (\<exists>e. fst (UbiDeviceServer_RemoveVolume env srv' vol_name is_to_print_log_error) =
             Inl (error_num env e))"
      using dev RemoveVolume_code [of env d vol_name is_to_print_log_error]
      by (simp add: UbiDeviceServer_RemoveVolume_def)
    show "fst (UbiDeviceServer_MountVolume env srv' vol_name dir) = Inr () \<or>
      (\<exists>e. fst (UbiDeviceServer_MountVolume env srv' vol_name dir) = Inl (error_num env e))"
      using dev MountVolume_code [of env d vol_name dir]
      by (simp add: UbiDeviceServer_MountVolume_def)
    show "fst (UbiDeviceServer_UnmountVolume env srv' dir) = Inr () \<or>
      (\<exists>e. fst (UbiDeviceServer_UnmountVolume env srv' dir) = Inl (error_num env e))"
      using dev UnmountVolume_code [of env d dir]
      by (simp add: UbiDeviceServer_UnmountVolume_def)
    fix r cs
    assume "UbiDeviceServer_UpdateVolume env srv' vol_name img skip_bytes sz = Some (r, cs)"
    then obtain x where
      "UpdateVolume env d vol_name img (ucast skip_bytes) (ucast sz) = Some (r, x)"
      using dev by (auto simp: UbiDeviceServer_UpdateVolume_def split: option.splits)
    then show "r = Inr () \<or> (\<exists>e. r = Inl (error_num env e))"
      by (rule UpdateVolume_code)
  qed
  show "MakeVolume env (h\<lparr>is_attached := b\<rparr>) vol_name n = MakeVolume env h vol_name n"
    by (rule MakeVolume_flag)
  show "RemoveVolume env (h\<lparr>is_attached := b\<rparr>) vol_name is_to_print_log_error =
     RemoveVolume env h vol_name is_to_print_log_error"
    by (rule RemoveVolume_flag)
  show "UpdateVolume env (h\<lparr>is_attached := b\<rparr>) vol_name img skip n =
     UpdateVolume env h vol_name img skip n"
    by (rule UpdateVolume_flag)
  show "MountVolume env (h\<lparr>is_attached := b\<rparr>) vol_name dir = MountVolume env h vol_name dir"
    by (rule MountVolume_flag)
  show "UnmountVolume env (h\<lparr>is_attached := b\<rparr>) dir = UnmountVolume env h dir"
    by (rule UnmountVolume_flag)
  show "\<exists>cs. snd (MakeVolume env h vol_name n) = Libubi_open # cs"
    by (rule MakeVolume_first)
  show "\<exists>cs. snd (RemoveVolume env h vol_name is_to_print_log_error) = Libubi_open # cs"
    by (rule RemoveVolume_first)
  show "\<exists>cs. prologue_calls (UpdateVolume_prologue env h vol_name img skip n) =
           Ifstream_open img # cs"
    by (rule prologue_first)
  show "\<exists>cs. snd (MountVolume env h vol_name dir) = Libubi_open # cs"
    by (rule MountVolume_first)
  show "snd (UnmountVolume env h dir) = [Sys_umount dir]"
    by (rule UnmountVolume_first)
qed

text \<open>
  The theorem at a server on which \<open>Init\<close> was never called, at a server that holds the
  device \<open>dev_ok\<close>, and at the device that the constructor makes for partition 3.
\<close>

lemma server_MakeVolume_ok:
  "UbiDeviceServer_MakeVolume env_ok \<lparr>ubi_device = Some dev_ok\<rparr> ''rootfs'' 0 =
     (Inr (), [Libubi_open, Ubi_probe_node ''/dev/ubi0'', Ubi_get_dev_info ''/dev/ubi0'',
        Ubi_mkvol ''/dev/ubi0'' \<lparr>ubi_mkvol_request.vol_id = - 1, alignment = 1, bytes = 5000,
                     vol_type = 3, name = ''rootfs''\<rparr>])"
  by (simp add: UbiDeviceServer_MakeVolume_def MakeVolume_def CreateUbiLibFileHandle_def
      UbiProbeNode_def dev_ok_def kMakeVolDefaultAlignment_def Let_def env_ok_def)

lemma server_UpdateVolume_ok:
  "fst (the (UbiDeviceServer_UpdateVolume env_ok \<lparr>ubi_device = Some dev_ok\<rparr>
       ''rootfs'' ''img'' 4 0)) = Inr ()"
  by (simp add: UbiDeviceServer_UpdateVolume_def UpdateVolume_run)

theorem volume_operations_without_attachment_witness:
  "ubi_device UbiDeviceServer_new = None \<and>
   UbiDeviceServer_MakeVolume env_ok UbiDeviceServer_new ''rootfs'' 0 = (Inl (- 1), []) \<and>
   UbiDeviceServer_RemoveVolume env_ok UbiDeviceServer_new ''rootfs'' True = (Inl (- 1), []) \<and>
   UbiDeviceServer_UpdateVolume env_ok UbiDeviceServer_new ''rootfs'' ''img'' 4 0 =
     Some (Inl (- 1), []) \<and>
   UbiDeviceServer_MountVolume env_ok UbiDeviceServer_new ''rootfs'' ''/mnt'' = (Inl (- 1), []) \<and>
   UbiDeviceServer_UnmountVolume env_ok UbiDeviceServer_new ''/mnt'' = (Inl (- 1), []) \<and>
   ubi_device \<lparr>ubi_device = Some dev_ok\<rparr> = Some dev_ok \<and>
   fst (UbiDeviceServer_MakeVolume env_ok \<lparr>ubi_device = Some dev_ok\<rparr> ''rootfs'' 0) = Inr () \<and>
   fst (the (UbiDeviceServer_UpdateVolume env_ok \<lparr>ubi_device = Some dev_ok\<rparr>
          ''rootfs'' ''img'' 4 0)) = Inr () \<and>
   MakeVolume env_ok ((UbiDevice_new 3)\<lparr>is_attached := True\<rparr>) ''rootfs'' 0 =
     MakeVolume env_ok (UbiDevice_new 3) ''rootfs'' 0 \<and>
   hd (snd (MakeVolume env_ok (UbiDevice_new 3) ''rootfs'' 0)) = Libubi_open \<and>
   snd (UnmountVolume env_ok (UbiDevice_new 3) ''/mnt'') = [Sys_umount ''/mnt'']"
  using volume_operations_without_attachment
    [where srv = UbiDeviceServer_new and env = env_ok and vol_name = "''rootfs''"
       and size_in_bytes = 0 and is_to_print_log_error = True and img = "''img''"
       and skip_bytes = 4 and sz = 0 and dir = "''/mnt''"
       and srv' = "\<lparr>ubi_device = Some dev_ok\<rparr>" and d = dev_ok
       and h = "UbiDevice_new 3" and b = True and n = 0 and skip = 0]
  by (auto simp: UbiDeviceServer_new_def server_MakeVolume_ok server_UpdateVolume_ok)

text \<open>
  The device that the constructor makes for partition 3 was never attached; in the
  environment \<open>env_ok\<close> its \<open>MakeVolume\<close> succeeds and calls \<open>ubi_mkvol\<close>.
\<close>

lemma MakeVolume_new_device:
  "MakeVolume env_ok (UbiDevice_new 3) ''rootfs'' 0 =
     (Inr (), [Libubi_open, Ubi_probe_node [], Ubi_get_dev_info [],
        Ubi_mkvol [] \<lparr>ubi_mkvol_request.vol_id = - 1, alignment = 1, bytes = 5000,
                     vol_type = 3, name = ''rootfs''\<rparr>])"
  by (simp add: MakeVolume_def CreateUbiLibFileHandle_def UbiProbeNode_def UbiDevice_new_def
      kMakeVolDefaultAlignment_def Let_def env_ok_def)

theorem MakeVolume_unattached_counterexample:
  "is_attached (UbiDevice_new 3) = False \<and>
   fst (MakeVolume env_ok (UbiDevice_new 3) ''rootfs'' 0) = Inr () \<and>
   snd (MakeVolume env_ok (UbiDevice_new 3) ''rootfs'' 0) =
     [Libubi_open, Ubi_probe_node [], Ubi_get_dev_info [],
      Ubi_mkvol [] \<lparr>ubi_mkvol_request.vol_id = - 1, alignment = 1, bytes = 5000,
                   vol_type = 3, name = ''rootfs''\<rparr>]"
  by (simp add: MakeVolume_new_device) (simp add: UbiDevice_new_def)

end
